theory Spec2Isabelle
  imports Complex_Main "HOL-Library.Word" "HOL-Library.Signed_Division"
begin

unbundle bit_operations_syntax

section \<open>Numeric substrate\<close>

text \<open>
  The firmware runs on a 32-bit ARM core: \<open>int\<close> and \<open>long\<close> (and so \<open>fixed_t\<close>) are
  32-bit two's complement, \<open>uint8_t\<close> and \<open>uint16_t\<close> are promoted to \<open>int\<close> in arithmetic.
  Values of type \<open>fixed_t\<close>, \<open>long\<close> and \<open>int\<close> are modelled as HOL integers; every
  operation of the source whose result may leave the 32-bit range is wrapped in \<open>s32\<close>.
  Division is C division (truncation towards zero, written \<open>sdiv\<close>); a zero divisor,
  an array access outside the array and the read of an unassigned local variable are
  undefined in C and are results of type \<open>synth_error\<close> in the model.
\<close>

datatype synth_error = DivisionByZero | IndexOutOfRange string | UninitialisedRead string

definition s32 :: "int \<Rightarrow> int" where
  "s32 x = (x + 2147483648) mod 4294967296 - 2147483648"

definition u32 :: "int \<Rightarrow> int" where
  "u32 x = x mod 4294967296"

definition u16 :: "int \<Rightarrow> int" where
  "u16 x = x mod 65536"

definition s16 :: "int \<Rightarrow> int" where
  "s16 x = (x + 32768) mod 65536 - 32768"

text \<open>\<open>a / b\<close> on 32-bit signed operands.\<close>

definition c_div :: "int \<Rightarrow> int \<Rightarrow> synth_error + int" where
  "c_div a b = (if b = 0 then Inl DivisionByZero else Inr (s32 (a sdiv b)))"

text \<open>An indexed read of a constant table.\<close>

definition table_read :: "string \<Rightarrow> 'a list \<Rightarrow> int \<Rightarrow> synth_error + 'a" where
  "table_read name xs i =
     (if 0 \<le> i \<and> i < int (length xs) then Inr (xs ! nat i) else Inl (IndexOutOfRange name))"

text \<open>The macros for 12:20 fixed-point numbers.\<close>

definition IntToFixedPt :: "int \<Rightarrow> int" where
  "IntToFixedPt i = s32 (push_bit 20 i)"

definition FractionPart :: "int \<Rightarrow> nat \<Rightarrow> int" where
  "FractionPart z n = drop_bit (20 - n) (z AND 0xFFFFF)"

definition MultiplyFixed :: "int \<Rightarrow> int \<Rightarrow> int" where
  "MultiplyFixed v w = s32 (drop_bit 20 (v * w))"

definition FIXED_MIN_LEVEL :: int where
  "FIXED_MIN_LEVEL = 1"

definition FIXED_MAX_LEVEL :: int where
  "FIXED_MAX_LEVEL = s32 (IntToFixedPt 1 - 1)"

definition MAX_CLIPPING_LEVEL :: int where
  "MAX_CLIPPING_LEVEL = s32 (IntToFixedPt 1 * 97) sdiv 100"

section \<open>Data model\<close>

type_synonym uint8_t = "8 word"
type_synonym uint16_t = "16 word"
type_synonym short = "16 word" \<comment> \<open>signed: read with \<open>sint\<close>\<close>

definition WAVE_TABLE_SIZE :: int where
  "WAVE_TABLE_SIZE = 2048"

definition SAMPLE_RATE_HZ :: int where
  "SAMPLE_RATE_HZ = 32000"

definition MAX_OSC_FREQ_HZ :: int where
  "MAX_OSC_FREQ_HZ = 12000"

definition REVERB_LOOP_TIME_SEC :: rat where
  "REVERB_LOOP_TIME_SEC = 0.04"

definition REVERB_ATTENUATION_PC :: int where
  "REVERB_ATTENUATION_PC = 70"

definition AUDIO_CTRL_ENV1_VELO :: uint8_t where
  "AUDIO_CTRL_ENV1_VELO = 2"

definition VIBRATO_DISABLED :: uint8_t where
  "VIBRATO_DISABLED = 0"

definition PITCH_BEND_BY_MIDI_MSG :: uint8_t where
  "PITCH_BEND_BY_MIDI_MSG = 1"

definition OSC_MODN_SOURCE_CONT_POS :: uint16_t where
  "OSC_MODN_SOURCE_CONT_POS = 1"

definition OSC_MODN_SOURCE_CONT_NEG :: uint16_t where
  "OSC_MODN_SOURCE_CONT_NEG = 2"

definition OSC_MODN_SOURCE_ENV2 :: uint16_t where
  "OSC_MODN_SOURCE_ENV2 = 3"

definition OSC_MODN_SOURCE_MODN :: uint16_t where
  "OSC_MODN_SOURCE_MODN = 4"

definition OSC_MODN_SOURCE_EXPR_POS :: uint16_t where
  "OSC_MODN_SOURCE_EXPR_POS = 5"

definition OSC_MODN_SOURCE_EXPR_NEG :: uint16_t where
  "OSC_MODN_SOURCE_EXPR_NEG = 6"

definition OSC_MODN_SOURCE_LFO :: uint16_t where
  "OSC_MODN_SOURCE_LFO = 7"

definition OSC_MODN_SOURCE_VELO_POS :: uint16_t where
  "OSC_MODN_SOURCE_VELO_POS = 8"

definition OSC_MODN_SOURCE_VELO_NEG :: uint16_t where
  "OSC_MODN_SOURCE_VELO_NEG = 9"

definition OMNI_ON_MONO :: uint8_t where
  "OMNI_ON_MONO = 2"

definition OMNI_OFF_MONO :: uint8_t where
  "OMNI_OFF_MONO = 4"

definition NOTE_OFF_CMD :: uint8_t where
  "NOTE_OFF_CMD = 0x80"

definition NOTE_ON_CMD :: uint8_t where
  "NOTE_ON_CMD = 0x90"

definition CONTROL_CHANGE_CMD :: uint8_t where
  "CONTROL_CHANGE_CMD = 0xB0"

definition PROGRAM_CHANGE_CMD :: uint8_t where
  "PROGRAM_CHANGE_CMD = 0xC0"

definition CHAN_PRESSURE_CMD :: uint8_t where
  "CHAN_PRESSURE_CMD = 0xD0"

definition PITCH_BEND_CMD :: uint8_t where
  "PITCH_BEND_CMD = 0xE0"

definition SYS_EXCLUSIVE_MSG :: uint8_t where
  "SYS_EXCLUSIVE_MSG = 0xF0"

definition SYSTEM_MSG_EOX :: uint8_t where
  "SYSTEM_MSG_EOX = 0xF7"

definition SYS_EXCL_REMI_ID :: uint8_t where
  "SYS_EXCL_REMI_ID = 0x73"

definition MIDI_MSG_MAX_LENGTH :: int where
  "MIDI_MSG_MAX_LENGTH = 16"

datatype Envelope_Gen_Phases =
  ENV_IDLE | ENV_ATTACK | ENV_PEAK_HOLD | ENV_DECAY | ENV_SUSTAIN | ENV_RELEASE

record ConfigParams_t =
  AudioAmpldCtrlMode :: uint8_t
  VibratoCtrlMode :: uint8_t
  PitchBendMode :: uint8_t
  PitchBendRange :: uint8_t
  ReverbMix_pc :: uint8_t
  PresetLastSelected :: uint8_t
  Pitch_CV_BaseNote :: uint8_t
  Pitch_CV_Quantize :: bool
  CV_ModeAutoSwitch :: bool
  CV3_is_Velocity :: bool
  CV1_FullScale_mV :: short
  FineTuning_cents :: short
  EEpromCheckWord :: "32 word"

text \<open>The six-element arrays of the patch and of the engine are lists read at the
  oscillator numbers 0..5.\<close>

record PatchParamTable_t =
  PresetName :: string
  OscFreqMult :: "uint16_t list"
  OscAmpldModSource :: "uint16_t list"
  OscDetune :: "short list"
  MixerInputStep :: "uint16_t list"
  EnvAttackTime :: uint16_t
  EnvHoldTime :: uint16_t
  EnvDecayTime :: uint16_t
  EnvSustainLevel :: uint16_t
  EnvReleaseTime :: uint16_t
  AmpControlMode :: uint16_t
  ContourStartLevel :: uint16_t
  ContourDelayTime :: uint16_t
  ContourRampTime :: uint16_t
  ContourHoldLevel :: uint16_t
  Env2DecayTime :: uint16_t
  Env2SustainLevel :: uint16_t
  LFO_Freq_x10 :: uint16_t
  LFO_RampTime :: uint16_t
  LFO_FM_Depth :: uint16_t
  LFO_AM_Depth :: uint16_t
  MixerOutGain_x10 :: uint16_t
  LimiterLevelPc :: uint16_t

text \<open>
  The variables of the synth engine module: its file-scope variables and the static
  variables of \<open>AmpldEnvelopeGenerator\<close> (\<open>EnvSegment\<close> .. \<open>ampldMaximum\<close>).
  \<open>m_RvbDecay\<close>, which every call of \<open>SynthPrepare\<close> sets to the same
  single-precision power, the reverb delay line and the hardware registers are not
  represented.
\<close>

record synth =
  m_OscStepInit :: "int list"
  m_OscStepDetune :: "int list"
  m_OscMuted :: "bool list"
  m_LFO_PhaseAngle :: int
  m_LFO_Step :: int
  m_LFO_output :: int
  m_RampOutput :: int
  m_ExpressionLevel :: int
  m_ModulationLevel :: int
  m_PitchBendFactor :: int
  m_ENV1_Output :: int
  m_ENV2_Output :: int
  m_ContourOutput :: int
  m_KeyVelocity :: int
  m_TriggerAttack1 :: bool
  m_TriggerRelease1 :: bool
  m_TriggerAttack2 :: bool
  m_TriggerRelease2 :: bool
  m_TriggerContour :: bool
  m_TriggerReset :: bool
  m_LegatoNoteChange :: bool
  m_NoteOn :: bool
  m_NotePlaying :: uint8_t
  m_RvbDelayLen :: int
  m_RvbAtten :: uint16_t
  m_RvbMix :: uint16_t
  v_SynthEnable :: bool
  v_OscAngle :: "int list"
  v_OscStep :: "int list"
  v_OscAmpldModn :: "uint16_t list"
  v_MixerLevel :: "uint16_t list"
  v_MixerOutGain :: uint16_t
  v_LimiterLevelPos :: int
  v_LimiterLevelNeg :: int
  v_OutputLevel :: uint16_t
  EnvSegment :: Envelope_Gen_Phases
  envPhaseTimer :: int
  sustainLevel :: int
  timeConstant :: int
  ampldDelta :: int
  ampldMaximum :: int

text \<open>
  The voice module as a whole: configuration, MIDI settings, the active patch, the
  engine, the static variables of \<open>MidiInputService\<close> (\<open>midiMessage\<close> ..
  \<open>msgComplete\<close>) and of \<open>ProcessControlChange\<close> (\<open>modulationHi\<close>,
  \<open>expressionHi\<close>), and the level of the gate pin \<open>TESTPOINT2\<close>.
  \<open>dispatched\<close> is an observation added by the model: the messages handed to
  \<open>ProcessMidiMessage\<close>, oldest first, each with its length argument.
\<close>

record voice =
  g_Config :: ConfigParams_t
  g_MidiChannel :: uint8_t
  g_MidiMode :: uint8_t
  g_MidiRegisParam :: uint8_t
  g_Patch :: PatchParamTable_t
  engine :: synth
  midiMessage :: "uint8_t list"
  msgBytesExpected :: int
  msgByteCount :: int
  msgIndex :: int
  msgStatus :: uint8_t
  msgComplete :: bool
  modulationHi :: uint8_t
  expressionHi :: uint8_t
  TESTPOINT2 :: bool
  dispatched :: "(uint8_t list \<times> int) list"

section \<open>Constant tables\<close>

text \<open>
  Frequencies are \<open>float\<close> in the firmware and rationals here: the decimal constants
  are taken as written and products are exact, so the rounding of single-precision
  arithmetic is not represented.
\<close>

definition g_NoteFrequency :: "rat list" where
  "g_NoteFrequency =
   [16.3516, 17.3239, 18.3540, 19.4455, 20.6017, 21.8268, 23.1247, 24.4997,
    25.9566, 27.5000, 29.1353, 30.8677, 32.7032, 34.6478, 36.7081, 38.8909,
    41.2034, 43.6535, 46.2493, 48.9994, 51.9131, 55.0000, 58.2705, 61.7354,
    65.4064, 69.2957, 73.4162, 77.7817, 82.4069, 87.3071, 92.4986, 97.9989,
    103.826, 110.000, 116.541, 123.471, 130.813, 138.591, 146.832, 155.563,
    164.814, 174.614, 184.997, 195.998, 207.652, 220.000, 233.082, 246.942,
    261.626, 277.183, 293.665, 311.127, 329.628, 349.228, 369.994, 391.995,
    415.305, 440.000, 466.164, 493.883, 523.251, 554.365, 587.330, 622.254,
    659.255, 698.456, 739.989, 783.991, 830.609, 880.000, 932.328, 987.767,
    1046.50, 1108.73, 1174.66, 1244.51, 1318.51, 1396.91, 1479.98, 1567.98,
    1661.22, 1760.00, 1864.66, 1975.53, 2093.00, 2217.46, 2349.32, 2489.02,
    2637.02, 2793.83, 2959.96, 3135.96, 3322.44, 3520.00, 3729.31, 3951.07,
    4186.01, 4434.92, 4698.64, 4978.04, 5274.04, 5587.66, 5919.92, 6271.92,
    6644.88, 7040.00, 7458.62, 7902.14, 8372.02]"

definition g_FreqMultConst :: "rat list" where
  "g_FreqMultConst = [0.5, 1.0, 1.333333, 1.5, 2.0, 3.0, 4.0, 5.0, 6.0, 7.0, 8.0, 9.0]"

definition g_AmpldLevelLogScale_x1000 :: "uint16_t list" where
  "g_AmpldLevelLogScale_x1000 =
     [0, 5, 8, 11, 16, 22, 31, 44, 63, 88, 125, 177, 250, 353, 500, 707, 1000]"

definition g_PresetPatch :: "PatchParamTable_t list" where
  "g_PresetPatch =
   [
    \<lparr> PresetName = ''Sound Test'',
      OscFreqMult = [1, 4, 5, 6, 7, 8],
      OscAmpldModSource = [0, 0, 0, 0, 0, 0],
      OscDetune = [0, 0, 0, 0, 0, 0],
      MixerInputStep = [15, 13, 11, 0, 0, 0],
      EnvAttackTime = 5, EnvHoldTime = 0, EnvDecayTime = 200, EnvSustainLevel = 80, EnvReleaseTime = 200, AmpControlMode = 2,
      ContourStartLevel = 5, ContourDelayTime = 20, ContourRampTime = 500, ContourHoldLevel = 95,
      Env2DecayTime = 500, Env2SustainLevel = 50,
      LFO_Freq_x10 = 50, LFO_RampTime = 500, LFO_FM_Depth = 20, LFO_AM_Depth = 20,
      MixerOutGain_x10 = 10, LimiterLevelPc = 0 \<rparr>,
    \<lparr> PresetName = ''Electric Piano #1'',
      OscFreqMult = [1, 3, 5, 7, 9, 11],
      OscAmpldModSource = [0, 0, 0, 0, 0, 0],
      OscDetune = [0, 0, 0, 0, 0, 0],
      MixerInputStep = [14, 12, 8, 8, 5, 0],
      EnvAttackTime = 10, EnvHoldTime = 70, EnvDecayTime = 1500, EnvSustainLevel = 0, EnvReleaseTime = 500, AmpControlMode = 2,
      ContourStartLevel = 5, ContourDelayTime = 20, ContourRampTime = 1000, ContourHoldLevel = 95,
      Env2DecayTime = 200, Env2SustainLevel = 16,
      LFO_Freq_x10 = 30, LFO_RampTime = 500, LFO_FM_Depth = 0, LFO_AM_Depth = 20,
      MixerOutGain_x10 = 33, LimiterLevelPc = 60 \<rparr>,
    \<lparr> PresetName = ''Electric Piano #2'',
      OscFreqMult = [1, 4, 5, 6, 7, 8],
      OscAmpldModSource = [0, 3, 3, 3, 0, 0],
      OscDetune = [0, 0, 0, 0, 0, 0],
      MixerInputStep = [14, 12, 13, 9, 9, 6],
      EnvAttackTime = 10, EnvHoldTime = 50, EnvDecayTime = 1500, EnvSustainLevel = 0, EnvReleaseTime = 300, AmpControlMode = 2,
      ContourStartLevel = 5, ContourDelayTime = 20, ContourRampTime = 1000, ContourHoldLevel = 95,
      Env2DecayTime = 700, Env2SustainLevel = 50,
      LFO_Freq_x10 = 30, LFO_RampTime = 500, LFO_FM_Depth = 0, LFO_AM_Depth = 20,
      MixerOutGain_x10 = 20, LimiterLevelPc = 50 \<rparr>,
    \<lparr> PresetName = ''Trashy Toy Piano'',
      OscFreqMult = [1, 1, 1, 4, 6, 7],
      OscAmpldModSource = [0, 0, 0, 0, 3, 3],
      OscDetune = [- 18, 0, 19, - 14, 0, 16],
      MixerInputStep = [13, 13, 13, 11, 9, 7],
      EnvAttackTime = 5, EnvHoldTime = 50, EnvDecayTime = 500, EnvSustainLevel = 0, EnvReleaseTime = 300, AmpControlMode = 2,
      ContourStartLevel = 5, ContourDelayTime = 20, ContourRampTime = 1000, ContourHoldLevel = 95,
      Env2DecayTime = 200, Env2SustainLevel = 50,
      LFO_Freq_x10 = 30, LFO_RampTime = 500, LFO_FM_Depth = 30, LFO_AM_Depth = 20,
      MixerOutGain_x10 = 7, LimiterLevelPc = 0 \<rparr>,
    \<lparr> PresetName = ''Steel-tine Clavier'',
      OscFreqMult = [1, 4, 5, 8, 9, 10],
      OscAmpldModSource = [0, 2, 1, 2, 7, 1],
      OscDetune = [0, - 21, 19, - 27, - 31, 0],
      MixerInputStep = [12, 12, 12, 10, 12, 12],
      EnvAttackTime = 5, EnvHoldTime = 20, EnvDecayTime = 700, EnvSustainLevel = 0, EnvReleaseTime = 700, AmpControlMode = 2,
      ContourStartLevel = 5, ContourDelayTime = 50, ContourRampTime = 800, ContourHoldLevel = 80,
      Env2DecayTime = 500, Env2SustainLevel = 50,
      LFO_Freq_x10 = 100, LFO_RampTime = 500, LFO_FM_Depth = 0, LFO_AM_Depth = 55,
      MixerOutGain_x10 = 10, LimiterLevelPc = 0 \<rparr>,
    \<lparr> PresetName = ''Tubular Bells'',
      OscFreqMult = [1, 6, 9, 8, 0, 11],
      OscAmpldModSource = [0, 0, 7, 0, 0, 0],
      OscDetune = [0, 33, - 35, 0, 0, 0],
      MixerInputStep = [9, 13, 13, 0, 0, 0],
      EnvAttackTime = 5, EnvHoldTime = 100, EnvDecayTime = 2000, EnvSustainLevel = 0, EnvReleaseTime = 2000, AmpControlMode = 2,
      ContourStartLevel = 5, ContourDelayTime = 20, ContourRampTime = 500, ContourHoldLevel = 95,
      Env2DecayTime = 500, Env2SustainLevel = 50,
      LFO_Freq_x10 = 30, LFO_RampTime = 500, LFO_FM_Depth = 10, LFO_AM_Depth = 20,
      MixerOutGain_x10 = 10, LimiterLevelPc = 0 \<rparr>,
    \<lparr> PresetName = ''Smart Vibraphone'',
      OscFreqMult = [0, 1, 4, 6, 7, 11],
      OscAmpldModSource = [7, 7, 0, 7, 0, 3],
      OscDetune = [0, 0, 0, 0, 0, 0],
      MixerInputStep = [0, 13, 0, 9, 0, 13],
      EnvAttackTime = 5, EnvHoldTime = 50, EnvDecayTime = 2000, EnvSustainLevel = 0, EnvReleaseTime = 2000, AmpControlMode = 2,
      ContourStartLevel = 0, ContourDelayTime = 0, ContourRampTime = 200, ContourHoldLevel = 100,
      Env2DecayTime = 500, Env2SustainLevel = 35,
      LFO_Freq_x10 = 80, LFO_RampTime = 5, LFO_FM_Depth = 0, LFO_AM_Depth = 40,
      MixerOutGain_x10 = 10, LimiterLevelPc = 0 \<rparr>,
    \<lparr> PresetName = ''Guitar Synthetique'',
      OscFreqMult = [1, 5, 6, 8, 9, 10],
      OscAmpldModSource = [0, 0, 0, 1, 1, 1],
      OscDetune = [0, 0, 0, 0, 0, 0],
      MixerInputStep = [13, 7, 11, 8, 9, 8],
      EnvAttackTime = 5, EnvHoldTime = 200, EnvDecayTime = 2000, EnvSustainLevel = 4, EnvReleaseTime = 700, AmpControlMode = 2,
      ContourStartLevel = 25, ContourDelayTime = 0, ContourRampTime = 500, ContourHoldLevel = 95,
      Env2DecayTime = 500, Env2SustainLevel = 50,
      LFO_Freq_x10 = 50, LFO_RampTime = 500, LFO_FM_Depth = 20, LFO_AM_Depth = 20,
      MixerOutGain_x10 = 20, LimiterLevelPc = 60 \<rparr>,
    \<lparr> PresetName = ''Jazz Organ #1'',
      OscFreqMult = [0, 1, 5, 8, 0, 0],
      OscAmpldModSource = [0, 0, 0, 3, 0, 0],
      OscDetune = [0, 0, 0, - 3, 4, 0],
      MixerInputStep = [10, 13, 15, 12, 0, 0],
      EnvAttackTime = 10, EnvHoldTime = 0, EnvDecayTime = 400, EnvSustainLevel = 100, EnvReleaseTime = 300, AmpControlMode = 2,
      ContourStartLevel = 5, ContourDelayTime = 20, ContourRampTime = 600, ContourHoldLevel = 40,
      Env2DecayTime = 100, Env2SustainLevel = 50,
      LFO_Freq_x10 = 70, LFO_RampTime = 500, LFO_FM_Depth = 30, LFO_AM_Depth = 0,
      MixerOutGain_x10 = 7, LimiterLevelPc = 0 \<rparr>,
    \<lparr> PresetName = ''Jazz Organ #2'',
      OscFreqMult = [0, 1, 4, 5, 8, 0],
      OscAmpldModSource = [0, 0, 0, 0, 3, 0],
      OscDetune = [0, 0, - 8, 4, - 10, 0],
      MixerInputStep = [11, 14, 7, 14, 11, 0],
      EnvAttackTime = 10, EnvHoldTime = 0, EnvDecayTime = 400, EnvSustainLevel = 100, EnvReleaseTime = 300, AmpControlMode = 2,
      ContourStartLevel = 5, ContourDelayTime = 20, ContourRampTime = 600, ContourHoldLevel = 40,
      Env2DecayTime = 200, Env2SustainLevel = 50,
      LFO_Freq_x10 = 70, LFO_RampTime = 500, LFO_FM_Depth = 30, LFO_AM_Depth = 0,
      MixerOutGain_x10 = 7, LimiterLevelPc = 0 \<rparr>,
    \<lparr> PresetName = ''Rock Organ #3'',
      OscFreqMult = [0, 3, 1, 4, 6, 8],
      OscAmpldModSource = [0, 0, 0, 0, 0, 0],
      OscDetune = [0, 0, - 6, - 7, 0, 0],
      MixerInputStep = [13, 13, 13, 13, 0, 0],
      EnvAttackTime = 10, EnvHoldTime = 0, EnvDecayTime = 400, EnvSustainLevel = 100, EnvReleaseTime = 300, AmpControlMode = 2,
      ContourStartLevel = 5, ContourDelayTime = 20, ContourRampTime = 600, ContourHoldLevel = 40,
      Env2DecayTime = 500, Env2SustainLevel = 50,
      LFO_Freq_x10 = 70, LFO_RampTime = 500, LFO_FM_Depth = 30, LFO_AM_Depth = 0,
      MixerOutGain_x10 = 7, LimiterLevelPc = 0 \<rparr>,
    \<lparr> PresetName = ''Pink Floyd Organ'',
      OscFreqMult = [0, 3, 6, 0, 3, 6],
      OscAmpldModSource = [0, 0, 0, 0, 0, 0],
      OscDetune = [6, 5, 4, - 6, - 5, - 4],
      MixerInputStep = [13, 10, 10, 13, 10, 10],
      EnvAttackTime = 30, EnvHoldTime = 0, EnvDecayTime = 200, EnvSustainLevel = 100, EnvReleaseTime = 200, AmpControlMode = 2,
      ContourStartLevel = 5, ContourDelayTime = 20, ContourRampTime = 500, ContourHoldLevel = 95,
      Env2DecayTime = 500, Env2SustainLevel = 50,
      LFO_Freq_x10 = 50, LFO_RampTime = 500, LFO_FM_Depth = 15, LFO_AM_Depth = 0,
      MixerOutGain_x10 = 7, LimiterLevelPc = 0 \<rparr>,
    \<lparr> PresetName = ''Hammondish Organ'',
      OscFreqMult = [1, 3, 4, 5, 7, 8],
      OscAmpldModSource = [0, 0, 0, 0, 0, 3],
      OscDetune = [0, - 7, 12, 4, 0, 3],
      MixerInputStep = [13, 3, 0, 9, 0, 15],
      EnvAttackTime = 10, EnvHoldTime = 0, EnvDecayTime = 400, EnvSustainLevel = 100, EnvReleaseTime = 300, AmpControlMode = 2,
      ContourStartLevel = 5, ContourDelayTime = 20, ContourRampTime = 600, ContourHoldLevel = 40,
      Env2DecayTime = 200, Env2SustainLevel = 25,
      LFO_Freq_x10 = 70, LFO_RampTime = 500, LFO_FM_Depth = 20, LFO_AM_Depth = 0,
      MixerOutGain_x10 = 7, LimiterLevelPc = 0 \<rparr>,
    \<lparr> PresetName = ''Bauer Organ #1'',
      OscFreqMult = [1, 4, 6, 8, 10, 0],
      OscAmpldModSource = [0, 0, 0, 0, 3, 0],
      OscDetune = [0, 4, - 4, 3, - 2, 3],
      MixerInputStep = [13, 13, 0, 9, 13, 11],
      EnvAttackTime = 20, EnvHoldTime = 20, EnvDecayTime = 400, EnvSustainLevel = 70, EnvReleaseTime = 300, AmpControlMode = 2,
      ContourStartLevel = 5, ContourDelayTime = 20, ContourRampTime = 600, ContourHoldLevel = 40,
      Env2DecayTime = 500, Env2SustainLevel = 50,
      LFO_Freq_x10 = 70, LFO_RampTime = 500, LFO_FM_Depth = 30, LFO_AM_Depth = 0,
      MixerOutGain_x10 = 7, LimiterLevelPc = 0 \<rparr>,
    \<lparr> PresetName = ''Meditation Pipe'',
      OscFreqMult = [1, 4, 6, 7, 8, 10],
      OscAmpldModSource = [0, 0, 0, 0, 0, 6],
      OscDetune = [0, - 5, 0, 4, 0, 0],
      MixerInputStep = [13, 14, 0, 9, 10, 9],
      EnvAttackTime = 50, EnvHoldTime = 0, EnvDecayTime = 200, EnvSustainLevel = 80, EnvReleaseTime = 200, AmpControlMode = 2,
      ContourStartLevel = 5, ContourDelayTime = 20, ContourRampTime = 600, ContourHoldLevel = 40,
      Env2DecayTime = 100, Env2SustainLevel = 50,
      LFO_Freq_x10 = 70, LFO_RampTime = 500, LFO_FM_Depth = 30, LFO_AM_Depth = 0,
      MixerOutGain_x10 = 7, LimiterLevelPc = 0 \<rparr>,
    \<lparr> PresetName = ''Full Swell Organ'',
      OscFreqMult = [0, 1, 4, 5, 6, 7],
      OscAmpldModSource = [0, 0, 0, 0, 0, 0],
      OscDetune = [0, 0, 4, - 3, 3, - 3],
      MixerInputStep = [8, 14, 13, 11, 10, 7],
      EnvAttackTime = 5, EnvHoldTime = 0, EnvDecayTime = 5, EnvSustainLevel = 100, EnvReleaseTime = 300, AmpControlMode = 2,
      ContourStartLevel = 0, ContourDelayTime = 50, ContourRampTime = 300, ContourHoldLevel = 100,
      Env2DecayTime = 500, Env2SustainLevel = 50,
      LFO_Freq_x10 = 70, LFO_RampTime = 500, LFO_FM_Depth = 20, LFO_AM_Depth = 0,
      MixerOutGain_x10 = 7, LimiterLevelPc = 0 \<rparr>,
    \<lparr> PresetName = ''Morph Harmonium'',
      OscFreqMult = [0, 3, 1, 7, 8, 10],
      OscAmpldModSource = [0, 0, 0, 1, 2, 1],
      OscDetune = [3, - 3, 0, - 3, 3, - 3],
      MixerInputStep = [13, 12, 13, 8, 9, 11],
      EnvAttackTime = 30, EnvHoldTime = 0, EnvDecayTime = 10, EnvSustainLevel = 80, EnvReleaseTime = 500, AmpControlMode = 2,
      ContourStartLevel = 10, ContourDelayTime = 50, ContourRampTime = 300, ContourHoldLevel = 90,
      Env2DecayTime = 500, Env2SustainLevel = 50,
      LFO_Freq_x10 = 70, LFO_RampTime = 500, LFO_FM_Depth = 10, LFO_AM_Depth = 55,
      MixerOutGain_x10 = 7, LimiterLevelPc = 0 \<rparr>,
    \<lparr> PresetName = ''Ring Modulator'',
      OscFreqMult = [1, 3, 4, 5, 8, 0],
      OscAmpldModSource = [0, 0, 0, 0, 0, 0],
      OscDetune = [0, 0, 0, 0, 0, 0],
      MixerInputStep = [0, 11, 14, 0, 0, 0],
      EnvAttackTime = 10, EnvHoldTime = 0, EnvDecayTime = 400, EnvSustainLevel = 100, EnvReleaseTime = 300, AmpControlMode = 2,
      ContourStartLevel = 5, ContourDelayTime = 20, ContourRampTime = 600, ContourHoldLevel = 40,
      Env2DecayTime = 500, Env2SustainLevel = 50,
      LFO_Freq_x10 = 70, LFO_RampTime = 500, LFO_FM_Depth = 30, LFO_AM_Depth = 0,
      MixerOutGain_x10 = 10, LimiterLevelPc = 0 \<rparr>,
    \<lparr> PresetName = ''Bass Overdrive'',
      OscFreqMult = [0, 1, 4, 6, 7, 8],
      OscAmpldModSource = [0, 0, 0, 3, 0, 3],
      OscDetune = [0, 0, 0, 0, 0, 0],
      MixerInputStep = [14, 12, 8, 10, 0, 12],
      EnvAttackTime = 5, EnvHoldTime = 0, EnvDecayTime = 200, EnvSustainLevel = 80, EnvReleaseTime = 200, AmpControlMode = 2,
      ContourStartLevel = 5, ContourDelayTime = 20, ContourRampTime = 500, ContourHoldLevel = 95,
      Env2DecayTime = 500, Env2SustainLevel = 50,
      LFO_Freq_x10 = 50, LFO_RampTime = 500, LFO_FM_Depth = 20, LFO_AM_Depth = 20,
      MixerOutGain_x10 = 33, LimiterLevelPc = 50 \<rparr>,
    \<lparr> PresetName = ''Bellbird  (JPM)'',
      OscFreqMult = [9, 5, 8, 1, 8, 5],
      OscAmpldModSource = [7, 3, 3, 3, 7, 7],
      OscDetune = [0, 0, 0, 0, 0, 0],
      MixerInputStep = [4, 8, 2, 10, 14, 15],
      EnvAttackTime = 70, EnvHoldTime = 50, EnvDecayTime = 100, EnvSustainLevel = 50, EnvReleaseTime = 700, AmpControlMode = 2,
      ContourStartLevel = 0, ContourDelayTime = 200, ContourRampTime = 500, ContourHoldLevel = 100,
      Env2DecayTime = 3000, Env2SustainLevel = 50,
      LFO_Freq_x10 = 30, LFO_RampTime = 70, LFO_FM_Depth = 40, LFO_AM_Depth = 35,
      MixerOutGain_x10 = 7, LimiterLevelPc = 0 \<rparr>,
    \<lparr> PresetName = ''Dull Steel Drum'',
      OscFreqMult = [1, 4, 5, 6, 8, 10],
      OscAmpldModSource = [0, 0, 0, 1, 1, 1],
      OscDetune = [0, - 14, 0, 23, 0, 0],
      MixerInputStep = [15, 10, 4, 11, 8, 6],
      EnvAttackTime = 10, EnvHoldTime = 50, EnvDecayTime = 500, EnvSustainLevel = 0, EnvReleaseTime = 500, AmpControlMode = 2,
      ContourStartLevel = 20, ContourDelayTime = 0, ContourRampTime = 50, ContourHoldLevel = 80,
      Env2DecayTime = 200, Env2SustainLevel = 25,
      LFO_Freq_x10 = 100, LFO_RampTime = 0, LFO_FM_Depth = 0, LFO_AM_Depth = 0,
      MixerOutGain_x10 = 7, LimiterLevelPc = 0 \<rparr>,
    \<lparr> PresetName = ''Wobulator'',
      OscFreqMult = [0, 1, 2, 3, 4, 5],
      OscAmpldModSource = [0, 0, 0, 7, 7, 7],
      OscDetune = [0, 0, 0, 0, 0, 0],
      MixerInputStep = [10, 0, 13, 14, 0, 14],
      EnvAttackTime = 30, EnvHoldTime = 300, EnvDecayTime = 1000, EnvSustainLevel = 25, EnvReleaseTime = 1000, AmpControlMode = 2,
      ContourStartLevel = 20, ContourDelayTime = 0, ContourRampTime = 200, ContourHoldLevel = 80,
      Env2DecayTime = 200, Env2SustainLevel = 25,
      LFO_Freq_x10 = 80, LFO_RampTime = 200, LFO_FM_Depth = 30, LFO_AM_Depth = 25,
      MixerOutGain_x10 = 7, LimiterLevelPc = 0 \<rparr>,
    \<lparr> PresetName = ''Hollow Wood Drum'',
      OscFreqMult = [0, 1, 2, 3, 4, 5],
      OscAmpldModSource = [6, 7, 6, 2, 0, 2],
      OscDetune = [0, 0, 0, 0, 0, 0],
      MixerInputStep = [5, 5, 4, 12, 8, 14],
      EnvAttackTime = 5, EnvHoldTime = 20, EnvDecayTime = 100, EnvSustainLevel = 0, EnvReleaseTime = 300, AmpControlMode = 2,
      ContourStartLevel = 20, ContourDelayTime = 0, ContourRampTime = 200, ContourHoldLevel = 80,
      Env2DecayTime = 1500, Env2SustainLevel = 25,
      LFO_Freq_x10 = 40, LFO_RampTime = 5, LFO_FM_Depth = 20, LFO_AM_Depth = 20,
      MixerOutGain_x10 = 7, LimiterLevelPc = 0 \<rparr>,
    \<lparr> PresetName = ''Soft-attack Accordian'',
      OscFreqMult = [1, 4, 5, 6, 7, 8],
      OscAmpldModSource = [0, 0, 1, 1, 1, 1],
      OscDetune = [0, 0, 0, 0, 0, 0],
      MixerInputStep = [14, 12, 11, 10, 9, 8],
      EnvAttackTime = 100, EnvHoldTime = 200, EnvDecayTime = 2000, EnvSustainLevel = 10, EnvReleaseTime = 70, AmpControlMode = 2,
      ContourStartLevel = 100, ContourDelayTime = 0, ContourRampTime = 300, ContourHoldLevel = 30,
      Env2DecayTime = 500, Env2SustainLevel = 50,
      LFO_Freq_x10 = 50, LFO_RampTime = 500, LFO_FM_Depth = 20, LFO_AM_Depth = 20,
      MixerOutGain_x10 = 10, LimiterLevelPc = 0 \<rparr>,
    \<lparr> PresetName = ''Terrible Recorder'',
      OscFreqMult = [1, 5, 7, 9, 11, 0],
      OscAmpldModSource = [0, 0, 5, 0, 5, 0],
      OscDetune = [0, 0, 0, 0, 0, 0],
      MixerInputStep = [14, 11, 13, 9, 13, 0],
      EnvAttackTime = 50, EnvHoldTime = 0, EnvDecayTime = 200, EnvSustainLevel = 80, EnvReleaseTime = 200, AmpControlMode = 3,
      ContourStartLevel = 5, ContourDelayTime = 20, ContourRampTime = 500, ContourHoldLevel = 95,
      Env2DecayTime = 500, Env2SustainLevel = 50,
      LFO_Freq_x10 = 50, LFO_RampTime = 500, LFO_FM_Depth = 20, LFO_AM_Depth = 0,
      MixerOutGain_x10 = 7, LimiterLevelPc = 0 \<rparr>,
    \<lparr> PresetName = ''Psychedelic Oboe'',
      OscFreqMult = [1, 3, 4, 5, 6, 9],
      OscAmpldModSource = [0, 0, 0, 0, 0, 0],
      OscDetune = [0, 0, 0, 0, 0, 0],
      MixerInputStep = [11, 0, 11, 12, 14, 0],
      EnvAttackTime = 30, EnvHoldTime = 0, EnvDecayTime = 200, EnvSustainLevel = 80, EnvReleaseTime = 200, AmpControlMode = 3,
      ContourStartLevel = 100, ContourDelayTime = 10, ContourRampTime = 1000, ContourHoldLevel = 25,
      Env2DecayTime = 500, Env2SustainLevel = 50,
      LFO_Freq_x10 = 50, LFO_RampTime = 500, LFO_FM_Depth = 20, LFO_AM_Depth = 0,
      MixerOutGain_x10 = 7, LimiterLevelPc = 0 \<rparr>,
    \<lparr> PresetName = ''Stopped Flute'',
      OscFreqMult = [1, 4, 5, 6, 7, 8],
      OscAmpldModSource = [0, 0, 0, 0, 0, 0],
      OscDetune = [0, 0, 0, 0, 0, 0],
      MixerInputStep = [15, 9, 6, 0, 0, 5],
      EnvAttackTime = 50, EnvHoldTime = 0, EnvDecayTime = 200, EnvSustainLevel = 80, EnvReleaseTime = 200, AmpControlMode = 3,
      ContourStartLevel = 0, ContourDelayTime = 50, ContourRampTime = 300, ContourHoldLevel = 100,
      Env2DecayTime = 500, Env2SustainLevel = 50,
      LFO_Freq_x10 = 50, LFO_RampTime = 500, LFO_FM_Depth = 15, LFO_AM_Depth = 0,
      MixerOutGain_x10 = 10, LimiterLevelPc = 0 \<rparr>,
    \<lparr> PresetName = ''Spaced Out Pipe'',
      OscFreqMult = [0, 3, 6, 0, 3, 6],
      OscAmpldModSource = [0, 0, 0, 0, 0, 0],
      OscDetune = [6, 5, 4, - 6, - 5, - 4],
      MixerInputStep = [13, 10, 10, 13, 10, 10],
      EnvAttackTime = 30, EnvHoldTime = 0, EnvDecayTime = 200, EnvSustainLevel = 80, EnvReleaseTime = 200, AmpControlMode = 3,
      ContourStartLevel = 5, ContourDelayTime = 20, ContourRampTime = 500, ContourHoldLevel = 95,
      Env2DecayTime = 500, Env2SustainLevel = 50,
      LFO_Freq_x10 = 50, LFO_RampTime = 500, LFO_FM_Depth = 15, LFO_AM_Depth = 0,
      MixerOutGain_x10 = 7, LimiterLevelPc = 0 \<rparr>,
    \<lparr> PresetName = ''Mellow Reed'',
      OscFreqMult = [1, 5, 6, 7, 8, 0],
      OscAmpldModSource = [0, 0, 0, 0, 0, 0],
      OscDetune = [0, 0, 0, 0, 0, 0],
      MixerInputStep = [14, 9, 6, 12, 12, 0],
      EnvAttackTime = 30, EnvHoldTime = 0, EnvDecayTime = 200, EnvSustainLevel = 80, EnvReleaseTime = 200, AmpControlMode = 3,
      ContourStartLevel = 5, ContourDelayTime = 20, ContourRampTime = 500, ContourHoldLevel = 95,
      Env2DecayTime = 500, Env2SustainLevel = 50,
      LFO_Freq_x10 = 50, LFO_RampTime = 500, LFO_FM_Depth = 20, LFO_AM_Depth = 0,
      MixerOutGain_x10 = 10, LimiterLevelPc = 0 \<rparr>,
    \<lparr> PresetName = ''Melody Organ #2'',
      OscFreqMult = [1, 3, 4, 5, 8, 0],
      OscAmpldModSource = [0, 0, 0, 0, 3, 0],
      OscDetune = [0, 4, - 4, 3, - 2, 3],
      MixerInputStep = [13, 13, 10, 12, 14, 12],
      EnvAttackTime = 20, EnvHoldTime = 20, EnvDecayTime = 400, EnvSustainLevel = 70, EnvReleaseTime = 300, AmpControlMode = 3,
      ContourStartLevel = 5, ContourDelayTime = 20, ContourRampTime = 600, ContourHoldLevel = 40,
      Env2DecayTime = 500, Env2SustainLevel = 50,
      LFO_Freq_x10 = 70, LFO_RampTime = 500, LFO_FM_Depth = 30, LFO_AM_Depth = 0,
      MixerOutGain_x10 = 7, LimiterLevelPc = 0 \<rparr>,
    \<lparr> PresetName = ''Reed Overdrive'',
      OscFreqMult = [1, 4, 5, 7, 8, 9],
      OscAmpldModSource = [0, 5, 5, 5, 5, 5],
      OscDetune = [0, 0, 0, 0, 0, 0],
      MixerInputStep = [14, 12, 10, 10, 13, 13],
      EnvAttackTime = 70, EnvHoldTime = 0, EnvDecayTime = 200, EnvSustainLevel = 80, EnvReleaseTime = 200, AmpControlMode = 3,
      ContourStartLevel = 5, ContourDelayTime = 20, ContourRampTime = 500, ContourHoldLevel = 95,
      Env2DecayTime = 500, Env2SustainLevel = 50,
      LFO_Freq_x10 = 50, LFO_RampTime = 500, LFO_FM_Depth = 20, LFO_AM_Depth = 0,
      MixerOutGain_x10 = 25, LimiterLevelPc = 50 \<rparr>,
    \<lparr> PresetName = ''Deep Saxophoney'',
      OscFreqMult = [0, 1, 4, 5, 6, 7],
      OscAmpldModSource = [5, 0, 5, 0, 5, 5],
      OscDetune = [0, 0, 0, 0, 0, 0],
      MixerInputStep = [9, 10, 13, 0, 13, 12],
      EnvAttackTime = 70, EnvHoldTime = 0, EnvDecayTime = 200, EnvSustainLevel = 80, EnvReleaseTime = 200, AmpControlMode = 3,
      ContourStartLevel = 0, ContourDelayTime = 50, ContourRampTime = 300, ContourHoldLevel = 100,
      Env2DecayTime = 500, Env2SustainLevel = 50,
      LFO_Freq_x10 = 50, LFO_RampTime = 500, LFO_FM_Depth = 20, LFO_AM_Depth = 0,
      MixerOutGain_x10 = 20, LimiterLevelPc = 50 \<rparr>
   ]"

section \<open>Base-2 exponential look-up\<close>

text \<open>\<open>g_base2exp\<close>: 1025 entries in 18:14 format, index 0..1024 for the range -1.0 .. +1.0.\<close>

definition g_base2exp :: "int list" where
  "g_base2exp =
   [0x2000, 0x200B, 0x2016, 0x2021, 0x202C, 0x2037, 0x2042, 0x204E,
    0x2059, 0x2064, 0x206F, 0x207A, 0x2086, 0x2091, 0x209C, 0x20A8,
    0x20B3, 0x20BE, 0x20CA, 0x20D5, 0x20E0, 0x20EC, 0x20F7, 0x2103,
    0x210E, 0x211A, 0x2125, 0x2130, 0x213C, 0x2148, 0x2153, 0x215F,
    0x216A, 0x2176, 0x2181, 0x218D, 0x2199, 0x21A4, 0x21B0, 0x21BC,
    0x21C7, 0x21D3, 0x21DF, 0x21EB, 0x21F6, 0x2202, 0x220E, 0x221A,
    0x2226, 0x2231, 0x223D, 0x2249, 0x2255, 0x2261, 0x226D, 0x2279,
    0x2285, 0x2291, 0x229D, 0x22A9, 0x22B5, 0x22C1, 0x22CD, 0x22D9,
    0x22E5, 0x22F1, 0x22FD, 0x2309, 0x2315, 0x2322, 0x232E, 0x233A,
    0x2346, 0x2352, 0x235F, 0x236B, 0x2377, 0x2384, 0x2390, 0x239C,
    0x23A9, 0x23B5, 0x23C1, 0x23CE, 0x23DA, 0x23E7, 0x23F3, 0x23FF,
    0x240C, 0x2418, 0x2425, 0x2432, 0x243E, 0x244B, 0x2457, 0x2464,
    0x2470, 0x247D, 0x248A, 0x2496, 0x24A3, 0x24B0, 0x24BD, 0x24C9,
    0x24D6, 0x24E3, 0x24F0, 0x24FC, 0x2509, 0x2516, 0x2523, 0x2530,
    0x253D, 0x254A, 0x2557, 0x2564, 0x2570, 0x257D, 0x258A, 0x2598,
    0x25A5, 0x25B2, 0x25BF, 0x25CC, 0x25D9, 0x25E6, 0x25F3, 0x2600,
    0x260D, 0x261B, 0x2628, 0x2635, 0x2642, 0x2650, 0x265D, 0x266A,
    0x2678, 0x2685, 0x2692, 0x26A0, 0x26AD, 0x26BA, 0x26C8, 0x26D5,
    0x26E3, 0x26F0, 0x26FE, 0x270B, 0x2719, 0x2726, 0x2734, 0x2742,
    0x274F, 0x275D, 0x276A, 0x2778, 0x2786, 0x2794, 0x27A1, 0x27AF,
    0x27BD, 0x27CB, 0x27D8, 0x27E6, 0x27F4, 0x2802, 0x2810, 0x281E,
    0x282C, 0x283A, 0x2847, 0x2855, 0x2863, 0x2871, 0x287F, 0x288E,
    0x289C, 0x28AA, 0x28B8, 0x28C6, 0x28D4, 0x28E2, 0x28F0, 0x28FF,
    0x290D, 0x291B, 0x2929, 0x2938, 0x2946, 0x2954, 0x2962, 0x2971,
    0x297F, 0x298E, 0x299C, 0x29AA, 0x29B9, 0x29C7, 0x29D6, 0x29E4,
    0x29F3, 0x2A01, 0x2A10, 0x2A1F, 0x2A2D, 0x2A3C, 0x2A4A, 0x2A59,
    0x2A68, 0x2A77, 0x2A85, 0x2A94, 0x2AA3, 0x2AB2, 0x2AC0, 0x2ACF,
    0x2ADE, 0x2AED, 0x2AFC, 0x2B0B, 0x2B1A, 0x2B29, 0x2B38, 0x2B47,
    0x2B56, 0x2B65, 0x2B74, 0x2B83, 0x2B92, 0x2BA1, 0x2BB0, 0x2BBF,
    0x2BCE, 0x2BDE, 0x2BED, 0x2BFC, 0x2C0B, 0x2C1B, 0x2C2A, 0x2C39,
    0x2C48, 0x2C58, 0x2C67, 0x2C77, 0x2C86, 0x2C95, 0x2CA5, 0x2CB4,
    0x2CC4, 0x2CD3, 0x2CE3, 0x2CF3, 0x2D02, 0x2D12, 0x2D21, 0x2D31,
    0x2D41, 0x2D50, 0x2D60, 0x2D70, 0x2D80, 0x2D8F, 0x2D9F, 0x2DAF,
    0x2DBF, 0x2DCF, 0x2DDF, 0x2DEF, 0x2DFE, 0x2E0E, 0x2E1E, 0x2E2E,
    0x2E3E, 0x2E4E, 0x2E5F, 0x2E6F, 0x2E7F, 0x2E8F, 0x2E9F, 0x2EAF,
    0x2EBF, 0x2ED0, 0x2EE0, 0x2EF0, 0x2F00, 0x2F11, 0x2F21, 0x2F31,
    0x2F42, 0x2F52, 0x2F62, 0x2F73, 0x2F83, 0x2F94, 0x2FA4, 0x2FB5,
    0x2FC5, 0x2FD6, 0x2FE7, 0x2FF7, 0x3008, 0x3018, 0x3029, 0x303A,
    0x304B, 0x305B, 0x306C, 0x307D, 0x308E, 0x309F, 0x30AF, 0x30C0,
    0x30D1, 0x30E2, 0x30F3, 0x3104, 0x3115, 0x3126, 0x3137, 0x3148,
    0x3159, 0x316A, 0x317C, 0x318D, 0x319E, 0x31AF, 0x31C0, 0x31D2,
    0x31E3, 0x31F4, 0x3205, 0x3217, 0x3228, 0x323A, 0x324B, 0x325C,
    0x326E, 0x327F, 0x3291, 0x32A2, 0x32B4, 0x32C6, 0x32D7, 0x32E9,
    0x32FB, 0x330C, 0x331E, 0x3330, 0x3341, 0x3353, 0x3365, 0x3377,
    0x3389, 0x339B, 0x33AC, 0x33BE, 0x33D0, 0x33E2, 0x33F4, 0x3406,
    0x3418, 0x342A, 0x343C, 0x344F, 0x3461, 0x3473, 0x3485, 0x3497,
    0x34AA, 0x34BC, 0x34CE, 0x34E0, 0x34F3, 0x3505, 0x3517, 0x352A,
    0x353C, 0x354F, 0x3561, 0x3574, 0x3586, 0x3599, 0x35AB, 0x35BE,
    0x35D1, 0x35E3, 0x35F6, 0x3609, 0x361C, 0x362E, 0x3641, 0x3654,
    0x3667, 0x367A, 0x368D, 0x369F, 0x36B2, 0x36C5, 0x36D8, 0x36EB,
    0x36FE, 0x3712, 0x3725, 0x3738, 0x374B, 0x375E, 0x3771, 0x3784,
    0x3798, 0x37AB, 0x37BE, 0x37D2, 0x37E5, 0x37F8, 0x380C, 0x381F,
    0x3833, 0x3846, 0x385A, 0x386D, 0x3881, 0x3894, 0x38A8, 0x38BC,
    0x38CF, 0x38E3, 0x38F7, 0x390B, 0x391E, 0x3932, 0x3946, 0x395A,
    0x396E, 0x3982, 0x3996, 0x39AA, 0x39BE, 0x39D2, 0x39E6, 0x39FA,
    0x3A0E, 0x3A22, 0x3A36, 0x3A4A, 0x3A5F, 0x3A73, 0x3A87, 0x3A9B,
    0x3AB0, 0x3AC4, 0x3AD8, 0x3AED, 0x3B01, 0x3B16, 0x3B2A, 0x3B3F,
    0x3B53, 0x3B68, 0x3B7C, 0x3B91, 0x3BA6, 0x3BBA, 0x3BCF, 0x3BE4,
    0x3BF9, 0x3C0D, 0x3C22, 0x3C37, 0x3C4C, 0x3C61, 0x3C76, 0x3C8B,
    0x3CA0, 0x3CB5, 0x3CCA, 0x3CDF, 0x3CF4, 0x3D09, 0x3D1E, 0x3D34,
    0x3D49, 0x3D5E, 0x3D73, 0x3D89, 0x3D9E, 0x3DB3, 0x3DC9, 0x3DDE,
    0x3DF4, 0x3E09, 0x3E1F, 0x3E34, 0x3E4A, 0x3E5F, 0x3E75, 0x3E8B,
    0x3EA0, 0x3EB6, 0x3ECC, 0x3EE2, 0x3EF7, 0x3F0D, 0x3F23, 0x3F39,
    0x3F4F, 0x3F65, 0x3F7B, 0x3F91, 0x3FA7, 0x3FBD, 0x3FD3, 0x3FE9,
    0x4000, 0x4016, 0x402C, 0x4042, 0x4058, 0x406F, 0x4085, 0x409C,
    0x40B2, 0x40C8, 0x40DF, 0x40F5, 0x410C, 0x4122, 0x4139, 0x4150,
    0x4166, 0x417D, 0x4194, 0x41AA, 0x41C1, 0x41D8, 0x41EF, 0x4206,
    0x421D, 0x4234, 0x424A, 0x4261, 0x4278, 0x4290, 0x42A7, 0x42BE,
    0x42D5, 0x42EC, 0x4303, 0x431B, 0x4332, 0x4349, 0x4360, 0x4378,
    0x438F, 0x43A7, 0x43BE, 0x43D6, 0x43ED, 0x4405, 0x441C, 0x4434,
    0x444C, 0x4463, 0x447B, 0x4493, 0x44AA, 0x44C2, 0x44DA, 0x44F2,
    0x450A, 0x4522, 0x453A, 0x4552, 0x456A, 0x4582, 0x459A, 0x45B2,
    0x45CA, 0x45E3, 0x45FB, 0x4613, 0x462B, 0x4644, 0x465C, 0x4675,
    0x468D, 0x46A5, 0x46BE, 0x46D6, 0x46EF, 0x4708, 0x4720, 0x4739,
    0x4752, 0x476A, 0x4783, 0x479C, 0x47B5, 0x47CE, 0x47E7, 0x47FF,
    0x4818, 0x4831, 0x484A, 0x4864, 0x487D, 0x4896, 0x48AF, 0x48C8,
    0x48E1, 0x48FB, 0x4914, 0x492D, 0x4947, 0x4960, 0x497A, 0x4993,
    0x49AD, 0x49C6, 0x49E0, 0x49F9, 0x4A13, 0x4A2D, 0x4A46, 0x4A60,
    0x4A7A, 0x4A94, 0x4AAE, 0x4AC8, 0x4AE1, 0x4AFB, 0x4B15, 0x4B30,
    0x4B4A, 0x4B64, 0x4B7E, 0x4B98, 0x4BB2, 0x4BCC, 0x4BE7, 0x4C01,
    0x4C1B, 0x4C36, 0x4C50, 0x4C6B, 0x4C85, 0x4CA0, 0x4CBA, 0x4CD5,
    0x4CF0, 0x4D0A, 0x4D25, 0x4D40, 0x4D5B, 0x4D75, 0x4D90, 0x4DAB,
    0x4DC6, 0x4DE1, 0x4DFC, 0x4E17, 0x4E32, 0x4E4D, 0x4E69, 0x4E84,
    0x4E9F, 0x4EBA, 0x4ED5, 0x4EF1, 0x4F0C, 0x4F28, 0x4F43, 0x4F5F,
    0x4F7A, 0x4F96, 0x4FB1, 0x4FCD, 0x4FE9, 0x5004, 0x5020, 0x503C,
    0x5058, 0x5074, 0x508F, 0x50AB, 0x50C7, 0x50E3, 0x50FF, 0x511C,
    0x5138, 0x5154, 0x5170, 0x518C, 0x51A9, 0x51C5, 0x51E1, 0x51FE,
    0x521A, 0x5237, 0x5253, 0x5270, 0x528C, 0x52A9, 0x52C5, 0x52E2,
    0x52FF, 0x531C, 0x5339, 0x5355, 0x5372, 0x538F, 0x53AC, 0x53C9,
    0x53E6, 0x5403, 0x5421, 0x543E, 0x545B, 0x5478, 0x5495, 0x54B3,
    0x54D0, 0x54EE, 0x550B, 0x5529, 0x5546, 0x5564, 0x5581, 0x559F,
    0x55BD, 0x55DA, 0x55F8, 0x5616, 0x5634, 0x5652, 0x5670, 0x568E,
    0x56AC, 0x56CA, 0x56E8, 0x5706, 0x5724, 0x5742, 0x5761, 0x577F,
    0x579D, 0x57BC, 0x57DA, 0x57F9, 0x5817, 0x5836, 0x5854, 0x5873,
    0x5891, 0x58B0, 0x58CF, 0x58EE, 0x590D, 0x592B, 0x594A, 0x5969,
    0x5988, 0x59A7, 0x59C7, 0x59E6, 0x5A05, 0x5A24, 0x5A43, 0x5A63,
    0x5A82, 0x5AA1, 0x5AC1, 0x5AE0, 0x5B00, 0x5B1F, 0x5B3F, 0x5B5F,
    0x5B7E, 0x5B9E, 0x5BBE, 0x5BDE, 0x5BFD, 0x5C1D, 0x5C3D, 0x5C5D,
    0x5C7D, 0x5C9D, 0x5CBE, 0x5CDE, 0x5CFE, 0x5D1E, 0x5D3E, 0x5D5F,
    0x5D7F, 0x5DA0, 0x5DC0, 0x5DE1, 0x5E01, 0x5E22, 0x5E42, 0x5E63,
    0x5E84, 0x5EA5, 0x5EC5, 0x5EE6, 0x5F07, 0x5F28, 0x5F49, 0x5F6A,
    0x5F8B, 0x5FAC, 0x5FCE, 0x5FEF, 0x6010, 0x6031, 0x6053, 0x6074,
    0x6096, 0x60B7, 0x60D9, 0x60FA, 0x611C, 0x613E, 0x615F, 0x6181,
    0x61A3, 0x61C5, 0x61E7, 0x6209, 0x622B, 0x624D, 0x626F, 0x6291,
    0x62B3, 0x62D5, 0x62F8, 0x631A, 0x633C, 0x635F, 0x6381, 0x63A4,
    0x63C6, 0x63E9, 0x640B, 0x642E, 0x6451, 0x6474, 0x6497, 0x64B9,
    0x64DC, 0x64FF, 0x6522, 0x6545, 0x6569, 0x658C, 0x65AF, 0x65D2,
    0x65F6, 0x6619, 0x663C, 0x6660, 0x6683, 0x66A7, 0x66CA, 0x66EE,
    0x6712, 0x6736, 0x6759, 0x677D, 0x67A1, 0x67C5, 0x67E9, 0x680D,
    0x6831, 0x6855, 0x6879, 0x689E, 0x68C2, 0x68E6, 0x690B, 0x692F,
    0x6954, 0x6978, 0x699D, 0x69C1, 0x69E6, 0x6A0B, 0x6A2F, 0x6A54,
    0x6A79, 0x6A9E, 0x6AC3, 0x6AE8, 0x6B0D, 0x6B32, 0x6B57, 0x6B7D,
    0x6BA2, 0x6BC7, 0x6BED, 0x6C12, 0x6C38, 0x6C5D, 0x6C83, 0x6CA8,
    0x6CCE, 0x6CF4, 0x6D1A, 0x6D3F, 0x6D65, 0x6D8B, 0x6DB1, 0x6DD7,
    0x6DFD, 0x6E24, 0x6E4A, 0x6E70, 0x6E96, 0x6EBD, 0x6EE3, 0x6F09,
    0x6F30, 0x6F57, 0x6F7D, 0x6FA4, 0x6FCB, 0x6FF1, 0x7018, 0x703F,
    0x7066, 0x708D, 0x70B4, 0x70DB, 0x7102, 0x7129, 0x7151, 0x7178,
    0x719F, 0x71C7, 0x71EE, 0x7216, 0x723D, 0x7265, 0x728D, 0x72B4,
    0x72DC, 0x7304, 0x732C, 0x7354, 0x737C, 0x73A4, 0x73CC, 0x73F4,
    0x741C, 0x7444, 0x746D, 0x7495, 0x74BE, 0x74E6, 0x750F, 0x7537,
    0x7560, 0x7589, 0x75B1, 0x75DA, 0x7603, 0x762C, 0x7655, 0x767E,
    0x76A7, 0x76D0, 0x76F9, 0x7723, 0x774C, 0x7775, 0x779F, 0x77C8,
    0x77F2, 0x781B, 0x7845, 0x786F, 0x7899, 0x78C2, 0x78EC, 0x7916,
    0x7940, 0x796A, 0x7994, 0x79BF, 0x79E9, 0x7A13, 0x7A3D, 0x7A68,
    0x7A92, 0x7ABD, 0x7AE7, 0x7B12, 0x7B3D, 0x7B67, 0x7B92, 0x7BBD,
    0x7BE8, 0x7C13, 0x7C3E, 0x7C69, 0x7C94, 0x7CBF, 0x7CEB, 0x7D16,
    0x7D41, 0x7D6D, 0x7D98, 0x7DC4, 0x7DEF, 0x7E1B, 0x7E47, 0x7E73,
    0x7E9F, 0x7ECA, 0x7EF6, 0x7F22, 0x7F4F, 0x7F7B, 0x7FA7, 0x7FD3,
    0x8000]"

definition Base2Exp :: "int \<Rightarrow> synth_error + int" where
  "Base2Exp xval0 =
    (let xval = (if xval0 < IntToFixedPt (- 1) \<or> xval0 > IntToFixedPt 1 then 0 else xval0);
         ixval = FractionPart (s32 (xval + IntToFixedPt 1) sdiv 2) 13;
         idx = drop_bit 3 ixval;
         irem3 = ixval AND 7
     in if xval = IntToFixedPt 1 then Inr (s32 (push_bit 6 (push_bit 14 2)))
        else
          (case table_read ''g_base2exp'' g_base2exp idx of
             Inl e \<Rightarrow> Inl e
           | Inr y0 \<Rightarrow>
              (case table_read ''g_base2exp'' g_base2exp (idx + 1) of
                 Inl e \<Rightarrow> Inl e
               | Inr y1 \<Rightarrow>
                  (let ydelta = s32 ((y1 - y0) * irem3) sdiv 8;
                       yval = s32 (y0 + ydelta)
                   in Inr (s32 (push_bit 6 yval))))))"

section \<open>Synth engine\<close>

text \<open>Running a loop body over a list of indices, stopping at the first failure.\<close>

primrec for_each :: "('a \<Rightarrow> synth_error + 'b) \<Rightarrow> 'a list \<Rightarrow> synth_error + 'b list" where
  "for_each f [] = Inr []"
| "for_each f (x # xs) =
     (case f x of
        Inl e \<Rightarrow> Inl e
      | Inr y \<Rightarrow> (case for_each f xs of Inl e \<Rightarrow> Inl e | Inr ys \<Rightarrow> Inr (y # ys)))"

text \<open>
  \<open>SynthPrepare\<close>. The tone generator is disabled on entry and enabled on exit; the
  value on exit is kept. The SPI set-up is hardware and is left out.
\<close>

definition SynthPrepare :: "ConfigParams_t \<Rightarrow> synth \<Rightarrow> synth" where
  "SynthPrepare cfg s =
     s\<lparr> m_NoteOn := False,
        m_TriggerRelease1 := True,
        m_TriggerRelease2 := True,
        m_ExpressionLevel := 0,
        m_ModulationLevel := s32 (IntToFixedPt 1 * 50) sdiv 100,
        m_KeyVelocity := s32 (IntToFixedPt 1 * 80) sdiv 100,
        m_RvbDelayLen := s32 \<lfloor>REVERB_LOOP_TIME_SEC * of_int SAMPLE_RATE_HZ\<rfloor>,
        m_RvbAtten := word_of_int (push_bit 7 (u16 REVERB_ATTENUATION_PC) sdiv 100),
        m_RvbMix := word_of_int (push_bit 7 (uint (ReverbMix_pc cfg)) sdiv 100),
        v_SynthEnable := True \<rparr>"

definition SynthTriggerAttack :: "synth \<Rightarrow> synth" where
  "SynthTriggerAttack s =
     s\<lparr> m_TriggerAttack1 := True, m_TriggerAttack2 := True, m_TriggerContour := True,
        m_NoteOn := True \<rparr>"

definition SynthTriggerRelease :: "synth \<Rightarrow> synth" where
  "SynthTriggerRelease s =
     s\<lparr> m_TriggerRelease1 := True, m_TriggerRelease2 := True, m_TriggerReset := True,
        m_NoteOn := False \<rparr>"

text \<open>
  The three statements that open both \<open>SynthNoteChange\<close> and \<open>SynthNoteOff\<close>:
  \<^verbatim>\<open>noteNum &= 0x7F;  if (noteNum > 120) noteNum -= 12;  if (noteNum < 12) noteNum += 12;\<close>
\<close>

definition NoteNumInRange :: "uint8_t \<Rightarrow> uint8_t" where
  "NoteNumInRange noteNum0 =
     (let noteNum1 = noteNum0 AND 0x7F;
          noteNum2 = (if noteNum1 > 120 then noteNum1 - 12 else noteNum1)
      in if noteNum2 < 12 then noteNum2 + 12 else noteNum2)"

text \<open>The body of the oscillator loop of \<open>SynthNoteChange\<close>: the mute flag and the
  initial phase step of oscillator \<open>osc\<close>. The product \<open>oscFreq\<close> and the quotient
  that gives \<open>oscStep\<close> are exact here and truncated once by the cast; the firmware
  rounds each intermediate result to single precision, so its phase step can differ from
  this one in the low-order digits. The properties below that rest on this definition
  concern the table indices, the mute flag and the order of the step relative to the
  ceiling, not the digits of a step.\<close>

definition SynthNoteChange_osc ::
    "PatchParamTable_t \<Rightarrow> uint8_t \<Rightarrow> nat \<Rightarrow> synth_error + (bool \<times> int)" where
  "SynthNoteChange_osc p noteNum osc =
     (case table_read ''g_FreqMultConst'' g_FreqMultConst (uint (OscFreqMult p ! osc)) of
        Inl e \<Rightarrow> Inl e
      | Inr freqMult \<Rightarrow>
         (case table_read ''g_NoteFrequency'' g_NoteFrequency (uint noteNum - 12) of
            Inl e \<Rightarrow> Inl e
          | Inr noteFreq \<Rightarrow>
             (let oscFreq = noteFreq * freqMult;
                  tableSize = s32 (push_bit 16 WAVE_TABLE_SIZE);
                  oscStep = s32 \<lfloor>(of_int tableSize * oscFreq) / of_int SAMPLE_RATE_HZ\<rfloor>
              in Inr (oscFreq > of_int MAX_OSC_FREQ_HZ, oscStep))))"

definition SynthNoteChange :: "PatchParamTable_t \<Rightarrow> uint8_t \<Rightarrow> synth \<Rightarrow> synth_error + synth" where
  "SynthNoteChange p noteNum0 s =
     (let noteNum = NoteNumInRange noteNum0
      in case for_each (SynthNoteChange_osc p noteNum) [0 ..< 6] of
           Inl e \<Rightarrow> Inl e
         | Inr rs \<Rightarrow>
            Inr (s\<lparr> m_NotePlaying := noteNum, m_OscMuted := map fst rs,
                     m_OscStepInit := map snd rs \<rparr>))"

text \<open>\<open>SynthNoteOn\<close>; the build option \<open>APPLY_VELOCITY_EXPL_CURVE\<close> is \<open>FALSE\<close>.\<close>

definition SynthNoteOn ::
    "PatchParamTable_t \<Rightarrow> uint8_t \<Rightarrow> uint8_t \<Rightarrow> synth \<Rightarrow> synth_error + synth" where
  "SynthNoteOn p noteNum velocity s =
     (if \<not> m_NoteOn s then
        (case SynthNoteChange p noteNum s of
           Inl e \<Rightarrow> Inl e
         | Inr s1 \<Rightarrow>
            Inr (SynthTriggerAttack
                   (s1\<lparr> m_KeyVelocity := IntToFixedPt (uint velocity) sdiv 128,
                        m_LegatoNoteChange := False \<rparr>)))
      else
        (case SynthNoteChange p noteNum s of
           Inl e \<Rightarrow> Inl e
         | Inr s1 \<Rightarrow> Inr (s1\<lparr> m_LegatoNoteChange := True \<rparr>)))"

definition SynthNoteOff :: "uint8_t \<Rightarrow> synth \<Rightarrow> synth" where
  "SynthNoteOff noteNum0 s =
     (let noteNum = NoteNumInRange noteNum0
      in if noteNum = m_NotePlaying s then SynthTriggerRelease s else s)"

text \<open>\<open>SynthExpression\<close>; the build option \<open>APPLY_EXPRESSN_EXPL_CURVE\<close> is \<open>FALSE\<close>.\<close>

definition SynthExpression :: "int \<Rightarrow> synth \<Rightarrow> synth" where
  "SynthExpression data14 s =
     (let ulval = u32 (push_bit 6 (u32 data14));
          level = s32 ulval;
          levelMax = s32 (IntToFixedPt 1 * 99) sdiv 100
      in s\<lparr> m_ExpressionLevel := (if level > levelMax then levelMax else level) \<rparr>)"

definition SynthPitchBend :: "ConfigParams_t \<Rightarrow> int \<Rightarrow> synth \<Rightarrow> synth" where
  "SynthPitchBend cfg bipolarPosn s =
     (let posnScaled = s32 (bipolarPosn * uint (PitchBendRange cfg)) sdiv 12
      in s\<lparr> m_PitchBendFactor := s32 (push_bit 7 posnScaled) \<rparr>)"

definition SynthModulation :: "int \<Rightarrow> synth \<Rightarrow> synth" where
  "SynthModulation data14 s =
     (if u32 data14 < 16 * 1024
      then s\<lparr> m_ModulationLevel := s32 (u32 (push_bit 6 (u32 data14))) \<rparr>
      else s\<lparr> m_ModulationLevel := FIXED_MAX_LEVEL \<rparr>)"

definition SynthLFO_PhaseSync :: "synth \<Rightarrow> synth" where
  "SynthLFO_PhaseSync s = s\<lparr> m_LFO_PhaseAngle := 0 \<rparr>"

subsection \<open>Amplitude envelope generator\<close>

text \<open>The attack trigger of \<open>AmpldEnvelopeGenerator\<close> (first \<open>if\<close> of the function).\<close>

definition AmpldEnvelopeGenerator_attack ::
    "PatchParamTable_t \<Rightarrow> synth \<Rightarrow> synth_error + synth" where
  "AmpldEnvelopeGenerator_attack p s =
     (if m_TriggerAttack1 s then
        (let sustain = IntToFixedPt (uint (EnvSustainLevel p)) sdiv 100;
             maximum = (if EnvHoldTime p = 0 then sustain else FIXED_MAX_LEVEL)
         in case c_div maximum (uint (EnvAttackTime p)) of
              Inl e \<Rightarrow> Inl e
            | Inr delta \<Rightarrow>
               Inr (s\<lparr> m_TriggerAttack1 := False, m_TriggerRelease1 := False,
                        envPhaseTimer := 0, sustainLevel := sustain,
                        ampldMaximum := maximum, ampldDelta := delta,
                        EnvSegment := ENV_ATTACK \<rparr>))
      else Inr s)"

text \<open>The release trigger (second \<open>if\<close>).\<close>

definition AmpldEnvelopeGenerator_release :: "PatchParamTable_t \<Rightarrow> synth \<Rightarrow> synth" where
  "AmpldEnvelopeGenerator_release p s =
     (if m_TriggerRelease1 s then
        s\<lparr> m_TriggerRelease1 := False, timeConstant := uint (EnvReleaseTime p) sdiv 5,
           envPhaseTimer := 0, EnvSegment := ENV_RELEASE \<rparr>
      else s)"

text \<open>The \<open>switch\<close> on the envelope segment.\<close>

definition AmpldEnvelopeGenerator_segment ::
    "PatchParamTable_t \<Rightarrow> synth \<Rightarrow> synth_error + synth" where
  "AmpldEnvelopeGenerator_segment p s =
     (case EnvSegment s of
        ENV_IDLE \<Rightarrow> Inr (s\<lparr> m_ENV1_Output := 0 \<rparr>)
      | ENV_ATTACK \<Rightarrow>
          (let s1 = (if m_ENV1_Output s < ampldMaximum s
                     then s\<lparr> m_ENV1_Output := s32 (m_ENV1_Output s + ampldDelta s) \<rparr> else s);
               s2 = s1\<lparr> envPhaseTimer := u32 (envPhaseTimer s1 + 1) \<rparr>
           in if envPhaseTimer s2 \<ge> uint (EnvAttackTime p) then
                Inr (s2\<lparr> m_ENV1_Output := ampldMaximum s2, envPhaseTimer := 0,
                         EnvSegment := (if EnvHoldTime p = 0 then ENV_SUSTAIN
                                        else ENV_PEAK_HOLD) \<rparr>)
              else Inr s2)
      | ENV_PEAK_HOLD \<Rightarrow>
          (let s1 = s\<lparr> envPhaseTimer := u32 (envPhaseTimer s + 1) \<rparr>
           in if envPhaseTimer s1 \<ge> uint (EnvHoldTime p) then
                Inr (s1\<lparr> timeConstant := uint (EnvDecayTime p) sdiv 5, envPhaseTimer := 0,
                         EnvSegment := ENV_DECAY \<rparr>)
              else Inr s1)
      | ENV_DECAY \<Rightarrow>
          (case c_div (s32 (m_ENV1_Output s - sustainLevel s)) (timeConstant s) of
             Inl e \<Rightarrow> Inl e
           | Inr delta0 \<Rightarrow>
              (let delta = (if delta0 = 0 then FIXED_MIN_LEVEL else delta0);
                   s1 = s\<lparr> ampldDelta := delta \<rparr>;
                   s2 = (if m_ENV1_Output s1 \<ge> s32 (sustainLevel s1 + delta)
                         then s1\<lparr> m_ENV1_Output := s32 (m_ENV1_Output s1 - delta) \<rparr> else s1);
                   s3 = s2\<lparr> envPhaseTimer := u32 (envPhaseTimer s2 + 1) \<rparr>
               in if envPhaseTimer s3 \<ge> uint (EnvDecayTime p) * 2
                  then Inr (s3\<lparr> EnvSegment := ENV_SUSTAIN \<rparr>) else Inr s3))
      | ENV_SUSTAIN \<Rightarrow> Inr s
      | ENV_RELEASE \<Rightarrow>
          (case c_div (m_ENV1_Output s) (timeConstant s) of
             Inl e \<Rightarrow> Inl e
           | Inr delta0 \<Rightarrow>
              (let delta = (if delta0 = 0 then FIXED_MIN_LEVEL else delta0);
                   s1 = s\<lparr> ampldDelta := delta \<rparr>;
                   s2 = (if m_ENV1_Output s1 \<ge> delta
                         then s1\<lparr> m_ENV1_Output := s32 (m_ENV1_Output s1 - delta) \<rparr> else s1);
                   s3 = s2\<lparr> envPhaseTimer := u32 (envPhaseTimer s2 + 1) \<rparr>
               in if envPhaseTimer s3 \<ge> uint (EnvReleaseTime p) * 2
                  then Inr (s3\<lparr> EnvSegment := ENV_IDLE \<rparr>) else Inr s3)))"

definition AmpldEnvelopeGenerator :: "PatchParamTable_t \<Rightarrow> synth \<Rightarrow> synth_error + synth" where
  "AmpldEnvelopeGenerator p s =
     (case AmpldEnvelopeGenerator_attack p s of
        Inl e \<Rightarrow> Inl e
      | Inr s1 \<Rightarrow> AmpldEnvelopeGenerator_segment p (AmpldEnvelopeGenerator_release p s1))"

text \<open>The generator called \<open>n\<close> times, once per millisecond, with no other activity.\<close>

primrec AmpldEnvelope_ticks :: "PatchParamTable_t \<Rightarrow> nat \<Rightarrow> synth \<Rightarrow> synth_error + synth" where
  "AmpldEnvelope_ticks p 0 s = Inr s"
| "AmpldEnvelope_ticks p (Suc n) s =
     (case AmpldEnvelopeGenerator p s of
        Inl e \<Rightarrow> Inl e
      | Inr s' \<Rightarrow> AmpldEnvelope_ticks p n s')"

subsection \<open>Frequency and amplitude modulation (5 ms tick)\<close>

text \<open>
  \<open>OscFreqModulation\<close>. The local \<open>modnLevel\<close> is assigned only for the vibrato modes
  1, 2 and 3; reading it in any other non-zero mode is a failure of the model.
\<close>

definition OscFreqModulation_freqDevn ::
    "ConfigParams_t \<Rightarrow> PatchParamTable_t \<Rightarrow> synth \<Rightarrow> synth_error + int" where
  "OscFreqModulation_freqDevn cfg p s =
     (let m1 = (if VibratoCtrlMode cfg = 1
                then Some (s32 (m_ModulationLevel s * uint (PitchBendRange cfg)) sdiv 12)
                else None);
          m2 = (if VibratoCtrlMode cfg = 3
                then Some (s32 (m_RampOutput s * uint (LFO_FM_Depth p)) sdiv 1200) else m1);
          modnLevel = (if VibratoCtrlMode cfg = 2
                then Some (s32 (IntToFixedPt 1 * uint (LFO_FM_Depth p)) sdiv 1200) else m2)
      in if VibratoCtrlMode cfg \<noteq> 0 then
           (case modnLevel of
              None \<Rightarrow> Inl (UninitialisedRead ''modnLevel'')
            | Some m \<Rightarrow> Base2Exp (MultiplyFixed (m_LFO_output s) m))
         else if PitchBendMode cfg \<noteq> 0 then Base2Exp (m_PitchBendFactor s)
         else Inr (IntToFixedPt 1))"

definition OscFreqModulation_detuneNorm ::
    "ConfigParams_t \<Rightarrow> PatchParamTable_t \<Rightarrow> nat \<Rightarrow> synth_error + int" where
  "OscFreqModulation_detuneNorm cfg p osc =
     (let cents = s16 (sint (OscDetune p ! osc) + sint (FineTuning_cents cfg))
      in Base2Exp (s32 (IntToFixedPt 1 * cents) sdiv 1200))"

definition OscFreqModulation ::
    "ConfigParams_t \<Rightarrow> PatchParamTable_t \<Rightarrow> synth \<Rightarrow> synth_error + synth" where
  "OscFreqModulation cfg p s =
     (let oscFreqLFO = push_bit 8 (uint (LFO_Freq_x10 p)) sdiv 10;
          s1 = s\<lparr> m_LFO_Step := s32 (oscFreqLFO * WAVE_TABLE_SIZE) sdiv 1000 \<rparr>
      in case OscFreqModulation_freqDevn cfg p s1 of
           Inl e \<Rightarrow> Inl e
         | Inr freqDevn \<Rightarrow>
            (case for_each
                    (\<lambda>osc. case OscFreqModulation_detuneNorm cfg p osc of
                             Inl e \<Rightarrow> Inl e
                           | Inr detuneNorm \<Rightarrow>
                              (let stepDetune = MultiplyFixed (m_OscStepInit s1 ! osc) detuneNorm
                               in Inr (stepDetune, MultiplyFixed stepDetune freqDevn)))
                    [0 ..< 6] of
               Inl e \<Rightarrow> Inl e
             | Inr rs \<Rightarrow>
                Inr (s1\<lparr> m_OscStepDetune := map fst rs, v_OscStep := map snd rs \<rparr>)))"

text \<open>The body of the oscillator loop of \<open>OscAmpldModulation\<close>: the amplitude
  modulation factor and the mixer input level of oscillator \<open>osc\<close>.\<close>

definition OscAmpldModulation_osc ::
    "PatchParamTable_t \<Rightarrow> synth \<Rightarrow> nat \<Rightarrow> synth_error + (uint16_t \<times> uint16_t)" where
  "OscAmpldModulation_osc p s osc =
     (let LFO_scaled = s32 (m_LFO_output s * uint (LFO_AM_Depth p)) sdiv 200;
          LFO_AM_bias = s32 (IntToFixedPt 1 - IntToFixedPt (uint (LFO_AM_Depth p)) sdiv 200);
          src = OscAmpldModSource p ! osc;
          modn0 :: uint16_t =
            (if src = OSC_MODN_SOURCE_CONT_POS then word_of_int (drop_bit 10 (m_ContourOutput s))
             else if src = OSC_MODN_SOURCE_CONT_NEG
               then word_of_int (1024 - drop_bit 10 (m_ContourOutput s))
             else if src = OSC_MODN_SOURCE_ENV2 then word_of_int (drop_bit 10 (m_ENV2_Output s))
             else if src = OSC_MODN_SOURCE_MODN
               then word_of_int (drop_bit 10 (m_ModulationLevel s))
             else if src = OSC_MODN_SOURCE_EXPR_POS
               then word_of_int (drop_bit 10 (m_ExpressionLevel s))
             else if src = OSC_MODN_SOURCE_EXPR_NEG
               then word_of_int (1024 - drop_bit 10 (m_ExpressionLevel s))
             else if src = OSC_MODN_SOURCE_LFO
               then word_of_int (drop_bit 10 (s32 (LFO_scaled + LFO_AM_bias)))
             else if src = OSC_MODN_SOURCE_VELO_POS
               then word_of_int (drop_bit 10 (m_KeyVelocity s))
             else if src = OSC_MODN_SOURCE_VELO_NEG
               then word_of_int (1024 - drop_bit 10 (m_KeyVelocity s))
             else 1000);
          modn = (if modn0 > 1000 then 1000 else modn0)
      in if m_OscMuted s ! osc then Inr (modn, 0)
         else
           (case table_read ''g_AmpldLevelLogScale_x1000'' g_AmpldLevelLogScale_x1000
                   (sint (MixerInputStep p ! osc)) of
              Inl e \<Rightarrow> Inl e
            | Inr level \<Rightarrow> Inr (modn, level)))"

definition OscAmpldModulation :: "PatchParamTable_t \<Rightarrow> synth \<Rightarrow> synth_error + synth" where
  "OscAmpldModulation p s =
     (case for_each (OscAmpldModulation_osc p s) [0 ..< 6] of
        Inl e \<Rightarrow> Inl e
      | Inr rs \<Rightarrow>
         Inr (s\<lparr> v_OscAmpldModn := map fst rs, v_MixerLevel := map snd rs,
                  v_MixerOutGain := word_of_int (push_bit 7 (uint (MixerOutGain_x10 p)) sdiv 10) \<rparr>))"

text \<open>
  The frequency of an oscillator as the specification words it: note frequency times
  frequency multiplier times detune factor times modulation factor, the two factors
  being 12:20 fixed-point numbers.
\<close>

definition resulting_frequency :: "rat \<Rightarrow> rat \<Rightarrow> int \<Rightarrow> int \<Rightarrow> rat" where
  "resulting_frequency noteFreq freqMult detuneNorm freqDevn =
     noteFreq * freqMult * (of_int detuneNorm / 1048576) * (of_int freqDevn / 1048576)"

subsection \<open>Oscillator phase accumulators (audio interrupt)\<close>

text \<open>
  The wave-table oscillator statements of \<open>TC3_Handler\<close> for one oscillator: the table
  is read at the integer part of the phase angle, then the angle is advanced by the
  phase step and wrapped. The sample value and the rest of the signal chain are not
  represented.
\<close>

definition TC3_Handler_osc :: "int \<Rightarrow> int \<Rightarrow> synth_error + int" where
  "TC3_Handler_osc angle step =
     (let idx = drop_bit 16 angle
      in if 0 \<le> idx \<and> idx < WAVE_TABLE_SIZE then
           (let angle1 = s32 (angle + step)
            in Inr (if angle1 \<ge> push_bit 16 WAVE_TABLE_SIZE
                    then s32 (angle1 - push_bit 16 WAVE_TABLE_SIZE) else angle1))
         else Inl (IndexOutOfRange ''g_sine_wave''))"

definition TC3_Handler_oscillators :: "synth \<Rightarrow> synth_error + synth" where
  "TC3_Handler_oscillators s =
     (if v_SynthEnable s then
        (case for_each (\<lambda>osc. TC3_Handler_osc (v_OscAngle s ! osc) (v_OscStep s ! osc))
                [0 ..< 6] of
           Inl e \<Rightarrow> Inl e
         | Inr angles \<Rightarrow> Inr (s\<lparr> v_OscAngle := angles \<rparr>))
      else Inr s)"

text \<open>The interrupt taken \<open>n\<close> times in a row.\<close>

primrec TC3_Handler_samples :: "nat \<Rightarrow> synth \<Rightarrow> synth_error + synth" where
  "TC3_Handler_samples 0 s = Inr s"
| "TC3_Handler_samples (Suc n) s =
     (case TC3_Handler_oscillators s of
        Inl e \<Rightarrow> Inl e
      | Inr s' \<Rightarrow> TC3_Handler_samples n s')"

text \<open>
  The phase accumulator of one oscillator over \<open>n\<close> interrupts in a row: the oscillator
  statements are applied to its angle \<open>n\<close> times with the same step (the interrupt
  routine does not write \<open>v_OscStep\<close>).
\<close>

primrec TC3_Handler_osc_samples :: "nat \<Rightarrow> int \<Rightarrow> int \<Rightarrow> synth_error + int" where
  "TC3_Handler_osc_samples 0 angle step = Inr angle"
| "TC3_Handler_osc_samples (Suc n) angle step =
     (case TC3_Handler_osc angle step of
        Inl e \<Rightarrow> Inl e
      | Inr angle' \<Rightarrow> TC3_Handler_osc_samples n angle' step)"

section \<open>Voice module: presets and MIDI input\<close>

definition GetNumberOfPresets :: int where
  "GetNumberOfPresets = int (length g_PresetPatch)"

definition PresetSelect :: "uint8_t \<Rightarrow> voice \<Rightarrow> voice" where
  "PresetSelect preset v =
     (if uint preset < GetNumberOfPresets then
        (let v1 = v\<lparr> g_Patch := g_PresetPatch ! unat preset \<rparr>;
             v2 = v1\<lparr> engine := SynthPrepare (g_Config v1) (engine v1) \<rparr>
         in v2\<lparr> g_Config := (g_Config v2)\<lparr> PresetLastSelected := preset \<rparr> \<rparr>)
      else v)"

definition MIDI_GetMessageLength :: "uint8_t \<Rightarrow> int" where
  "MIDI_GetMessageLength statusByte =
     (let command = statusByte AND 0xF0;
          length0 = (0 :: int);
          length1 = (if command = PROGRAM_CHANGE_CMD \<or> command = CHAN_PRESSURE_CMD
                     then 2 else length0);
          length2 = (if command = NOTE_ON_CMD \<or> command = NOTE_OFF_CMD
                        \<or> command = CONTROL_CHANGE_CMD \<or> command = PITCH_BEND_CMD
                     then 3 else length1)
      in if statusByte = SYS_EXCLUSIVE_MSG then MIDI_MSG_MAX_LENGTH else length2)"

definition ProcessControlChange :: "uint8_t list \<Rightarrow> voice \<Rightarrow> voice" where
  "ProcessControlChange msg v =
     (let CCnumber = msg ! 1; dataByte = msg ! 2
      in
      if CCnumber = 2 \<or> CCnumber = 7 \<or> CCnumber = 11 then
        (let v1 = v\<lparr> expressionHi := dataByte \<rparr>;
             data14 = push_bit 7 (uint (expressionHi v1))
         in v1\<lparr> engine := SynthExpression data14 (engine v1) \<rparr>)
      else if CCnumber = 34 \<or> CCnumber = 39 \<or> CCnumber = 43 then
        (let data14 = push_bit 7 (uint (expressionHi v)) + uint dataByte
         in v\<lparr> engine := SynthExpression data14 (engine v) \<rparr>)
      else if CCnumber = 1 then
        (let v1 = v\<lparr> modulationHi := dataByte \<rparr>;
             data14 = push_bit 7 (uint (modulationHi v1))
         in v1\<lparr> engine := SynthModulation data14 (engine v1) \<rparr>)
      else if CCnumber = 33 then
        (let data14 = push_bit 7 (uint (modulationHi v)) + uint dataByte
         in v\<lparr> engine := SynthModulation data14 (engine v) \<rparr>)
      else if CCnumber = 100 then v\<lparr> g_MidiRegisParam := dataByte \<rparr>
      else if CCnumber = 38 then
        (let v1 = (if g_MidiRegisParam v = 0x00 \<and> dataByte \<le> 12
                   then v\<lparr> g_Config := (g_Config v)\<lparr> PitchBendRange := dataByte \<rparr> \<rparr> else v)
         in if g_MidiRegisParam v1 = 0x01
            then v1\<lparr> g_Config := (g_Config v1)\<lparr> FineTuning_cents := ucast dataByte - 64 \<rparr> \<rparr>
            else v1)
      else if CCnumber = 86 then
        (if dataByte < 4
         then v\<lparr> g_Config := (g_Config v)\<lparr> AudioAmpldCtrlMode := dataByte \<rparr> \<rparr> else v)
      else if CCnumber = 87 then
        (if dataByte < 4
         then v\<lparr> g_Config := (g_Config v)\<lparr> VibratoCtrlMode := dataByte \<rparr> \<rparr> else v)
      else if CCnumber = 88 then
        (if dataByte < 4
         then v\<lparr> g_Config := (g_Config v)\<lparr> PitchBendMode := dataByte \<rparr> \<rparr> else v)
      else if CCnumber = 89 then
        (if dataByte \<le> 100
         then v\<lparr> g_Config := (g_Config v)\<lparr> ReverbMix_pc := dataByte \<rparr> \<rparr> else v)
      else if CCnumber = 70 then
        (if dataByte \<noteq> 0
         then v\<lparr> g_Patch := (g_Patch v)\<lparr> MixerOutGain_x10 := ucast dataByte \<rparr> \<rparr> else v)
      else if CCnumber = 71 then
        (if dataByte \<le> 95
         then v\<lparr> g_Patch := (g_Patch v)\<lparr> LimiterLevelPc := ucast dataByte \<rparr> \<rparr> else v)
      else if CCnumber = 72 then
        (if dataByte \<noteq> 0 \<and> dataByte \<le> 100
         then v\<lparr> g_Patch := (g_Patch v)\<lparr> EnvReleaseTime := ucast dataByte * 100 \<rparr> \<rparr> else v)
      else if CCnumber = 73 then
        (if dataByte \<noteq> 0 \<and> dataByte \<le> 100
         then v\<lparr> g_Patch := (g_Patch v)\<lparr> EnvAttackTime := ucast dataByte * 10 \<rparr> \<rparr> else v)
      else if CCnumber = 74 then
        (if dataByte \<le> 100
         then v\<lparr> g_Patch := (g_Patch v)\<lparr> EnvHoldTime := ucast dataByte * 10 \<rparr> \<rparr> else v)
      else if CCnumber = 75 then
        (if dataByte \<noteq> 0 \<and> dataByte \<le> 100
         then v\<lparr> g_Patch := (g_Patch v)\<lparr> EnvDecayTime := ucast dataByte * 100 \<rparr> \<rparr> else v)
      else if CCnumber = 76 then
        (if dataByte \<le> 100
         then v\<lparr> g_Patch := (g_Patch v)\<lparr> EnvSustainLevel := ucast dataByte \<rparr> \<rparr> else v)
      else if CCnumber = 77 then
        (if dataByte \<noteq> 0 \<and> dataByte \<le> 50
         then v\<lparr> g_Patch := (g_Patch v)\<lparr> LFO_Freq_x10 := ucast dataByte * 10 \<rparr> \<rparr> else v)
      else if CCnumber = 78 then
        (if dataByte \<le> 100
         then v\<lparr> g_Patch := (g_Patch v)\<lparr> LFO_RampTime := ucast dataByte * 100 \<rparr> \<rparr> else v)
      else if CCnumber = 79 then
        (if dataByte \<le> 120
         then v\<lparr> g_Patch := (g_Patch v)\<lparr> LFO_FM_Depth := ucast dataByte * 5 \<rparr> \<rparr> else v)
      else if CCnumber = 80 then
        (let oscnum = drop_bit 4 dataByte mod 6
         in v\<lparr> g_Patch := (g_Patch v)
               \<lparr> MixerInputStep :=
                   (MixerInputStep (g_Patch v))[unat oscnum := ucast (dataByte AND 0x0F)] \<rparr> \<rparr>)
      else if CCnumber = 112 then v\<lparr> engine := SynthLFO_PhaseSync (engine v) \<rparr>
      else if CCnumber = 120 \<or> CCnumber = 123
        then v\<lparr> engine := SynthPrepare (g_Config v) (engine v) \<rparr>
      else v)"

text \<open>\<open>ProcessMidiSystemExclusive\<close> does nothing in this version of the firmware.\<close>

definition ProcessMidiSystemExclusive :: "uint8_t list \<Rightarrow> int \<Rightarrow> voice \<Rightarrow> voice" where
  "ProcessMidiSystemExclusive msg msgLength v =
     (if msg ! 1 = SYS_EXCL_REMI_ID then v else v)"

definition ProcessMidiMessage :: "uint8_t list \<Rightarrow> int \<Rightarrow> voice \<Rightarrow> synth_error + voice" where
  "ProcessMidiMessage msg msgLength v =
     (let statusByte = msg ! 0 AND 0xF0;
          noteNumber = msg ! 1;
          velocity = msg ! 2;
          program = msg ! 1;
          leverPosn_Lo = msg ! 1;
          leverPosn_Hi = msg ! 2
      in
      if statusByte = NOTE_OFF_CMD then
        Inr (v\<lparr> engine := SynthNoteOff noteNumber (engine v), TESTPOINT2 := False \<rparr>)
      else if statusByte = NOTE_ON_CMD then
        (if velocity = 0 then
           Inr (v\<lparr> engine := SynthNoteOff noteNumber (engine v), TESTPOINT2 := False \<rparr>)
         else
           (case SynthNoteOn (g_Patch v) noteNumber velocity (engine v) of
              Inl e \<Rightarrow> Inl e
            | Inr e' \<Rightarrow> Inr (v\<lparr> engine := e', TESTPOINT2 := True \<rparr>)))
      else if statusByte = CONTROL_CHANGE_CMD then Inr (ProcessControlChange msg v)
      else if statusByte = PROGRAM_CHANGE_CMD then Inr (PresetSelect program v)
      else if statusByte = PITCH_BEND_CMD then
        (let bipolarPosn =
               s16 ((s16 (push_bit 7 (uint leverPosn_Hi)) OR uint leverPosn_Lo) - 0x2000)
         in Inr (v\<lparr> engine := SynthPitchBend (g_Config v) bipolarPosn (engine v) \<rparr>))
      else if statusByte = SYS_EXCLUSIVE_MSG then
        Inr (ProcessMidiSystemExclusive msg msgLength v)
      else Inr v)"

text \<open>A write to an element of an array.\<close>

definition array_write :: "string \<Rightarrow> 'a list \<Rightarrow> int \<Rightarrow> 'a \<Rightarrow> synth_error + 'a list" where
  "array_write name xs i x =
     (if 0 \<le> i \<and> i < int (length xs) then Inr (xs[nat i := x])
      else Inl (IndexOutOfRange name))"

text \<open>
  \<open>MidiInputService\<close> when a byte is available: \<open>msgByte\<close> is the byte read from the
  serial port. The first part stores the byte and gives the flag \<open>gotSysExMsg\<close>.
\<close>

definition MidiInputService_store :: "uint8_t \<Rightarrow> voice \<Rightarrow> synth_error + (voice \<times> bool)" where
  "MidiInputService_store msgByte v =
     (if msgByte AND 0x80 \<noteq> 0 then
        (if msgByte = SYSTEM_MSG_EOX then
           (case array_write ''midiMessage'' (midiMessage v) (msgIndex v) SYSTEM_MSG_EOX of
              Inl e \<Rightarrow> Inl e
            | Inr buf \<Rightarrow>
               Inr (v\<lparr> msgComplete := True, midiMessage := buf,
                        msgIndex := s16 (msgIndex v + 1),
                        msgByteCount := s16 (msgByteCount v + 1) \<rparr>, True))
         else if msgByte \<le> SYS_EXCLUSIVE_MSG then
           (case array_write ''midiMessage'' (midiMessage v) 0 msgByte of
              Inl e \<Rightarrow> Inl e
            | Inr buf \<Rightarrow>
               Inr (v\<lparr> msgStatus := msgByte, msgComplete := False, midiMessage := buf,
                        msgIndex := 1, msgByteCount := 1,
                        msgBytesExpected := MIDI_GetMessageLength msgByte \<rparr>, False))
         else Inr (v, False))
      else
        (let v1 = (if msgComplete v \<and> msgStatus v \<noteq> SYS_EXCLUSIVE_MSG \<and> msgByteCount v = 0
                   then v\<lparr> msgIndex := 1, msgByteCount := 1,
                           msgBytesExpected := MIDI_GetMessageLength (msgStatus v) \<rparr>
                   else v)
         in if msgIndex v1 < MIDI_MSG_MAX_LENGTH then
              (case array_write ''midiMessage'' (midiMessage v1) (msgIndex v1) msgByte of
                 Inl e \<Rightarrow> Inl e
               | Inr buf \<Rightarrow>
                  Inr (v1\<lparr> midiMessage := buf, msgIndex := s16 (msgIndex v1 + 1),
                            msgByteCount := s16 (msgByteCount v1 + 1) \<rparr>, False))
            else Inr (v1, False)))"

definition MidiInputService :: "uint8_t \<Rightarrow> voice \<Rightarrow> synth_error + voice" where
  "MidiInputService msgByte v =
     (case MidiInputService_store msgByte v of
        Inl e \<Rightarrow> Inl e
      | Inr (v1, gotSysExMsg) \<Rightarrow>
         if (msgByteCount v1 \<noteq> 0 \<and> msgByteCount v1 = msgBytesExpected v1) \<or> gotSysExMsg then
           (let v2 = v1\<lparr> msgComplete := True \<rparr>;
                msgChannel = (midiMessage v2 ! 0 AND 0x0F) + 1
            in if msgChannel = g_MidiChannel v2 \<or> msgChannel = 16
                  \<or> g_MidiMode v2 = OMNI_ON_MONO \<or> msgStatus v2 = SYS_EXCLUSIVE_MSG then
                 (case ProcessMidiMessage (midiMessage v2) (msgByteCount v2)
                         (v2\<lparr> dispatched :=
                                dispatched v2 @ [(midiMessage v2, msgByteCount v2)] \<rparr>) of
                    Inl e \<Rightarrow> Inl e
                  | Inr v3 \<Rightarrow>
                     Inr (v3\<lparr> msgBytesExpected := 0, msgByteCount := 0, msgIndex := 0 \<rparr>))
               else Inr v2)
         else Inr v1)"

text \<open>The service routine called once for each byte of a stream.\<close>

primrec MidiInputStream :: "uint8_t list \<Rightarrow> voice \<Rightarrow> synth_error + voice" where
  "MidiInputStream [] v = Inr v"
| "MidiInputStream (b # bs) v =
     (case MidiInputService b v of
        Inl e \<Rightarrow> Inl e
      | Inr v' \<Rightarrow> MidiInputStream bs v')"

subsection \<open>Start-up\<close>

text \<open>Static storage is zero at start-up.\<close>

definition synth_zero :: synth where
  "synth_zero =
     \<lparr> m_OscStepInit = replicate 6 0, m_OscStepDetune = replicate 6 0,
       m_OscMuted = replicate 6 False,
       m_LFO_PhaseAngle = 0, m_LFO_Step = 0, m_LFO_output = 0, m_RampOutput = 0,
       m_ExpressionLevel = 0, m_ModulationLevel = 0, m_PitchBendFactor = 0,
       m_ENV1_Output = 0, m_ENV2_Output = 0, m_ContourOutput = 0, m_KeyVelocity = 0,
       m_TriggerAttack1 = False, m_TriggerRelease1 = False, m_TriggerAttack2 = False,
       m_TriggerRelease2 = False, m_TriggerContour = False, m_TriggerReset = False,
       m_LegatoNoteChange = False, m_NoteOn = False, m_NotePlaying = 0,
       m_RvbDelayLen = 0, m_RvbAtten = 0, m_RvbMix = 0,
       v_SynthEnable = False, v_OscAngle = replicate 6 0, v_OscStep = replicate 6 0,
       v_OscAmpldModn = replicate 6 0, v_MixerLevel = replicate 6 0, v_MixerOutGain = 0,
       v_LimiterLevelPos = 0, v_LimiterLevelNeg = 0, v_OutputLevel = 0,
       EnvSegment = ENV_IDLE, envPhaseTimer = 0, sustainLevel = 0, timeConstant = 0,
       ampldDelta = 0, ampldMaximum = 0 \<rparr>"

definition patch_zero :: PatchParamTable_t where
  "patch_zero =
     \<lparr> PresetName = [],
       OscFreqMult = replicate 6 0, OscAmpldModSource = replicate 6 0,
       OscDetune = replicate 6 0, MixerInputStep = replicate 6 0,
       EnvAttackTime = 0, EnvHoldTime = 0, EnvDecayTime = 0, EnvSustainLevel = 0,
       EnvReleaseTime = 0, AmpControlMode = 0,
       ContourStartLevel = 0, ContourDelayTime = 0, ContourRampTime = 0, ContourHoldLevel = 0,
       Env2DecayTime = 0, Env2SustainLevel = 0,
       LFO_Freq_x10 = 0, LFO_RampTime = 0, LFO_FM_Depth = 0, LFO_AM_Depth = 0,
       MixerOutGain_x10 = 0, LimiterLevelPc = 0 \<rparr>"

definition voice_zero :: voice where
  "voice_zero =
     \<lparr> g_Config =
         \<lparr> AudioAmpldCtrlMode = 0, VibratoCtrlMode = 0, PitchBendMode = 0, PitchBendRange = 0,
           ReverbMix_pc = 0, PresetLastSelected = 0, Pitch_CV_BaseNote = 0,
           Pitch_CV_Quantize = False, CV_ModeAutoSwitch = False, CV3_is_Velocity = False,
           CV1_FullScale_mV = 0, FineTuning_cents = 0, EEpromCheckWord = 0 \<rparr>,
       g_MidiChannel = 0, g_MidiMode = 0, g_MidiRegisParam = 0,
       g_Patch = patch_zero, engine = synth_zero,
       midiMessage = replicate 16 0, msgBytesExpected = 0, msgByteCount = 0, msgIndex = 0,
       msgStatus = 0, msgComplete = False, modulationHi = 0, expressionHi = 0,
       TESTPOINT2 = False, dispatched = [] \<rparr>"

definition DefaultConfigData :: "voice \<Rightarrow> voice" where
  "DefaultConfigData v =
     v\<lparr> g_Config := (g_Config v)
          \<lparr> AudioAmpldCtrlMode := AUDIO_CTRL_ENV1_VELO,
            VibratoCtrlMode := VIBRATO_DISABLED,
            PitchBendMode := PITCH_BEND_BY_MIDI_MSG,
            PitchBendRange := 2,
            ReverbMix_pc := 15,
            PresetLastSelected := 1,
            FineTuning_cents := 0 \<rparr> \<rparr>"

text \<open>\<open>setup\<close>, with the value read from the four channel-select switches.\<close>

definition voice_setup :: "uint8_t \<Rightarrow> voice" where
  "voice_setup channelSwitches =
     (let v1 = voice_zero\<lparr> g_MidiChannel := channelSwitches,
                 g_MidiMode := (if channelSwitches = 0 then OMNI_ON_MONO else OMNI_OFF_MONO) \<rparr>
      in PresetSelect 13 (DefaultConfigData v1))"

subsection \<open>Validity ranges of controller data\<close>

text \<open>
  The range of the data byte that \<open>ProcessControlChange\<close> accepts at each controller
  number whose assignment to a configuration or patch field is guarded by a range check
  (lowest and highest accepted value); \<open>None\<close> for every other controller number.
  Controller 38 is the data entry of the pitch-bend range when the registered parameter
  number is 0.
\<close>

definition ControlChange_data_range :: "uint8_t \<Rightarrow> (uint8_t \<times> uint8_t) option" where
  "ControlChange_data_range CCnumber =
     (if CCnumber = 38 then Some (0, 12)
      else if CCnumber = 86 \<or> CCnumber = 87 \<or> CCnumber = 88 then Some (0, 3)
      else if CCnumber = 89 then Some (0, 100)
      else if CCnumber = 70 then Some (1, 255)
      else if CCnumber = 71 then Some (0, 95)
      else if CCnumber = 72 \<or> CCnumber = 73 \<or> CCnumber = 75 then Some (1, 100)
      else if CCnumber = 74 \<or> CCnumber = 76 \<or> CCnumber = 78 then Some (0, 100)
      else if CCnumber = 77 then Some (1, 50)
      else if CCnumber = 79 then Some (0, 120)
      else None)"

definition ControlChange_data_out_of_range :: "uint8_t \<Rightarrow> uint8_t \<Rightarrow> bool" where
  "ControlChange_data_out_of_range CCnumber dataByte =
     (case ControlChange_data_range CCnumber of
        None \<Rightarrow> False
      | Some (lo, hi) \<Rightarrow> dataByte < lo \<or> hi < dataByte)"

subsection \<open>Auxiliary notions for the MIDI input properties\<close>

text \<open>What the \<open>NOTE_ON_CMD\<close> case of \<open>ProcessMidiMessage\<close> does to the engine.\<close>

definition NoteOn_case_engine ::
    "PatchParamTable_t \<Rightarrow> uint8_t \<Rightarrow> uint8_t \<Rightarrow> synth \<Rightarrow> synth_error + synth" where
  "NoteOn_case_engine p noteNumber velocity s =
     (if velocity = 0 then Inr (SynthNoteOff noteNumber s)
      else SynthNoteOn p noteNumber velocity s)"

text \<open>The framing state between two data pairs of a message with status \<open>st\<close>: either
  the status byte has just been stored, or a message has just been dispatched.\<close>

definition awaiting_pair :: "uint8_t \<Rightarrow> voice \<Rightarrow> bool" where
  "awaiting_pair st v \<longleftrightarrow>
     length (midiMessage v) = 16 \<and> midiMessage v ! 0 = st \<and> msgStatus v = st \<and>
     ((msgIndex v = 1 \<and> msgByteCount v = 1 \<and> msgBytesExpected v = 3) \<or>
      (msgByteCount v = 0 \<and> msgComplete v))"

subsection \<open>Auxiliary notion for the envelope properties\<close>

text \<open>Whether one of the first \<open>n\<close> calls of the generator ends in the idle segment.\<close>

primrec AmpldEnvelope_idle_within :: "PatchParamTable_t \<Rightarrow> nat \<Rightarrow> synth \<Rightarrow> bool" where
  "AmpldEnvelope_idle_within p 0 s = False"
| "AmpldEnvelope_idle_within p (Suc n) s =
     (case AmpldEnvelopeGenerator p s of
        Inl e \<Rightarrow> False
      | Inr s' \<Rightarrow> EnvSegment s' = ENV_IDLE \<or> AmpldEnvelope_idle_within p n s')"

text \<open>
  A note released one millisecond after it was initiated: attack trigger, one call of the
  generator, release trigger, then \<open>n\<close> further calls.
\<close>

definition attack_tick_release_ticks ::
    "PatchParamTable_t \<Rightarrow> nat \<Rightarrow> synth \<Rightarrow> synth_error + synth" where
  "attack_tick_release_ticks p n s =
     (case AmpldEnvelopeGenerator p (SynthTriggerAttack s) of
        Inl e \<Rightarrow> Inl e
      | Inr s1 \<Rightarrow> AmpldEnvelope_ticks p n (SynthTriggerRelease s1))"

text \<open>
  A note ended before the generator runs again: \<open>SynthNoteOn\<close>, then \<open>SynthNoteOff\<close>
  for the same note number, then \<open>n\<close> calls of the generator; and whether one of these
  calls ends in the idle segment.
\<close>

definition note_on_off_then_ticks ::
    "PatchParamTable_t \<Rightarrow> uint8_t \<Rightarrow> uint8_t \<Rightarrow> nat \<Rightarrow> synth \<Rightarrow> synth_error + synth" where
  "note_on_off_then_ticks p noteNum velocity n s =
     (case SynthNoteOn p noteNum velocity s of
        Inl e \<Rightarrow> Inl e
      | Inr s1 \<Rightarrow> AmpldEnvelope_ticks p n (SynthNoteOff noteNum s1))"

definition note_on_off_idle_within ::
    "PatchParamTable_t \<Rightarrow> uint8_t \<Rightarrow> uint8_t \<Rightarrow> nat \<Rightarrow> synth \<Rightarrow> bool" where
  "note_on_off_idle_within p noteNum velocity n s =
     (case SynthNoteOn p noteNum velocity s of
        Inl e \<Rightarrow> False
      | Inr s1 \<Rightarrow> AmpldEnvelope_idle_within p n (SynthNoteOff noteNum s1))"

text \<open>The note-on flag, the envelope segment and the envelope output of a result.\<close>

definition envelope_state ::
    "synth_error + synth \<Rightarrow> synth_error + bool \<times> Envelope_Gen_Phases \<times> int" where
  "envelope_state r =
     (case r of Inl e \<Rightarrow> Inl e | Inr s \<Rightarrow> Inr (m_NoteOn s, EnvSegment s, m_ENV1_Output s))"

subsection \<open>Auxiliary notions for the oscillator muting properties\<close>

text \<open>
  The modulation part of \<open>SynthProcess\<close>, run at every fifth call: \<open>OscFreqModulation\<close>
  followed by \<open>OscAmpldModulation\<close>. (\<open>VibratoRampGenerator\<close>, which runs before them
  and writes only the vibrato ramp, is not represented.)
\<close>

definition modulation_tick ::
    "ConfigParams_t \<Rightarrow> PatchParamTable_t \<Rightarrow> synth \<Rightarrow> synth_error + synth" where
  "modulation_tick cfg p s =
     (case OscFreqModulation cfg p s of
        Inl e \<Rightarrow> Inl e
      | Inr s1 \<Rightarrow> OscAmpldModulation p s1)"

text \<open>\<open>SynthNoteChange\<close> followed by the next modulation tick.\<close>

definition note_then_modulation_tick ::
    "ConfigParams_t \<Rightarrow> PatchParamTable_t \<Rightarrow> uint8_t \<Rightarrow> synth \<Rightarrow> synth_error + synth" where
  "note_then_modulation_tick cfg p noteNum s =
     (case SynthNoteChange p noteNum s of
        Inl e \<Rightarrow> Inl e
      | Inr s1 \<Rightarrow> modulation_tick cfg p s1)"

text \<open>
  The frequency in Hz at which the audio interrupt runs an oscillator: its phase step
  times the sample rate, divided by the table length in 16:16 format.
\<close>

definition osc_frequency_Hz :: "nat \<Rightarrow> synth \<Rightarrow> rat" where
  "osc_frequency_Hz osc s =
     of_int (v_OscStep s ! osc) * of_int SAMPLE_RATE_HZ / of_int (push_bit 16 WAVE_TABLE_SIZE)"

text \<open>An oscillator that is in the mix, not muted, at a frequency above the ceiling.\<close>

definition osc_sounds_above_ceiling :: "nat \<Rightarrow> synth \<Rightarrow> bool" where
  "osc_sounds_above_ceiling osc s \<longleftrightarrow>
     \<not> m_OscMuted s ! osc \<and> v_MixerLevel s ! osc \<noteq> 0 \<and>
     osc_frequency_Hz osc s > of_int MAX_OSC_FREQ_HZ"

definition holds_after :: "(synth \<Rightarrow> bool) \<Rightarrow> synth_error + synth \<Rightarrow> bool" where
  "holds_after P r = (case r of Inl e \<Rightarrow> False | Inr s \<Rightarrow> P s)"

text \<open>The value \<open>oscFreq\<close> of \<open>SynthNoteChange\<close> for oscillator \<open>osc\<close>: the frequency
  of the folded note times the frequency multiplier selected by the patch.\<close>

definition nominal_frequency :: "PatchParamTable_t \<Rightarrow> uint8_t \<Rightarrow> nat \<Rightarrow> rat" where
  "nominal_frequency p noteNum osc =
     g_NoteFrequency ! nat (uint (NoteNumInRange noteNum) - 12) *
     g_FreqMultConst ! unat (OscFreqMult p ! osc)"

section \<open>Properties\<close>

lemma length_g_base2exp: "length g_base2exp = 1025"
  by (simp add: g_base2exp_def)

lemma g_base2exp_0: "g_base2exp ! 0 = 8192"
  by (simp add: g_base2exp_def)

lemma g_base2exp_1: "g_base2exp ! 1 = 8203"
  by (simp add: g_base2exp_def)

lemma g_base2exp_512: "g_base2exp ! 512 = 16384"
  by (simp add: g_base2exp_def)

lemma g_base2exp_513: "g_base2exp ! 513 = 16406"
  by (simp add: g_base2exp_def)

subsection \<open>Fixed-point constants\<close>

lemma s32_id: "- 2147483648 \<le> x \<Longrightarrow> x < 2147483648 \<Longrightarrow> s32 x = x"
  by (simp add: s32_def)

lemma IntToFixedPt_1: "IntToFixedPt 1 = 1048576"
  by (simp add: IntToFixedPt_def s32_def)

lemma IntToFixedPt_minus_1: "IntToFixedPt (- 1) = - 1048576"
  by (simp add: IntToFixedPt_def s32_def push_bit_eq_mult)

subsection \<open>The exponential at the boundaries of its domain\<close>

lemma Base2Exp_zero: "Base2Exp 0 = Inr 1048576"
  by (simp add: Base2Exp_def IntToFixedPt_1 IntToFixedPt_minus_1 FractionPart_def
      table_read_def length_g_base2exp g_base2exp_512 g_base2exp_513 s32_def Let_def
      drop_bit_eq_div)

lemma Base2Exp_plus_one: "Base2Exp 1048576 = Inr 2097152"
  by (simp add: Base2Exp_def IntToFixedPt_1 IntToFixedPt_minus_1 FractionPart_def s32_def
      Let_def)

lemma Base2Exp_minus_one: "Base2Exp (- 1048576) = Inr 524288"
  by (simp add: Base2Exp_def IntToFixedPt_1 IntToFixedPt_minus_1 FractionPart_def
      table_read_def length_g_base2exp g_base2exp_0 g_base2exp_1 s32_def Let_def
      drop_bit_eq_div)

lemma Base2Exp_outside: "x < - 1048576 \<or> 1048576 < x \<Longrightarrow> Base2Exp x = Inr 1048576"
  using Base2Exp_zero
  by (auto simp add: Base2Exp_def IntToFixedPt_1 IntToFixedPt_minus_1 Let_def)

text \<open>
  C1. In 12:20 format 1.0 is 1048576. \<open>Base2Exp\<close> returns exactly 1.0 at 0, exactly 2.0
  at +1.0, exactly 0.5 at -1.0, and exactly 1.0 for every input below -1.0 or above +1.0.
  No table read of these calls leaves the table.
\<close>

theorem Base2Exp_boundary_values:
  "Base2Exp 0 = Inr 1048576 \<and>
   Base2Exp 1048576 = Inr 2097152 \<and>
   Base2Exp (- 1048576) = Inr 524288 \<and>
   (\<forall>x. x < - 1048576 \<or> 1048576 < x \<longrightarrow> Base2Exp x = Inr 1048576)"
  using Base2Exp_zero Base2Exp_plus_one Base2Exp_minus_one Base2Exp_outside by blast

theorem Base2Exp_boundary_values_witness:
  "(1048576 :: int) < 3000000 \<and> Base2Exp 3000000 = Inr 1048576 \<and>
   (- 2147483648 :: int) < - 1048576 \<and> Base2Exp (- 2147483648) = Inr 1048576"
proof -
  from Base2Exp_boundary_values
  have out: "\<forall>x. x < - 1048576 \<or> 1048576 < x \<longrightarrow> Base2Exp x = Inr 1048576"
    by blast
  have "Base2Exp 3000000 = Inr 1048576" using out by simp
  moreover have "Base2Exp (- 2147483648) = Inr 1048576" using out by simp
  ultimately show ?thesis by simp
qed

subsection \<open>Loops\<close>

lemma for_each_Inl: "for_each f xs = Inl e \<Longrightarrow> \<exists>x\<in>set xs. f x = Inl e"
  by (induction xs) (auto split: sum.splits)

lemma for_each_Inr:
  "(\<And>x. x \<in> set xs \<Longrightarrow> f x = Inr (g x)) \<Longrightarrow> for_each f xs = Inr (map g xs)"
  by (induction xs) auto

lemma upt_6: "[0 ..< 6] = [0, 1, 2, 3, 4, 5 :: nat]"
  by (simp add: upt_rec)

lemma less_6: "(osc :: nat) < 6 \<longleftrightarrow> osc = 0 \<or> osc = 1 \<or> osc = 2 \<or> osc = 3 \<or> osc = 4 \<or> osc = 5"
  by arith

lemma table_read_Inl: "table_read name xs i = Inl e \<Longrightarrow> e = IndexOutOfRange name"
  by (simp add: table_read_def split: if_splits)

lemma table_read_Inr:
  "0 \<le> i \<Longrightarrow> i < int (length xs) \<Longrightarrow> table_read name xs i = Inr (xs ! nat i)"
  by (simp add: table_read_def)

subsection \<open>Presets\<close>

lemma GetNumberOfPresets_32: "GetNumberOfPresets = 32"
  by (simp add: GetNumberOfPresets_def g_PresetPatch_def)

lemma PresetSelect_beyond_catalog:
  "GetNumberOfPresets \<le> uint preset \<Longrightarrow> PresetSelect preset v = v"
  by (simp add: PresetSelect_def)

lemma ProgramChange_beyond_catalog:
  "msg ! 0 AND 0xF0 = PROGRAM_CHANGE_CMD \<Longrightarrow> GetNumberOfPresets \<le> uint (msg ! 1) \<Longrightarrow>
     ProcessMidiMessage msg len v = Inr v"
  by (simp add: ProcessMidiMessage_def PresetSelect_beyond_catalog Let_def
       PROGRAM_CHANGE_CMD_def NOTE_OFF_CMD_def NOTE_ON_CMD_def CONTROL_CHANGE_CMD_def)

text \<open>
  C4. The catalog holds 32 presets. For every index at or beyond that number
  \<open>PresetSelect\<close> returns the voice it was given: the active patch, the configuration,
  the engine and all other variables are unchanged. The same holds for a Program-Change
  message carrying such an index, as dispatched by \<open>ProcessMidiMessage\<close>.
\<close>

theorem PresetSelect_index_beyond_catalog:
  "GetNumberOfPresets = 32 \<and>
   (\<forall>preset v. GetNumberOfPresets \<le> uint preset \<longrightarrow> PresetSelect preset v = v) \<and>
   (\<forall>msg len v. msg ! 0 AND 0xF0 = PROGRAM_CHANGE_CMD \<and> GetNumberOfPresets \<le> uint (msg ! 1)
        \<longrightarrow> ProcessMidiMessage msg len v = Inr v)"
  using GetNumberOfPresets_32 PresetSelect_beyond_catalog ProgramChange_beyond_catalog
  by blast

theorem PresetSelect_index_beyond_catalog_witness:
  "GetNumberOfPresets \<le> uint (32 :: uint8_t) \<and>
   PresetSelect 32 (voice_setup 1) = voice_setup 1 \<and>
   [0xC0, 127 :: uint8_t] ! 0 AND 0xF0 = PROGRAM_CHANGE_CMD \<and>
   GetNumberOfPresets \<le> uint ([0xC0, 127 :: uint8_t] ! 1) \<and>
   ProcessMidiMessage [0xC0, 127] 2 (voice_setup 1) = Inr (voice_setup 1)"
proof -
  have n: "GetNumberOfPresets = 32"
    using PresetSelect_index_beyond_catalog by blast
  have a: "GetNumberOfPresets \<le> uint (32 :: uint8_t)"
    by (simp add: n)
  have b: "[0xC0, 127 :: uint8_t] ! 0 AND 0xF0 = PROGRAM_CHANGE_CMD \<and>
      GetNumberOfPresets \<le> uint ([0xC0, 127 :: uint8_t] ! 1)"
    by (simp add: n PROGRAM_CHANGE_CMD_def)
  from a have "PresetSelect 32 (voice_setup 1) = voice_setup 1"
    using PresetSelect_index_beyond_catalog by blast
  moreover from b have "ProcessMidiMessage [0xC0, 127] 2 (voice_setup 1) = Inr (voice_setup 1)"
    using PresetSelect_index_beyond_catalog by blast
  ultimately show ?thesis using a b by blast
qed

subsection \<open>Note numbers\<close>

lemma NoteNumInRange_aux:
  fixes m :: "8 word"
  assumes "m \<le> 127"
  shows "12 \<le> (if (if 120 < m then m - 12 else m) < 12
               then (if 120 < m then m - 12 else m) + 12
               else (if 120 < m then m - 12 else m)) \<and>
         (if (if 120 < m then m - 12 else m) < 12
          then (if 120 < m then m - 12 else m) + 12
          else (if 120 < m then m - 12 else m)) \<le> 120"
  using assms by (simp; unat_arith; simp; arith)

lemma NoteNumInRange_bounds: "12 \<le> NoteNumInRange n \<and> NoteNumInRange n \<le> 120"
proof -
  have "n AND 0x7F \<le> 0x7F" by (rule word_and_le1)
  then show ?thesis
    unfolding NoteNumInRange_def Let_def
    using NoteNumInRange_aux [of "n AND 0x7F"] by simp
qed

lemma length_g_NoteFrequency: "length g_NoteFrequency = 109"
  by (simp add: g_NoteFrequency_def)

lemma length_g_FreqMultConst: "length g_FreqMultConst = 12"
  by (simp add: g_FreqMultConst_def)

lemma NoteNumInRange_index:
  "0 \<le> uint (NoteNumInRange n) - 12 \<and> uint (NoteNumInRange n) - 12 < 109"
  using NoteNumInRange_bounds [of n] by (simp add: word_le_def)

lemma note_table_read:
  "table_read ''g_NoteFrequency'' g_NoteFrequency (uint (NoteNumInRange n) - 12) =
     Inr (g_NoteFrequency ! nat (uint (NoteNumInRange n) - 12))"
  using NoteNumInRange_index [of n] by (simp add: table_read_Inr length_g_NoteFrequency)

lemma SynthNoteChange_osc_note_table:
  "SynthNoteChange_osc p (NoteNumInRange n) osc \<noteq> Inl (IndexOutOfRange ''g_NoteFrequency'')"
  by (auto simp add: SynthNoteChange_osc_def note_table_read Let_def
      split: sum.splits dest: table_read_Inl)

lemma SynthNoteChange_note_table:
  "SynthNoteChange p n s \<noteq> Inl (IndexOutOfRange ''g_NoteFrequency'')"
proof
  assume "SynthNoteChange p n s = Inl (IndexOutOfRange ''g_NoteFrequency'')"
  then have "for_each (SynthNoteChange_osc p (NoteNumInRange n)) [0 ..< 6] =
      Inl (IndexOutOfRange ''g_NoteFrequency'')"
    by (simp add: SynthNoteChange_def Let_def split: sum.splits)
  then show False
    using for_each_Inl SynthNoteChange_osc_note_table by fastforce
qed

lemma SynthNoteOn_note_table:
  "SynthNoteOn p n vel s \<noteq> Inl (IndexOutOfRange ''g_NoteFrequency'')"
  using SynthNoteChange_note_table [of p n s]
  by (auto simp add: SynthNoteOn_def split: sum.splits)

lemma SynthNoteChange_osc_valid:
  assumes "OscFreqMult p ! osc < 12"
  shows "\<exists>r. SynthNoteChange_osc p (NoteNumInRange n) osc = Inr r"
proof -
  have "uint (OscFreqMult p ! osc) < 12"
    using assms by (simp add: word_less_def)
  then have "table_read ''g_FreqMultConst'' g_FreqMultConst (uint (OscFreqMult p ! osc)) =
      Inr (g_FreqMultConst ! nat (uint (OscFreqMult p ! osc)))"
    by (simp add: table_read_Inr length_g_FreqMultConst)
  then show ?thesis
    by (simp add: SynthNoteChange_osc_def note_table_read Let_def)
qed

lemma for_each_total:
  "(\<And>x. x \<in> set xs \<Longrightarrow> \<exists>y. f x = Inr y) \<Longrightarrow> \<exists>ys. for_each f xs = Inr ys"
proof (induction xs)
  case Nil
  show ?case by simp
next
  case (Cons a xs)
  obtain y where "f a = Inr y" using Cons.prems by auto
  moreover obtain ys where "for_each f xs = Inr ys" using Cons by auto
  ultimately show ?case by simp
qed

lemma for_each_nth:
  "for_each f xs = Inr ys \<Longrightarrow>
     length ys = length xs \<and> (\<forall>i<length xs. f (xs ! i) = Inr (ys ! i))"
proof (induction xs arbitrary: ys)
  case Nil
  then show ?case by simp
next
  case (Cons a xs)
  then obtain y ys' where y: "f a = Inr y" "for_each f xs = Inr ys'" "ys = y # ys'"
    by (auto split: sum.splits)
  then have "length ys' = length xs \<and> (\<forall>i<length xs. f (xs ! i) = Inr (ys' ! i))"
    using Cons.IH by blast
  then show ?case
    using y by (auto simp add: nth_Cons split: nat.splits)
qed

lemma SynthNoteChange_valid:
  assumes "\<forall>osc<6. OscFreqMult p ! osc < 12"
  shows "\<exists>s'. SynthNoteChange p n s = Inr s' \<and> m_NotePlaying s' = NoteNumInRange n"
proof -
  have "\<exists>rs. for_each (SynthNoteChange_osc p (NoteNumInRange n)) [0 ..< 6] = Inr rs"
    using assms by (intro for_each_total SynthNoteChange_osc_valid) simp
  then show ?thesis
    by (auto simp add: SynthNoteChange_def Let_def)
qed

text \<open>
  C9. For every byte \<open>n\<close> the note number used by \<open>SynthNoteChange\<close>, \<open>SynthNoteOn\<close>
  and \<open>SynthNoteOff\<close> lies in 12..120, so the index into the 109-entry table
  \<open>g_NoteFrequency\<close> lies in 0..108; neither \<open>SynthNoteChange\<close> nor \<open>SynthNoteOn\<close> ever
  reads that table out of bounds, and \<open>SynthNoteOff\<close> (which reads no table) compares the
  folded number. With frequency-multiplier selectors below 12, \<open>SynthNoteChange\<close> returns
  and records the folded number as the note playing.
\<close>

theorem note_number_folded_into_table_range:
  "12 \<le> NoteNumInRange n \<and> NoteNumInRange n \<le> 120 \<and>
   length g_NoteFrequency = 109 \<and>
   0 \<le> uint (NoteNumInRange n) - 12 \<and> uint (NoteNumInRange n) - 12 < 109 \<and>
   SynthNoteChange p n s \<noteq> Inl (IndexOutOfRange ''g_NoteFrequency'') \<and>
   SynthNoteOn p n vel s \<noteq> Inl (IndexOutOfRange ''g_NoteFrequency'') \<and>
   SynthNoteOff n s = (if NoteNumInRange n = m_NotePlaying s then SynthTriggerRelease s else s) \<and>
   ((\<forall>osc<6. OscFreqMult p ! osc < 12) \<longrightarrow>
      (\<exists>s'. SynthNoteChange p n s = Inr s' \<and> m_NotePlaying s' = NoteNumInRange n))"
  using NoteNumInRange_bounds [of n] NoteNumInRange_index [of n] length_g_NoteFrequency
    SynthNoteChange_note_table [of p n s] SynthNoteOn_note_table [of p n vel s]
    SynthNoteChange_valid [of p n s]
  by (simp add: SynthNoteOff_def Let_def)

lemma preset_13_FreqMult: "\<forall>osc<6. OscFreqMult (g_PresetPatch ! 13) ! osc < 12"
  by (auto simp add: less_6 g_PresetPatch_def)

theorem note_number_folded_into_table_range_witness:
  "OscFreqMult (g_PresetPatch ! 13) = [1, 4, 6, 8, 10, 0] \<and>
   NoteNumInRange 255 = 115 \<and>
   (\<exists>s'. SynthNoteChange (g_PresetPatch ! 13) 255 synth_zero = Inr s' \<and> m_NotePlaying s' = 115)"
proof -
  have v: "\<forall>osc<6. OscFreqMult (g_PresetPatch ! 13) ! osc < 12"
    by (rule preset_13_FreqMult)
  have l: "OscFreqMult (g_PresetPatch ! 13) = [1, 4, 6, 8, 10, 0]"
    by (simp add: g_PresetPatch_def)
  have c: "NoteNumInRange 255 = 115"
    by (simp add: NoteNumInRange_def)
  from v have "\<exists>s'. SynthNoteChange (g_PresetPatch ! 13) 255 synth_zero = Inr s' \<and>
      m_NotePlaying s' = NoteNumInRange 255"
    using note_number_folded_into_table_range [of 255 "g_PresetPatch ! 13" synth_zero] by blast
  with l c show ?thesis by simp
qed

subsection \<open>Note off\<close>

text \<open>
  C10. \<open>SynthNoteOff n\<close> sets the release triggers of both envelope generators and the
  contour reset and clears the note-on flag when the folded note number equals the note
  playing, and changes nothing else; for every other note number it returns the engine
  unchanged.
\<close>

theorem SynthNoteOff_only_playing_note:
  "(NoteNumInRange n = m_NotePlaying s \<longrightarrow>
      SynthNoteOff n s =
        s\<lparr> m_TriggerRelease1 := True, m_TriggerRelease2 := True, m_TriggerReset := True,
           m_NoteOn := False \<rparr>) \<and>
   (NoteNumInRange n \<noteq> m_NotePlaying s \<longrightarrow> SynthNoteOff n s = s)"
  by (simp add: SynthNoteOff_def SynthTriggerRelease_def Let_def)

theorem SynthNoteOff_only_playing_note_witness:
  "NoteNumInRange 60 = m_NotePlaying (synth_zero\<lparr> m_NotePlaying := 60, m_NoteOn := True \<rparr>) \<and>
   m_NoteOn (SynthNoteOff 60 (synth_zero\<lparr> m_NotePlaying := 60, m_NoteOn := True \<rparr>)) = False \<and>
   m_TriggerRelease1 (SynthNoteOff 60 (synth_zero\<lparr> m_NotePlaying := 60, m_NoteOn := True \<rparr>)) \<and>
   NoteNumInRange 61 \<noteq> m_NotePlaying (synth_zero\<lparr> m_NotePlaying := 60, m_NoteOn := True \<rparr>) \<and>
   SynthNoteOff 61 (synth_zero\<lparr> m_NotePlaying := 60, m_NoteOn := True \<rparr>) =
     synth_zero\<lparr> m_NotePlaying := 60, m_NoteOn := True \<rparr>"
proof -
  let ?s = "synth_zero\<lparr> m_NotePlaying := 60, m_NoteOn := True \<rparr>"
  have a: "NoteNumInRange 60 = m_NotePlaying ?s"
    by (simp add: NoteNumInRange_def)
  have b: "NoteNumInRange 61 \<noteq> m_NotePlaying ?s"
    by (simp add: NoteNumInRange_def)
  from a have "SynthNoteOff 60 ?s =
      ?s\<lparr> m_TriggerRelease1 := True, m_TriggerRelease2 := True, m_TriggerReset := True,
          m_NoteOn := False \<rparr>"
    using SynthNoteOff_only_playing_note [of 60 ?s] by blast
  moreover from b have "SynthNoteOff 61 ?s = ?s"
    using SynthNoteOff_only_playing_note [of 61 ?s] by blast
  ultimately show ?thesis using a b by simp
qed

subsection \<open>Controller changes\<close>

lemma ControlChange_checked_numbers:
  assumes "ControlChange_data_out_of_range cc d"
  shows "cc = 38 \<or> cc = 70 \<or> cc = 71 \<or> cc = 72 \<or> cc = 73 \<or> cc = 74 \<or> cc = 75 \<or> cc = 76 \<or>
     cc = 77 \<or> cc = 78 \<or> cc = 79 \<or> cc = 86 \<or> cc = 87 \<or> cc = 88 \<or> cc = 89"
proof (rule ccontr)
  assume "\<not> ?thesis"
  then have "ControlChange_data_range cc = None"
    by (simp add: ControlChange_data_range_def)
  with assms show False
    by (simp add: ControlChange_data_out_of_range_def)
qed

lemma byte_le_255: "\<not> 255 < (d :: 8 word)"
  by (unat_arith; simp)

lemma byte_gt_3: "3 < d \<Longrightarrow> \<not> d < (4 :: 8 word)"
  by unat_arith

lemma ProcessControlChange_dropped:
  assumes r: "ControlChange_data_out_of_range (msg ! 1) (msg ! 2)"
    and p: "msg ! 1 = 38 \<longrightarrow> g_MidiRegisParam v = 0"
  shows "ProcessControlChange msg v = v"
proof -
  note defs = ControlChange_data_out_of_range_def ControlChange_data_range_def
    ProcessControlChange_def Let_def
  from ControlChange_checked_numbers [OF r]
  consider "msg ! 1 = 38" | "msg ! 1 = 70" | "msg ! 1 = 71" | "msg ! 1 = 72" | "msg ! 1 = 73"
    | "msg ! 1 = 74" | "msg ! 1 = 75" | "msg ! 1 = 76" | "msg ! 1 = 77" | "msg ! 1 = 78"
    | "msg ! 1 = 79" | "msg ! 1 = 86" | "msg ! 1 = 87" | "msg ! 1 = 88" | "msg ! 1 = 89"
    by blast
  then show ?thesis
  proof cases
    case 1 with r p show ?thesis by (auto simp add: defs)
  next
    case 2 with r show ?thesis by (auto simp add: defs byte_le_255)
  next
    case 3 with r show ?thesis by (auto simp add: defs)
  next
    case 4 with r show ?thesis by (auto simp add: defs)
  next
    case 5 with r show ?thesis by (auto simp add: defs)
  next
    case 6 with r show ?thesis by (auto simp add: defs)
  next
    case 7 with r show ?thesis by (auto simp add: defs)
  next
    case 8 with r show ?thesis by (auto simp add: defs)
  next
    case 9 with r show ?thesis by (auto simp add: defs)
  next
    case 10 with r show ?thesis by (auto simp add: defs)
  next
    case 11 with r show ?thesis by (auto simp add: defs)
  next
    case 12 with r show ?thesis by (auto simp add: defs byte_gt_3)
  next
    case 13 with r show ?thesis by (auto simp add: defs byte_gt_3)
  next
    case 14 with r show ?thesis by (auto simp add: defs byte_gt_3)
  next
    case 15 with r show ?thesis by (auto simp add: defs)
  qed
qed

lemma ControlChange_message_dropped:
  assumes "msg ! 0 AND 0xF0 = CONTROL_CHANGE_CMD"
    and "ControlChange_data_out_of_range (msg ! 1) (msg ! 2)"
    and "msg ! 1 = 38 \<longrightarrow> g_MidiRegisParam v = 0"
  shows "ProcessMidiMessage msg len v = Inr v"
  using assms ProcessControlChange_dropped [of msg v]
  by (simp add: ProcessMidiMessage_def Let_def CONTROL_CHANGE_CMD_def NOTE_OFF_CMD_def
      NOTE_ON_CMD_def)

lemma ControlChange_hold_time_zero_accepted:
  assumes "msg ! 1 = 74" "msg ! 2 = 0"
  shows "ProcessControlChange msg v = v\<lparr> g_Patch := (g_Patch v)\<lparr> EnvHoldTime := 0 \<rparr> \<rparr>"
  using assms by (simp add: ProcessControlChange_def Let_def)

text \<open>
  C7. A Control-Change message whose data byte lies outside the range checked for its
  controller number (reverb mix 89: 0..100; pitch-bend range, data entry 38 with
  registered parameter 0: 0..12; limiter level 71: 0..95; release, attack and decay time
  72, 73, 75: 1..100; hold time 74, sustain level 76, LFO ramp time 78: 0..100; LFO
  frequency 77: 1..50; LFO depth 79: 0..120; the three control modes 86..88: 0..3; mixer
  gain 70: not 0) leaves the whole voice unchanged: the targeted field keeps its value
  and nothing else is modified, whether \<open>ProcessControlChange\<close> is called directly or
  through \<open>ProcessMidiMessage\<close>. For the hold time the value 0 is inside the range.
\<close>

theorem ControlChange_out_of_range_write_dropped:
  assumes "ControlChange_data_out_of_range (msg ! 1) (msg ! 2)"
    and "msg ! 1 = 38 \<longrightarrow> g_MidiRegisParam v = 0"
  shows "ProcessControlChange msg v = v \<and>
     (msg ! 0 AND 0xF0 = CONTROL_CHANGE_CMD \<longrightarrow> ProcessMidiMessage msg len v = Inr v)"
  using assms ProcessControlChange_dropped [of msg v] ControlChange_message_dropped [of msg v len]
  by blast

theorem ControlChange_out_of_range_write_dropped_witness:
  "ControlChange_data_out_of_range ([0xB0, 89, 101] ! 1) ([0xB0, 89, 101] ! 2) \<and>
   ProcessControlChange [0xB0, 89, 101] (voice_setup 1) = voice_setup 1 \<and>
   [0xB0, 89, 101 :: uint8_t] ! 0 AND 0xF0 = CONTROL_CHANGE_CMD \<and>
   ProcessMidiMessage [0xB0, 89, 101] 3 (voice_setup 1) = Inr (voice_setup 1) \<and>
   ControlChange_data_out_of_range ([0xB0, 38, 13] ! 1) ([0xB0, 38, 13] ! 2) \<and>
   g_MidiRegisParam (voice_setup 1) = 0 \<and>
   ProcessControlChange [0xB0, 38, 13] (voice_setup 1) = voice_setup 1 \<and>
   ControlChange_data_out_of_range ([0xB0, 73, 0] ! 1) ([0xB0, 73, 0] ! 2) \<and>
   ProcessControlChange [0xB0, 73, 0] (voice_setup 1) = voice_setup 1"
proof -
  have r1: "ControlChange_data_out_of_range ([0xB0, 89, 101] ! 1) ([0xB0, 89, 101] ! 2)"
    by (simp add: ControlChange_data_out_of_range_def ControlChange_data_range_def)
  have r2: "ControlChange_data_out_of_range ([0xB0, 38, 13] ! 1) ([0xB0, 38, 13] ! 2)"
    by (simp add: ControlChange_data_out_of_range_def ControlChange_data_range_def)
  have r3: "ControlChange_data_out_of_range ([0xB0, 73, 0] ! 1) ([0xB0, 73, 0] ! 2)"
    by (simp add: ControlChange_data_out_of_range_def ControlChange_data_range_def)
  have c: "[0xB0, 89, 101 :: uint8_t] ! 0 AND 0xF0 = CONTROL_CHANGE_CMD"
    by (simp add: CONTROL_CHANGE_CMD_def)
  have p: "g_MidiRegisParam (voice_setup 1) = 0"
    by (simp add: voice_setup_def PresetSelect_def DefaultConfigData_def voice_zero_def Let_def)
  have n1: "[0xB0, 89, 101 :: uint8_t] ! 1 = 38 \<longrightarrow> g_MidiRegisParam (voice_setup 1) = 0"
    by simp
  have n3: "[0xB0, 73, 0 :: uint8_t] ! 1 = 38 \<longrightarrow> g_MidiRegisParam (voice_setup 1) = 0"
    by simp
  have n2: "[0xB0, 38, 13 :: uint8_t] ! 1 = 38 \<longrightarrow> g_MidiRegisParam (voice_setup 1) = 0"
    using p by simp
  note t1 = ControlChange_out_of_range_write_dropped [OF r1 n1, of 3]
  note t2 = ControlChange_out_of_range_write_dropped [OF r2 n2, of 3]
  note t3 = ControlChange_out_of_range_write_dropped [OF r3 n3, of 3]
  show ?thesis
    using r1 r2 r3 c p t1 t2 t3 by blast
qed

subsection \<open>Oscillator phase accumulators\<close>

lemma mod_wrap_once:
  fixes a :: int
  assumes "0 \<le> a" "a < 2 * m" "0 < m"
  shows "a mod m = (if m \<le> a then a - m else a)"
proof (cases "m \<le> a")
  case True
  then have "(a - m) mod m = a - m" using assms by (intro mod_pos_pos_trivial) auto
  moreover have "(a - m) mod m = a mod m" by (rule minus_mod_self2)
  ultimately show ?thesis using True by simp
next
  case False
  then show ?thesis using assms by (simp add: mod_pos_pos_trivial)
qed

lemma TC3_Handler_osc_mod:
  assumes "0 \<le> angle" "angle < 134217728" "0 \<le> step" "step < 134217728"
  shows "TC3_Handler_osc angle step = Inr ((angle + step) mod 134217728)"
proof -
  have idx: "0 \<le> angle div 65536 \<and> angle div 65536 < 2048"
    using assms by arith
  have s: "s32 (angle + step) = angle + step"
    using assms by (simp add: s32_def)
  have w: "(angle + step) mod 134217728 =
      (if 134217728 \<le> angle + step then angle + step - 134217728 else angle + step)"
    using assms by (intro mod_wrap_once) auto
  have s2: "134217728 \<le> angle + step \<Longrightarrow> s32 (angle + step - 134217728) = angle + step - 134217728"
    using assms by (simp add: s32_def)
  show ?thesis
    using idx s2
    by (simp add: TC3_Handler_osc_def Let_def drop_bit_eq_div push_bit_eq_mult
        WAVE_TABLE_SIZE_def s w)
qed

lemma TC3_Handler_oscillators_step:
  assumes "v_SynthEnable s"
    and "\<forall>osc<6. 0 \<le> v_OscStep s ! osc \<and> v_OscStep s ! osc < 134217728 \<and>
       0 \<le> v_OscAngle s ! osc \<and> v_OscAngle s ! osc < 134217728"
  shows "TC3_Handler_oscillators s =
     Inr (s\<lparr> v_OscAngle :=
               map (\<lambda>osc. (v_OscAngle s ! osc + v_OscStep s ! osc) mod 134217728) [0 ..< 6] \<rparr>)"
proof -
  have "for_each (\<lambda>osc. TC3_Handler_osc (v_OscAngle s ! osc) (v_OscStep s ! osc)) [0 ..< 6] =
      Inr (map (\<lambda>osc. (v_OscAngle s ! osc + v_OscStep s ! osc) mod 134217728) [0 ..< 6])"
    using assms(2) by (intro for_each_Inr TC3_Handler_osc_mod) auto
  then show ?thesis
    using assms(1) by (simp add: TC3_Handler_oscillators_def)
qed

lemma phase_accumulator_samples:
  assumes "v_SynthEnable s"
    and "\<forall>osc<6. 0 \<le> v_OscStep s ! osc \<and> v_OscStep s ! osc < 134217728 \<and>
       0 \<le> v_OscAngle s ! osc \<and> v_OscAngle s ! osc < 134217728"
  shows "\<exists>s'. TC3_Handler_samples n s = Inr s' \<and> v_OscStep s' = v_OscStep s \<and>
     (\<forall>osc<6. v_OscAngle s' ! osc =
                 (v_OscAngle s ! osc + int n * v_OscStep s ! osc) mod 134217728)"
  using assms
proof (induction n arbitrary: s)
  case 0
  then show ?case by (simp add: mod_pos_pos_trivial)
next
  case (Suc n)
  let ?s1 = "s\<lparr> v_OscAngle :=
               map (\<lambda>osc. (v_OscAngle s ! osc + v_OscStep s ! osc) mod 134217728) [0 ..< 6] \<rparr>"
  have step: "TC3_Handler_oscillators s = Inr ?s1"
    using Suc.prems by (rule TC3_Handler_oscillators_step)
  have a1: "\<And>osc. osc < 6 \<Longrightarrow>
      v_OscAngle ?s1 ! osc = (v_OscAngle s ! osc + v_OscStep s ! osc) mod 134217728"
    by simp
  have "v_SynthEnable ?s1" using Suc.prems by simp
  moreover have "\<forall>osc<6. 0 \<le> v_OscStep ?s1 ! osc \<and> v_OscStep ?s1 ! osc < 134217728 \<and>
       0 \<le> v_OscAngle ?s1 ! osc \<and> v_OscAngle ?s1 ! osc < 134217728"
    using Suc.prems(2) by simp
  ultimately obtain s' where s': "TC3_Handler_samples n ?s1 = Inr s'"
      "v_OscStep s' = v_OscStep ?s1"
      "\<forall>osc<6. v_OscAngle s' ! osc =
                 (v_OscAngle ?s1 ! osc + int n * v_OscStep ?s1 ! osc) mod 134217728"
    using Suc.IH [of ?s1] by blast
  have "\<forall>osc<6. v_OscAngle s' ! osc =
      (v_OscAngle s ! osc + int (Suc n) * v_OscStep s ! osc) mod 134217728"
  proof (intro allI impI)
    fix osc :: nat
    assume o: "osc < 6"
    have "v_OscAngle s' ! osc =
        ((v_OscAngle s ! osc + v_OscStep s ! osc) mod 134217728 + int n * v_OscStep s ! osc)
          mod 134217728"
      using s'(3) o a1 [OF o] by simp
    also have "\<dots> = (v_OscAngle s ! osc + v_OscStep s ! osc + int n * v_OscStep s ! osc)
          mod 134217728"
      by (rule mod_add_left_eq)
    also have "v_OscAngle s ! osc + v_OscStep s ! osc + int n * v_OscStep s ! osc =
        v_OscAngle s ! osc + int (Suc n) * v_OscStep s ! osc"
      by (simp add: algebra_simps)
    finally show "v_OscAngle s' ! osc =
        (v_OscAngle s ! osc + int (Suc n) * v_OscStep s ! osc) mod 134217728" .
  qed
  with step s'(1,2) show ?case by simp
qed

lemma TC3_Handler_osc_samples_mod:
  assumes "0 \<le> step" "step < 134217728" "0 \<le> angle" "angle < 134217728"
  shows "TC3_Handler_osc_samples n angle step = Inr ((angle + int n * step) mod 134217728)"
  using assms(3,4)
proof (induction n arbitrary: angle)
  case 0
  then show ?case by (simp add: mod_pos_pos_trivial)
next
  case (Suc n)
  let ?a = "(angle + step) mod 134217728"
  have one: "TC3_Handler_osc angle step = Inr ?a"
    using Suc.prems assms(1,2) by (intro TC3_Handler_osc_mod)
  have "0 \<le> ?a" "?a < 134217728" by simp_all
  then have "TC3_Handler_osc_samples n ?a step = Inr ((?a + int n * step) mod 134217728)"
    by (rule Suc.IH)
  also have "(?a + int n * step) mod 134217728 =
      (angle + step + int n * step) mod 134217728"
    by (rule mod_add_left_eq)
  also have "angle + step + int n * step = angle + int (Suc n) * step"
    by (simp add: algebra_simps)
  finally show ?case using one by simp
qed

text \<open>
  What the interrupt routine does to the accumulator of one oscillator is the iteration
  \<open>TC3_Handler_osc_samples\<close> on that oscillator's angle and step, whatever the other
  five oscillators hold.
\<close>

lemma TC3_Handler_oscillators_osc:
  assumes "v_SynthEnable s" "TC3_Handler_oscillators s = Inr s'" "osc < 6"
  shows "TC3_Handler_osc (v_OscAngle s ! osc) (v_OscStep s ! osc) = Inr (v_OscAngle s' ! osc) \<and>
     v_OscStep s' = v_OscStep s \<and> v_SynthEnable s'"
proof -
  obtain angles where a:
      "for_each (\<lambda>osc. TC3_Handler_osc (v_OscAngle s ! osc) (v_OscStep s ! osc)) [0 ..< 6] =
         Inr angles"
      "s' = s\<lparr> v_OscAngle := angles \<rparr>"
    using assms(1,2) by (auto simp add: TC3_Handler_oscillators_def split: sum.splits)
  have "\<forall>i<length [0 ..< 6 :: nat].
      TC3_Handler_osc (v_OscAngle s ! ([0 ..< 6] ! i)) (v_OscStep s ! ([0 ..< 6] ! i)) =
        Inr (angles ! i)"
    using for_each_nth [OF a(1)] by simp
  then have "TC3_Handler_osc (v_OscAngle s ! osc) (v_OscStep s ! osc) = Inr (angles ! osc)"
    using assms(3) by simp
  then show ?thesis using a(2) assms(1) by simp
qed

lemma TC3_Handler_samples_osc:
  assumes "v_SynthEnable s" "TC3_Handler_samples n s = Inr s'" "osc < 6"
  shows "TC3_Handler_osc_samples n (v_OscAngle s ! osc) (v_OscStep s ! osc) =
     Inr (v_OscAngle s' ! osc)"
  using assms(1,2)
proof (induction n arbitrary: s)
  case 0
  then show ?case by simp
next
  case (Suc n)
  then obtain s1 where s1: "TC3_Handler_oscillators s = Inr s1" "TC3_Handler_samples n s1 = Inr s'"
    by (auto split: sum.splits)
  have o: "TC3_Handler_osc (v_OscAngle s ! osc) (v_OscStep s ! osc) = Inr (v_OscAngle s1 ! osc)"
      "v_OscStep s1 = v_OscStep s" "v_SynthEnable s1"
    using TC3_Handler_oscillators_osc [OF Suc.prems(1) s1(1) assms(3)] by simp_all
  have "TC3_Handler_osc_samples n (v_OscAngle s1 ! osc) (v_OscStep s1 ! osc) =
      Inr (v_OscAngle s' ! osc)"
    using o(3) s1(2) by (rule Suc.IH)
  then show ?case using o(1,2) by simp
qed

text \<open>
  C8. For an oscillator whose phase step and phase angle are nonnegative and below the
  table length in 16:16 format (\<open>WAVE_TABLE_SIZE * 65536\<close>), any number \<open>n\<close> of
  consecutive phase-accumulator updates completes without a read outside the wave table
  and brings the accumulator to (initial angle + n * step) modulo the table length, a
  value that is nonnegative and below the table length. Nothing is assumed about the
  other oscillators.
\<close>

theorem phase_accumulator_wraps_at_table_length:
  assumes "0 \<le> step" and "step < WAVE_TABLE_SIZE * 65536"
    and "0 \<le> angle" and "angle < WAVE_TABLE_SIZE * 65536"
  shows "TC3_Handler_osc_samples n angle step =
       Inr ((angle + int n * step) mod (WAVE_TABLE_SIZE * 65536)) \<and>
     0 \<le> (angle + int n * step) mod (WAVE_TABLE_SIZE * 65536) \<and>
     (angle + int n * step) mod (WAVE_TABLE_SIZE * 65536) < WAVE_TABLE_SIZE * 65536"
proof -
  have "TC3_Handler_osc_samples n angle step = Inr ((angle + int n * step) mod 134217728)"
    using assms by (intro TC3_Handler_osc_samples_mod) (simp_all add: WAVE_TABLE_SIZE_def)
  then show ?thesis by (simp add: WAVE_TABLE_SIZE_def)
qed

theorem phase_accumulator_wraps_at_table_length_witness:
  "(0 :: int) \<le> 100000000 \<and> (100000000 :: int) < WAVE_TABLE_SIZE * 65536 \<and>
   (0 :: int) \<le> 134217727 \<and> (134217727 :: int) < WAVE_TABLE_SIZE * 65536 \<and>
   TC3_Handler_osc_samples 3 134217727 100000000 = Inr 31564543"
proof -
  have h: "(0 :: int) \<le> 100000000" "(100000000 :: int) < WAVE_TABLE_SIZE * 65536"
      "(0 :: int) \<le> 134217727" "(134217727 :: int) < WAVE_TABLE_SIZE * 65536"
    by (simp_all add: WAVE_TABLE_SIZE_def)
  have "TC3_Handler_osc_samples 3 134217727 100000000 =
      Inr ((134217727 + int 3 * 100000000) mod (WAVE_TABLE_SIZE * 65536))"
    using phase_accumulator_wraps_at_table_length [OF h, of 3] by simp
  then have "TC3_Handler_osc_samples 3 134217727 100000000 = Inr 31564543"
    by (simp add: WAVE_TABLE_SIZE_def)
  then show ?thesis using h by simp
qed

subsection \<open>MIDI input\<close>

lemma status_bit7:
  fixes st :: "8 word"
  assumes "st AND 0xF0 = 0x90"
  shows "st AND 0x80 \<noteq> 0"
proof -
  have "st AND 0x80 = (st AND 0xF0) AND 0x80" by (simp add: word_bw_assocs)
  then show ?thesis using assms by simp
qed

lemma status_le_9F:
  fixes st :: "8 word"
  assumes "st AND 0xF0 = 0x90"
  shows "st \<le> 0x9F"
proof -
  have a: "(st AND 0xF0) AND (st AND 0x0F) = 0"
    by (simp add: word_bw_assocs word_bw_lcs)
  have m: "(255 :: 8 word) = - 1" by simp
  have "(st AND 0xF0) OR (st AND 0x0F) = st AND (0xF0 OR 0x0F)"
    by (simp only: word_ao_dist2)
  then have o: "(st AND 0xF0) OR (st AND 0x0F) = st" by (simp add: m)
  have "((st AND 0xF0) AND (st AND 0x0F)) + ((st AND 0xF0) OR (st AND 0x0F)) =
      (st AND 0xF0) + (st AND 0x0F)"
    by (rule word_plus_and_or)
  then have "0 + st = (st AND 0xF0) + (st AND 0x0F)"
    by (simp only: a o)
  then have "st = (st AND 0xF0) + (st AND 0x0F)"
    by (simp only: add_0_left)
  then have s: "st = 0x90 + (st AND 0x0F)"
    by (simp only: assms)
  have "st AND 0x0F \<le> 0x0F" by (rule word_and_le1)
  then have "0x90 + (st AND 0x0F) \<le> 0x9F" by unat_arith
  with s show ?thesis by simp
qed

lemma NoteOn_status:
  fixes st :: "8 word"
  assumes "st AND 0xF0 = NOTE_ON_CMD"
  shows "st AND 0x80 \<noteq> 0" "st \<noteq> SYSTEM_MSG_EOX" "st \<le> SYS_EXCLUSIVE_MSG"
    "st \<noteq> SYS_EXCLUSIVE_MSG" "MIDI_GetMessageLength st = 3"
proof -
  have a: "st AND 0xF0 = 0x90" using assms by (simp add: NOTE_ON_CMD_def)
  show "st AND 0x80 \<noteq> 0" using a by (rule status_bit7)
  have le: "st \<le> 0x9F" using a by (rule status_le_9F)
  then show "st \<noteq> SYSTEM_MSG_EOX" by (auto simp add: SYSTEM_MSG_EOX_def)
  from le show "st \<le> SYS_EXCLUSIVE_MSG" by (simp add: SYS_EXCLUSIVE_MSG_def; unat_arith)
  from le show "st \<noteq> SYS_EXCLUSIVE_MSG" by (auto simp add: SYS_EXCLUSIVE_MSG_def)
  then show "MIDI_GetMessageLength st = 3"
    using a by (simp add: MIDI_GetMessageLength_def Let_def NOTE_ON_CMD_def
        PROGRAM_CHANGE_CMD_def CHAN_PRESSURE_CMD_def)
qed

lemma SynthNoteOn_valid:
  assumes "\<forall>osc<6. OscFreqMult p ! osc < 12"
  shows "\<exists>s'. SynthNoteOn p n vel s = Inr s'"
  using SynthNoteChange_valid [OF assms, of n s]
  by (auto simp add: SynthNoteOn_def)

lemma NoteOn_case_engine_valid:
  assumes "\<forall>osc<6. OscFreqMult p ! osc < 12"
  shows "\<exists>s'. NoteOn_case_engine p n vel s = Inr s'"
  using SynthNoteOn_valid [OF assms, of n vel s]
  by (simp add: NoteOn_case_engine_def)

lemma ProcessMidiMessage_NoteOn:
  assumes "msg ! 0 AND 0xF0 = NOTE_ON_CMD"
    and "NoteOn_case_engine (g_Patch v) (msg ! 1) (msg ! 2) (engine v) = Inr e"
  shows "ProcessMidiMessage msg len v = Inr (v\<lparr> engine := e, TESTPOINT2 := (msg ! 2 \<noteq> 0) \<rparr>)"
  using assms
  by (auto simp add: ProcessMidiMessage_def NoteOn_case_engine_def Let_def NOTE_ON_CMD_def
      NOTE_OFF_CMD_def split: if_splits)

lemma MidiInputService_status:
  assumes "st AND 0xF0 = NOTE_ON_CMD" "length (midiMessage v) = 16"
  shows "MidiInputService st v =
     Inr (v\<lparr> msgStatus := st, msgComplete := False, midiMessage := (midiMessage v)[0 := st],
              msgIndex := 1, msgByteCount := 1, msgBytesExpected := 3 \<rparr>)"
  using NoteOn_status [OF assms(1)] assms(2)
  by (simp add: MidiInputService_def MidiInputService_store_def array_write_def)

lemma MidiInputService_first_data:
  assumes st: "st AND 0xF0 = NOTE_ON_CMD"
    and aw: "awaiting_pair st v"
    and d: "d AND 0x80 = 0"
  shows "MidiInputService d v =
     Inr (v\<lparr> msgIndex := 2, msgByteCount := 2, msgBytesExpected := 3,
              midiMessage := (midiMessage v)[1 := d] \<rparr>)"
proof -
  from aw consider
      (A) "length (midiMessage v) = 16" "msgStatus v = st"
          "msgIndex v = 1" "msgByteCount v = 1" "msgBytesExpected v = 3"
    | (B) "length (midiMessage v) = 16" "msgStatus v = st" "msgByteCount v = 0" "msgComplete v"
    by (auto simp add: awaiting_pair_def)
  then show ?thesis
  proof cases
    case A
    then show ?thesis
      using d
      by (simp add: MidiInputService_def MidiInputService_store_def array_write_def Let_def
          MIDI_MSG_MAX_LENGTH_def s16_def)
  next
    case B
    then show ?thesis
      using d NoteOn_status [OF st]
      by (simp add: MidiInputService_def MidiInputService_store_def array_write_def Let_def
          MIDI_MSG_MAX_LENGTH_def s16_def)
  qed
qed

lemma MidiInputService_second_data:
  assumes st: "st AND 0xF0 = NOTE_ON_CMD"
    and ch: "(st AND 0x0F) + 1 = g_MidiChannel v \<or> (st AND 0x0F) + 1 = 16 \<or>
             g_MidiMode v = OMNI_ON_MONO"
    and len: "length (midiMessage v) = 16"
    and hd: "midiMessage v ! 0 = st"
    and fr: "msgStatus v = st" "msgIndex v = 2" "msgByteCount v = 2" "msgBytesExpected v = 3"
    and d: "d AND 0x80 = 0"
    and e: "NoteOn_case_engine (g_Patch v) (midiMessage v ! 1) d (engine v) = Inr e"
  shows "MidiInputService d v =
     Inr (v\<lparr> midiMessage := (midiMessage v)[2 := d], msgComplete := True,
              dispatched := dispatched v @ [((midiMessage v)[2 := d], 3)],
              engine := e, TESTPOINT2 := (d \<noteq> 0),
              msgBytesExpected := 0, msgByteCount := 0, msgIndex := 0 \<rparr>)"
proof -
  let ?buf = "(midiMessage v)[2 := d]"
  let ?v2 = "v\<lparr> midiMessage := ?buf, msgIndex := 3, msgByteCount := 3, msgComplete := True,
      dispatched := dispatched v @ [(?buf, 3)] \<rparr>"
  have store: "MidiInputService_store d v =
      Inr (v\<lparr> midiMessage := ?buf, msgIndex := 3, msgByteCount := 3 \<rparr>, False)"
    using d fr len
    by (simp add: MidiInputService_store_def array_write_def Let_def MIDI_MSG_MAX_LENGTH_def
        s16_def)
  have b0: "?buf ! 0 = st" "?buf ! 1 = midiMessage v ! 1" "?buf ! 2 = d"
    using len hd by simp_all
  have "NoteOn_case_engine (g_Patch ?v2) (?buf ! 1) (?buf ! 2) (engine ?v2) = Inr e"
    using e b0 by simp
  then have pm: "ProcessMidiMessage ?buf 3 ?v2 = Inr (?v2\<lparr> engine := e, TESTPOINT2 := (?buf ! 2 \<noteq> 0) \<rparr>)"
    using st b0(1) by (intro ProcessMidiMessage_NoteOn) simp_all
  show ?thesis
    using ch fr b0
    by (auto simp add: MidiInputService_def store pm Let_def)
qed

lemma take_3:
  assumes "3 \<le> length xs"
  shows "take 3 xs = [xs ! 0, xs ! 1, xs ! 2]"
proof -
  obtain a b c ys where "xs = a # b # c # ys"
    using assms by (cases xs; cases "tl xs"; cases "tl (tl xs)") auto
  then show ?thesis by simp
qed

lemma MidiInputStream_pair:
  assumes st: "st AND 0xF0 = NOTE_ON_CMD"
    and ch: "(st AND 0x0F) + 1 = g_MidiChannel v \<or> (st AND 0x0F) + 1 = 16 \<or>
             g_MidiMode v = OMNI_ON_MONO"
    and aw: "awaiting_pair st v"
    and d: "d1 AND 0x80 = 0" "d2 AND 0x80 = 0"
    and e: "NoteOn_case_engine (g_Patch v) d1 d2 (engine v) = Inr e"
  shows "\<exists>v' buf. MidiInputStream [d1, d2] v = Inr v' \<and> awaiting_pair st v' \<and>
      dispatched v' = dispatched v @ [(buf, 3)] \<and> take 3 buf = [st, d1, d2] \<and>
      engine v' = e \<and> g_Patch v' = g_Patch v \<and> g_MidiChannel v' = g_MidiChannel v \<and>
      g_MidiMode v' = g_MidiMode v"
proof -
  let ?v1 = "v\<lparr> msgIndex := 2, msgByteCount := 2, msgBytesExpected := 3,
              midiMessage := (midiMessage v)[1 := d1] \<rparr>"
  have len: "length (midiMessage v) = 16" and hd: "midiMessage v ! 0 = st"
    and ms: "msgStatus v = st"
    using aw by (simp_all add: awaiting_pair_def)
  have s1: "MidiInputService d1 v = Inr ?v1"
    using st aw d(1) by (rule MidiInputService_first_data)
  have e1: "NoteOn_case_engine (g_Patch ?v1) (midiMessage ?v1 ! 1) d2 (engine ?v1) = Inr e"
    using e len by simp
  have s2: "MidiInputService d2 ?v1 =
     Inr (?v1\<lparr> midiMessage := (midiMessage ?v1)[2 := d2], msgComplete := True,
              dispatched := dispatched ?v1 @ [((midiMessage ?v1)[2 := d2], 3)],
              engine := e, TESTPOINT2 := (d2 \<noteq> 0),
              msgBytesExpected := 0, msgByteCount := 0, msgIndex := 0 \<rparr>)"
    using st ch len hd ms d(2) e1
    by (intro MidiInputService_second_data) simp_all
  have t: "take 3 ((midiMessage v)[1 := d1, 2 := d2]) = [st, d1, d2]"
    using len hd by (simp add: take_3)
  show ?thesis
    using s1 s2 t len hd ms
    by (simp add: awaiting_pair_def)
qed

lemma MidiInputStream_append:
  "MidiInputStream (xs @ ys) v =
     (case MidiInputStream xs v of Inl e \<Rightarrow> Inl e | Inr v' \<Rightarrow> MidiInputStream ys v')"
  by (induction xs arbitrary: v) (auto split: sum.splits)

text \<open>
  C3. Let \<open>st\<close> be a Note-On status byte on an accepted channel and \<open>n1 v1\<close>,
  \<open>n2 v2\<close>, \<open>n3 v3\<close> three pairs of data bytes (bit 7 clear), and let the frequency
  multiplier selectors of the active patch be below 12. Feeding the seven bytes to
  \<open>MidiInputService\<close> one at a time, with no further status byte, hands exactly three
  messages to \<open>ProcessMidiMessage\<close>, each of length 3 and made of the status byte and
  the note number and velocity of the corresponding pair, in order. The engine ends in
  the state reached by handling the three Note-On messages in turn (a Note-On with
  velocity 0 being handled as a note-off).
\<close>

theorem running_status_three_note_on_messages:
  assumes st: "st AND 0xF0 = NOTE_ON_CMD"
    and ch: "(st AND 0x0F) + 1 = g_MidiChannel v \<or> (st AND 0x0F) + 1 = 16 \<or>
             g_MidiMode v = OMNI_ON_MONO"
    and d1: "n1 AND 0x80 = 0" "v1 AND 0x80 = 0"
    and d2: "n2 AND 0x80 = 0" "v2 AND 0x80 = 0"
    and d3: "n3 AND 0x80 = 0" "v3 AND 0x80 = 0"
    and len: "length (midiMessage v) = 16"
    and valid: "\<forall>osc<6. OscFreqMult (g_Patch v) ! osc < 12"
  shows "\<exists>v' b1 b2 b3 e1 e2.
      MidiInputStream [st, n1, v1, n2, v2, n3, v3] v = Inr v' \<and>
      dispatched v' = dispatched v @ [(b1, 3), (b2, 3), (b3, 3)] \<and>
      take 3 b1 = [st, n1, v1] \<and> take 3 b2 = [st, n2, v2] \<and> take 3 b3 = [st, n3, v3] \<and>
      NoteOn_case_engine (g_Patch v) n1 v1 (engine v) = Inr e1 \<and>
      NoteOn_case_engine (g_Patch v) n2 v2 e1 = Inr e2 \<and>
      NoteOn_case_engine (g_Patch v) n3 v3 e2 = Inr (engine v')"
proof -
  let ?v0 = "v\<lparr> msgStatus := st, msgComplete := False, midiMessage := (midiMessage v)[0 := st],
              msgIndex := 1, msgByteCount := 1, msgBytesExpected := 3 \<rparr>"
  have s0: "MidiInputService st v = Inr ?v0"
    using st len by (rule MidiInputService_status)
  have aw0: "awaiting_pair st ?v0"
    using len by (simp add: awaiting_pair_def)
  have ch0: "(st AND 0x0F) + 1 = g_MidiChannel ?v0 \<or> (st AND 0x0F) + 1 = 16 \<or>
             g_MidiMode ?v0 = OMNI_ON_MONO"
    using ch by simp
  obtain e1 where e1: "NoteOn_case_engine (g_Patch v) n1 v1 (engine v) = Inr e1"
    using NoteOn_case_engine_valid [OF valid] by blast
  obtain e2 where e2: "NoteOn_case_engine (g_Patch v) n2 v2 e1 = Inr e2"
    using NoteOn_case_engine_valid [OF valid] by blast
  obtain e3 where e3: "NoteOn_case_engine (g_Patch v) n3 v3 e2 = Inr e3"
    using NoteOn_case_engine_valid [OF valid] by blast
  have e1': "NoteOn_case_engine (g_Patch ?v0) n1 v1 (engine ?v0) = Inr e1"
    using e1 by simp
  obtain w1 b1 where w1: "MidiInputStream [n1, v1] ?v0 = Inr w1" "awaiting_pair st w1"
      "dispatched w1 = dispatched ?v0 @ [(b1, 3)]" "take 3 b1 = [st, n1, v1]"
      "engine w1 = e1" "g_Patch w1 = g_Patch ?v0" "g_MidiChannel w1 = g_MidiChannel ?v0"
      "g_MidiMode w1 = g_MidiMode ?v0"
    using MidiInputStream_pair [OF st ch0 aw0 d1 e1'] by blast
  have ch1: "(st AND 0x0F) + 1 = g_MidiChannel w1 \<or> (st AND 0x0F) + 1 = 16 \<or>
             g_MidiMode w1 = OMNI_ON_MONO"
    using ch w1(7,8) by simp
  have e2': "NoteOn_case_engine (g_Patch w1) n2 v2 (engine w1) = Inr e2"
    using e2 w1(5,6) by simp
  obtain w2 b2 where w2: "MidiInputStream [n2, v2] w1 = Inr w2" "awaiting_pair st w2"
      "dispatched w2 = dispatched w1 @ [(b2, 3)]" "take 3 b2 = [st, n2, v2]"
      "engine w2 = e2" "g_Patch w2 = g_Patch w1" "g_MidiChannel w2 = g_MidiChannel w1"
      "g_MidiMode w2 = g_MidiMode w1"
    using MidiInputStream_pair [OF st ch1 w1(2) d2 e2'] by blast
  have ch2: "(st AND 0x0F) + 1 = g_MidiChannel w2 \<or> (st AND 0x0F) + 1 = 16 \<or>
             g_MidiMode w2 = OMNI_ON_MONO"
    using ch1 w2(7,8) by simp
  have e3': "NoteOn_case_engine (g_Patch w2) n3 v3 (engine w2) = Inr e3"
    using e3 w1(6) w2(5,6) by simp
  obtain w3 b3 where w3: "MidiInputStream [n3, v3] w2 = Inr w3" "awaiting_pair st w3"
      "dispatched w3 = dispatched w2 @ [(b3, 3)]" "take 3 b3 = [st, n3, v3]"
      "engine w3 = e3"
    using MidiInputStream_pair [OF st ch2 w2(2) d3 e3'] by blast
  have "MidiInputStream [st, n1, v1, n2, v2, n3, v3] v =
      MidiInputStream ([n1, v1] @ [n2, v2] @ [n3, v3]) ?v0"
    using s0 by simp
  also have "\<dots> = Inr w3"
    using w1(1) w2(1) w3(1) by (simp only: MidiInputStream_append sum.case)
  finally have run: "MidiInputStream [st, n1, v1, n2, v2, n3, v3] v = Inr w3" .
  have log: "dispatched w3 = dispatched v @ [(b1, 3), (b2, 3), (b3, 3)]"
    using w1(3) w2(3) w3(3) by simp
  show ?thesis
    using run log w1(4) w2(4) w3(4) e1 e2 e3 w3(5) by blast
qed

theorem running_status_three_note_on_messages_witness:
  "(0x90 :: uint8_t) AND 0xF0 = NOTE_ON_CMD \<and>
   ((0x90 :: uint8_t) AND 0x0F) + 1 = g_MidiChannel (voice_setup 1) \<and>
   length (midiMessage (voice_setup 1)) = 16 \<and>
   OscFreqMult (g_Patch (voice_setup 1)) = [1, 4, 6, 8, 10, 0] \<and>
   (\<exists>v' b1 b2 b3.
      MidiInputStream [0x90, 60, 100, 64, 90, 67, 0] (voice_setup 1) = Inr v' \<and>
      dispatched v' = [(b1, 3), (b2, 3), (b3, 3)] \<and>
      take 3 b1 = [0x90, 60, 100] \<and> take 3 b2 = [0x90, 64, 90] \<and> take 3 b3 = [0x90, 67, 0])"
proof -
  note ev = voice_setup_def PresetSelect_def DefaultConfigData_def voice_zero_def Let_def
    GetNumberOfPresets_32
  have st: "(0x90 :: uint8_t) AND 0xF0 = NOTE_ON_CMD"
    by (simp add: NOTE_ON_CMD_def)
  have c: "((0x90 :: uint8_t) AND 0x0F) + 1 = g_MidiChannel (voice_setup 1)"
    by (simp add: ev)
  then have ch: "((0x90 :: uint8_t) AND 0x0F) + 1 = g_MidiChannel (voice_setup 1) \<or>
      ((0x90 :: uint8_t) AND 0x0F) + 1 = 16 \<or> g_MidiMode (voice_setup 1) = OMNI_ON_MONO"
    by blast
  have len: "length (midiMessage (voice_setup 1)) = 16"
    by (simp add: ev)
  have p: "g_Patch (voice_setup 1) = g_PresetPatch ! 13"
    by (simp add: ev)
  have l: "OscFreqMult (g_Patch (voice_setup 1)) = [1, 4, 6, 8, 10, 0]"
    by (simp add: p g_PresetPatch_def)
  have valid: "\<forall>osc<6. OscFreqMult (g_Patch (voice_setup 1)) ! osc < 12"
    using preset_13_FreqMult by (simp add: p)
  have lg: "dispatched (voice_setup 1) = []"
    by (simp add: ev)
  have d: "(60 :: uint8_t) AND 0x80 = 0" "(100 :: uint8_t) AND 0x80 = 0"
    "(64 :: uint8_t) AND 0x80 = 0" "(90 :: uint8_t) AND 0x80 = 0"
    "(67 :: uint8_t) AND 0x80 = 0" "(0 :: uint8_t) AND 0x80 = 0"
    by simp_all
  from running_status_three_note_on_messages [OF st ch d len valid]
  obtain v' b1 b2 b3 where
      "MidiInputStream [0x90, 60, 100, 64, 90, 67, 0] (voice_setup 1) = Inr v'"
      "dispatched v' = dispatched (voice_setup 1) @ [(b1, 3), (b2, 3), (b3, 3)]"
      "take 3 b1 = [0x90, 60, 100]" "take 3 b2 = [0x90, 64, 90]" "take 3 b3 = [0x90, 67, 0]"
    by blast
  then have "\<exists>v' b1 b2 b3.
      MidiInputStream [0x90, 60, 100, 64, 90, 67, 0] (voice_setup 1) = Inr v' \<and>
      dispatched v' = [(b1, 3), (b2, 3), (b3, 3)] \<and>
      take 3 b1 = [0x90, 60, 100] \<and> take 3 b2 = [0x90, 64, 90] \<and> take 3 b3 = [0x90, 67, 0]"
    unfolding lg by (intro exI [of _ v'] exI [of _ b1] exI [of _ b2] exI [of _ b3]) simp
  with st c len l show ?thesis
    by (intro conjI)
qed

subsection \<open>Amplitude envelope\<close>

lemma sdiv_nonneg: "0 \<le> a \<Longrightarrow> 0 \<le> b \<Longrightarrow> (a :: int) sdiv b = a div b"
  by (auto simp add: signed_divide_int_def sgn_if)

lemma IntToFixedPt_small: "0 \<le> i \<Longrightarrow> i \<le> 2047 \<Longrightarrow> IntToFixedPt i = i * 1048576"
  by (simp add: IntToFixedPt_def push_bit_eq_mult s32_def)

lemma FIXED_MAX_LEVEL_value: "FIXED_MAX_LEVEL = 1048575"
  by (simp add: FIXED_MAX_LEVEL_def IntToFixedPt_1 s32_def)

lemma u32_id: "0 \<le> x \<Longrightarrow> x < 4294967296 \<Longrightarrow> u32 x = x"
  by (simp add: u32_def)

lemma uint16_range: "0 \<le> uint (w :: 16 word) \<and> uint w < 65536"
  using uint_lt2p [of w] by simp

text \<open>One tick in the attack segment, no trigger pending.\<close>

lemma attack_segment_tick:
  assumes "EnvSegment s = ENV_ATTACK" "\<not> m_TriggerAttack1 s" "\<not> m_TriggerRelease1 s"
    and "0 \<le> envPhaseTimer s" "envPhaseTimer s < 65536"
  shows "AmpldEnvelopeGenerator p s =
     Inr (if envPhaseTimer s + 1 \<ge> uint (EnvAttackTime p)
          then s\<lparr> m_ENV1_Output := ampldMaximum s, envPhaseTimer := 0,
                  EnvSegment := (if EnvHoldTime p = 0 then ENV_SUSTAIN else ENV_PEAK_HOLD) \<rparr>
          else s\<lparr> m_ENV1_Output :=
                    (if m_ENV1_Output s < ampldMaximum s
                     then s32 (m_ENV1_Output s + ampldDelta s) else m_ENV1_Output s),
                  envPhaseTimer := envPhaseTimer s + 1 \<rparr>)"
proof -
  have "u32 (envPhaseTimer s + 1) = envPhaseTimer s + 1"
    using assms(4,5) by (simp add: u32_def)
  then show ?thesis
    using assms(1-3)
    by (simp add: AmpldEnvelopeGenerator_def AmpldEnvelopeGenerator_attack_def
        AmpldEnvelopeGenerator_release_def AmpldEnvelopeGenerator_segment_def Let_def)
qed

lemma sustain_segment_tick:
  assumes "EnvSegment s = ENV_SUSTAIN" "\<not> m_TriggerAttack1 s" "\<not> m_TriggerRelease1 s"
  shows "AmpldEnvelopeGenerator p s = Inr s"
  using assms
  by (simp add: AmpldEnvelopeGenerator_def AmpldEnvelopeGenerator_attack_def
      AmpldEnvelopeGenerator_release_def AmpldEnvelopeGenerator_segment_def)

text \<open>The tick that consumes an attack trigger.\<close>

lemma attack_trigger_tick:
  assumes "m_TriggerAttack1 s" "EnvAttackTime p \<noteq> 0"
  shows "\<exists>s'. AmpldEnvelopeGenerator p s = Inr s' \<and>
     \<not> m_TriggerAttack1 s' \<and> \<not> m_TriggerRelease1 s' \<and>
     sustainLevel s' = IntToFixedPt (uint (EnvSustainLevel p)) sdiv 100 \<and>
     ampldMaximum s' = (if EnvHoldTime p = 0 then sustainLevel s' else FIXED_MAX_LEVEL) \<and>
     ampldDelta s' = s32 (ampldMaximum s' sdiv uint (EnvAttackTime p)) \<and>
     (if uint (EnvAttackTime p) \<le> 1
      then EnvSegment s' = (if EnvHoldTime p = 0 then ENV_SUSTAIN else ENV_PEAK_HOLD) \<and>
           m_ENV1_Output s' = ampldMaximum s' \<and> envPhaseTimer s' = 0
      else EnvSegment s' = ENV_ATTACK \<and> envPhaseTimer s' = 1 \<and>
           m_ENV1_Output s' =
             (if m_ENV1_Output s < ampldMaximum s'
              then s32 (m_ENV1_Output s + ampldDelta s') else m_ENV1_Output s))"
proof -
  have "uint (EnvAttackTime p) \<noteq> 0"
    using assms(2) by (simp add: uint_0_iff)
  then show ?thesis
    using assms(1)
    by (simp add: AmpldEnvelopeGenerator_def AmpldEnvelopeGenerator_attack_def
        AmpldEnvelopeGenerator_release_def AmpldEnvelopeGenerator_segment_def Let_def
        c_div_def u32_def)
qed


lemma AmpldEnvelope_ticks_Suc_end:
  "AmpldEnvelope_ticks p (Suc n) s =
     (case AmpldEnvelope_ticks p n s of
        Inl e \<Rightarrow> Inl e
      | Inr s' \<Rightarrow> AmpldEnvelopeGenerator p s')"
proof (induction n arbitrary: s)
  case 0
  show ?case by (simp split: sum.splits)
next
  case (Suc n)
  show ?case
  proof (cases "AmpldEnvelopeGenerator p s")
    case (Inl e)
    then show ?thesis by simp
  next
    case (Inr s1)
    have "AmpldEnvelope_ticks p (Suc (Suc n)) s = AmpldEnvelope_ticks p (Suc n) s1"
      using Inr by simp
    also have "\<dots> = (case AmpldEnvelope_ticks p n s1 of
        Inl e \<Rightarrow> Inl e | Inr s' \<Rightarrow> AmpldEnvelopeGenerator p s')"
      by (rule Suc.IH)
    also have "AmpldEnvelope_ticks p n s1 = AmpldEnvelope_ticks p (Suc n) s"
      using Inr by simp
    finally show ?thesis .
  qed
qed

lemma hold_zero_run:
  assumes h: "EnvHoldTime p = 0" and a: "EnvAttackTime p \<noteq> 0" and t: "m_TriggerAttack1 s"
  shows "\<exists>s'. AmpldEnvelope_ticks p (Suc n) s = Inr s' \<and>
     \<not> m_TriggerAttack1 s' \<and> \<not> m_TriggerRelease1 s' \<and>
     ampldMaximum s' = IntToFixedPt (uint (EnvSustainLevel p)) sdiv 100 \<and>
     (if int (Suc n) < uint (EnvAttackTime p)
      then EnvSegment s' = ENV_ATTACK \<and> envPhaseTimer s' = int (Suc n)
      else EnvSegment s' = ENV_SUSTAIN \<and> m_ENV1_Output s' = ampldMaximum s')"
proof (induction n)
  case 0
  obtain s' where s': "AmpldEnvelopeGenerator p s = Inr s'"
     "\<not> m_TriggerAttack1 s'" "\<not> m_TriggerRelease1 s'"
     "sustainLevel s' = IntToFixedPt (uint (EnvSustainLevel p)) sdiv 100"
     "ampldMaximum s' = (if EnvHoldTime p = 0 then sustainLevel s' else FIXED_MAX_LEVEL)"
     "(if uint (EnvAttackTime p) \<le> 1
      then EnvSegment s' = (if EnvHoldTime p = 0 then ENV_SUSTAIN else ENV_PEAK_HOLD) \<and>
           m_ENV1_Output s' = ampldMaximum s' \<and> envPhaseTimer s' = 0
      else EnvSegment s' = ENV_ATTACK \<and> envPhaseTimer s' = 1 \<and>
           m_ENV1_Output s' =
             (if m_ENV1_Output s < ampldMaximum s'
              then s32 (m_ENV1_Output s + ampldDelta s') else m_ENV1_Output s))"
    using attack_trigger_tick [OF t a] by blast
  show ?case
    using s' h by (auto split: if_splits)
next
  case (Suc n)
  then obtain s1 where s1: "AmpldEnvelope_ticks p (Suc n) s = Inr s1"
     "\<not> m_TriggerAttack1 s1" "\<not> m_TriggerRelease1 s1"
     "ampldMaximum s1 = IntToFixedPt (uint (EnvSustainLevel p)) sdiv 100"
     "if int (Suc n) < uint (EnvAttackTime p)
      then EnvSegment s1 = ENV_ATTACK \<and> envPhaseTimer s1 = int (Suc n)
      else EnvSegment s1 = ENV_SUSTAIN \<and> m_ENV1_Output s1 = ampldMaximum s1"
    by blast
  have run: "AmpldEnvelope_ticks p (Suc (Suc n)) s = AmpldEnvelopeGenerator p s1"
    using s1(1) by (simp only: AmpldEnvelope_ticks_Suc_end [of p "Suc n"] sum.case)
  show ?case
  proof (cases "int (Suc n) < uint (EnvAttackTime p)")
    case True
    then have seg: "EnvSegment s1 = ENV_ATTACK" and tm: "envPhaseTimer s1 = int (Suc n)"
      using s1(5) by simp_all
    have "envPhaseTimer s1 < 65536"
      using tm True uint16_range [of "EnvAttackTime p"] by simp
    then show ?thesis
      using attack_segment_tick [OF seg s1(2,3), of p] seg tm s1(2,3,4) h True
      by (simp only: run) auto
  next
    case False
    then have seg: "EnvSegment s1 = ENV_SUSTAIN" and out: "m_ENV1_Output s1 = ampldMaximum s1"
      using s1(5) by simp_all
    show ?thesis
      using sustain_segment_tick [OF seg s1(2,3), of p] s1(2,3,4) seg out False
      by (simp only: run) auto
  qed
qed

text \<open>
  C6. Let the hold time of the patch be zero. A tick in the attack segment with no
  trigger pending either stays in the attack segment or, when the attack time has
  elapsed, enters SUSTAIN with the output equal to the peak value \<open>ampldMaximum\<close>.
  After an attack trigger, with an attack time of at least 1 ms, the generator is in the
  attack segment for the ticks before the attack time and in SUSTAIN from then on, so it
  is never in PEAK_HOLD or DECAY, and in SUSTAIN its output equals the peak value, which
  the attack trigger has set to the sustain level of the patch.
\<close>

theorem hold_zero_attack_goes_to_sustain:
  assumes "EnvHoldTime p = 0"
  shows
    "(EnvSegment s = ENV_ATTACK \<and> \<not> m_TriggerAttack1 s \<and> \<not> m_TriggerRelease1 s \<and>
      0 \<le> envPhaseTimer s \<and> envPhaseTimer s < 65536 \<longrightarrow>
        (\<exists>s'. AmpldEnvelopeGenerator p s = Inr s' \<and>
           (if envPhaseTimer s + 1 \<ge> uint (EnvAttackTime p)
            then EnvSegment s' = ENV_SUSTAIN \<and> m_ENV1_Output s' = ampldMaximum s
            else EnvSegment s' = ENV_ATTACK))) \<and>
     (m_TriggerAttack1 s \<and> EnvAttackTime p \<noteq> 0 \<and> 0 < n \<longrightarrow>
        (\<exists>s'. AmpldEnvelope_ticks p n s = Inr s' \<and>
           EnvSegment s' =
             (if int n < uint (EnvAttackTime p) then ENV_ATTACK else ENV_SUSTAIN) \<and>
           ampldMaximum s' = IntToFixedPt (uint (EnvSustainLevel p)) sdiv 100 \<and>
           (EnvSegment s' = ENV_SUSTAIN \<longrightarrow> m_ENV1_Output s' = ampldMaximum s')))"
proof (intro conjI impI)
  assume "EnvSegment s = ENV_ATTACK \<and> \<not> m_TriggerAttack1 s \<and> \<not> m_TriggerRelease1 s \<and>
      0 \<le> envPhaseTimer s \<and> envPhaseTimer s < 65536"
  then show "\<exists>s'. AmpldEnvelopeGenerator p s = Inr s' \<and>
           (if envPhaseTimer s + 1 \<ge> uint (EnvAttackTime p)
            then EnvSegment s' = ENV_SUSTAIN \<and> m_ENV1_Output s' = ampldMaximum s
            else EnvSegment s' = ENV_ATTACK)"
    using attack_segment_tick [of s p] assms by simp
next
  assume b: "m_TriggerAttack1 s \<and> EnvAttackTime p \<noteq> 0 \<and> 0 < n"
  then obtain m where m: "n = Suc m" by (cases n) auto
  from b have t: "m_TriggerAttack1 s" and a: "EnvAttackTime p \<noteq> 0" by simp_all
  show "\<exists>s'. AmpldEnvelope_ticks p n s = Inr s' \<and>
           EnvSegment s' =
             (if int n < uint (EnvAttackTime p) then ENV_ATTACK else ENV_SUSTAIN) \<and>
           ampldMaximum s' = IntToFixedPt (uint (EnvSustainLevel p)) sdiv 100 \<and>
           (EnvSegment s' = ENV_SUSTAIN \<longrightarrow> m_ENV1_Output s' = ampldMaximum s')"
    using hold_zero_run [OF assms a t, of m] unfolding m by auto
qed

lemma preset_0_envelope:
  "EnvAttackTime (g_PresetPatch ! 0) = 5" "EnvHoldTime (g_PresetPatch ! 0) = 0"
  "EnvDecayTime (g_PresetPatch ! 0) = 200" "EnvSustainLevel (g_PresetPatch ! 0) = 80"
  "EnvReleaseTime (g_PresetPatch ! 0) = 200"
  by (simp_all add: g_PresetPatch_def)

theorem hold_zero_attack_goes_to_sustain_witness:
  "EnvHoldTime (g_PresetPatch ! 0) = 0 \<and>
   EnvSegment (synth_zero\<lparr> EnvSegment := ENV_ATTACK, envPhaseTimer := 4,
                  ampldMaximum := 838860 \<rparr>) = ENV_ATTACK \<and>
   (\<exists>s'. AmpldEnvelopeGenerator (g_PresetPatch ! 0)
           (synth_zero\<lparr> EnvSegment := ENV_ATTACK, envPhaseTimer := 4,
                  ampldMaximum := 838860 \<rparr>) = Inr s' \<and>
         EnvSegment s' = ENV_SUSTAIN \<and> m_ENV1_Output s' = 838860) \<and>
   m_TriggerAttack1 (SynthTriggerAttack synth_zero) \<and>
   EnvAttackTime (g_PresetPatch ! 0) \<noteq> 0 \<and>
   (\<exists>s'. AmpldEnvelope_ticks (g_PresetPatch ! 0) 4 (SynthTriggerAttack synth_zero) = Inr s' \<and>
         EnvSegment s' = ENV_ATTACK) \<and>
   (\<exists>s'. AmpldEnvelope_ticks (g_PresetPatch ! 0) 5 (SynthTriggerAttack synth_zero) = Inr s' \<and>
         EnvSegment s' = ENV_SUSTAIN \<and> m_ENV1_Output s' = 838860)"
proof -
  let ?p = "g_PresetPatch ! 0"
  let ?a = "synth_zero\<lparr> EnvSegment := ENV_ATTACK, envPhaseTimer := 4, ampldMaximum := 838860 \<rparr>"
  let ?s = "SynthTriggerAttack synth_zero"
  have h: "EnvHoldTime ?p = 0" by (rule preset_0_envelope)
  have a: "EnvAttackTime ?p \<noteq> 0" by (simp add: preset_0_envelope)
  have t: "m_TriggerAttack1 ?s" by (simp add: SynthTriggerAttack_def)
  have pa: "EnvSegment ?a = ENV_ATTACK \<and> \<not> m_TriggerAttack1 ?a \<and> \<not> m_TriggerRelease1 ?a \<and>
      0 \<le> envPhaseTimer ?a \<and> envPhaseTimer ?a < 65536"
    by (simp add: synth_zero_def)
  have pk: "IntToFixedPt 80 sdiv 100 = 838860"
    by (simp add: IntToFixedPt_small sdiv_nonneg)
  note c6 = hold_zero_attack_goes_to_sustain [OF h]
  from c6 [of ?a 0] pa
  have 1: "\<exists>s'. AmpldEnvelopeGenerator ?p ?a = Inr s' \<and>
         EnvSegment s' = ENV_SUSTAIN \<and> m_ENV1_Output s' = 838860"
    by (simp add: preset_0_envelope)
  from c6 [of ?s 4] t a
  have 2: "\<exists>s'. AmpldEnvelope_ticks ?p 4 ?s = Inr s' \<and> EnvSegment s' = ENV_ATTACK"
    by (auto simp add: preset_0_envelope)
  from c6 [of ?s 5] t a
  have 3: "\<exists>s'. AmpldEnvelope_ticks ?p 5 ?s = Inr s' \<and>
         EnvSegment s' = ENV_SUSTAIN \<and> m_ENV1_Output s' = 838860"
    by (auto simp add: preset_0_envelope pk)
  from pa have sg: "EnvSegment ?a = ENV_ATTACK" by blast
  show ?thesis
    using h sg 1 t a 2 3 by (intro conjI)
qed

subsection \<open>Release of the amplitude envelope\<close>

lemma release_step_arith:
  fixes out tc :: int
  assumes "1 \<le> tc" "0 \<le> out" "out \<le> 1048576"
  shows "c_div out tc = Inr (out div tc)" "0 \<le> out div tc" "out div tc \<le> out"
proof -
  show d0: "0 \<le> out div tc" using assms by (simp add: pos_imp_zdiv_nonneg_iff)
  show d1: "out div tc \<le> out"
    using assms by (metis div_by_1 zdiv_mono2 zero_less_one)
  have "s32 (out div tc) = out div tc"
    using d0 d1 assms by (intro s32_id) auto
  then show "c_div out tc = Inr (out div tc)"
    using assms by (simp add: c_div_def sdiv_nonneg)
qed

lemma release_segment_tick:
  assumes seg: "EnvSegment s = ENV_RELEASE"
    and fl: "\<not> m_TriggerAttack1 s" "\<not> m_TriggerRelease1 s"
    and tc: "1 \<le> timeConstant s"
    and out: "0 \<le> m_ENV1_Output s" "m_ENV1_Output s \<le> 1048576"
    and tm: "0 \<le> envPhaseTimer s" "envPhaseTimer s < 131072"
  shows "\<exists>s'. AmpldEnvelopeGenerator p s = Inr s' \<and>
     \<not> m_TriggerAttack1 s' \<and> \<not> m_TriggerRelease1 s' \<and>
     timeConstant s' = timeConstant s \<and>
     0 \<le> m_ENV1_Output s' \<and> m_ENV1_Output s' \<le> m_ENV1_Output s \<and>
     envPhaseTimer s' = envPhaseTimer s + 1 \<and>
     EnvSegment s' =
       (if uint (EnvReleaseTime p) * 2 \<le> envPhaseTimer s + 1 then ENV_IDLE else ENV_RELEASE)"
proof -
  note ar = release_step_arith [OF tc out]
  have t: "u32 (envPhaseTimer s + 1) = envPhaseTimer s + 1"
    using tm by (simp add: u32_def)
  have sub: "\<And>d. 0 \<le> d \<Longrightarrow> d \<le> m_ENV1_Output s \<Longrightarrow>
      s32 (m_ENV1_Output s - d) = m_ENV1_Output s - d"
    using out by (intro s32_id) auto
  show ?thesis
    using seg fl ar t sub [of "m_ENV1_Output s div timeConstant s"] sub [of 1]
    by (auto simp add: AmpldEnvelopeGenerator_def AmpldEnvelopeGenerator_attack_def
        AmpldEnvelopeGenerator_release_def AmpldEnvelopeGenerator_segment_def Let_def
        FIXED_MIN_LEVEL_def)
qed


lemma release_trigger_absorbed:
  assumes "\<not> m_TriggerAttack1 s"
  shows "AmpldEnvelopeGenerator p s =
     AmpldEnvelopeGenerator p (AmpldEnvelopeGenerator_release p s)"
  using assms
  by (simp add: AmpldEnvelopeGenerator_def AmpldEnvelopeGenerator_attack_def
      AmpldEnvelopeGenerator_release_def)

lemma release_trigger_tick:
  assumes fl: "\<not> m_TriggerAttack1 s" "m_TriggerRelease1 s"
    and r: "5 \<le> uint (EnvReleaseTime p)"
    and out: "0 \<le> m_ENV1_Output s" "m_ENV1_Output s \<le> 1048576"
  shows "\<exists>s'. AmpldEnvelopeGenerator p s = Inr s' \<and>
     \<not> m_TriggerAttack1 s' \<and> \<not> m_TriggerRelease1 s' \<and>
     1 \<le> timeConstant s' \<and>
     0 \<le> m_ENV1_Output s' \<and> m_ENV1_Output s' \<le> m_ENV1_Output s \<and>
     envPhaseTimer s' = 1 \<and> EnvSegment s' = ENV_RELEASE"
proof -
  let ?s0 = "AmpldEnvelopeGenerator_release p s"
  have tc: "1 \<le> uint (EnvReleaseTime p) sdiv 5"
    using r by (simp add: sdiv_nonneg)
  have s0: "EnvSegment ?s0 = ENV_RELEASE" "\<not> m_TriggerAttack1 ?s0" "\<not> m_TriggerRelease1 ?s0"
      "1 \<le> timeConstant ?s0" "0 \<le> m_ENV1_Output ?s0" "m_ENV1_Output ?s0 \<le> 1048576"
      "0 \<le> envPhaseTimer ?s0" "envPhaseTimer ?s0 < 131072"
      "m_ENV1_Output ?s0 = m_ENV1_Output s" "envPhaseTimer ?s0 = 0"
    using fl out tc by (simp_all add: AmpldEnvelopeGenerator_release_def)
  have "\<not> uint (EnvReleaseTime p) * 2 \<le> 1" using r by simp
  then show ?thesis
    using release_segment_tick [OF s0(1-8), of p] s0(4,9,10)
    by (simp only: release_trigger_absorbed [OF fl(1), of p]) auto
qed

lemma release_run:
  assumes "EnvSegment s = ENV_RELEASE" "\<not> m_TriggerAttack1 s" "\<not> m_TriggerRelease1 s"
    and "1 \<le> timeConstant s"
    and "0 \<le> m_ENV1_Output s" "m_ENV1_Output s \<le> 1048576"
    and "0 \<le> envPhaseTimer s" "envPhaseTimer s < uint (EnvReleaseTime p) * 2"
    and "envPhaseTimer s + int m \<le> uint (EnvReleaseTime p) * 2"
  shows "\<exists>s'. AmpldEnvelope_ticks p m s = Inr s' \<and>
     0 \<le> m_ENV1_Output s' \<and> m_ENV1_Output s' \<le> m_ENV1_Output s \<and>
     (EnvSegment s' = ENV_IDLE \<longleftrightarrow> envPhaseTimer s + int m = uint (EnvReleaseTime p) * 2)"
  using assms
proof (induction m arbitrary: s)
  case 0
  then show ?case by simp
next
  case (Suc m)
  have lt: "envPhaseTimer s < 131072"
    using Suc.prems(8) uint16_range [of "EnvReleaseTime p"] by simp
  obtain s1 where s1: "AmpldEnvelopeGenerator p s = Inr s1"
      "\<not> m_TriggerAttack1 s1" "\<not> m_TriggerRelease1 s1"
      "timeConstant s1 = timeConstant s"
      "0 \<le> m_ENV1_Output s1" "m_ENV1_Output s1 \<le> m_ENV1_Output s"
      "envPhaseTimer s1 = envPhaseTimer s + 1"
      "EnvSegment s1 =
        (if uint (EnvReleaseTime p) * 2 \<le> envPhaseTimer s + 1 then ENV_IDLE else ENV_RELEASE)"
    using release_segment_tick [OF Suc.prems(1-7) lt, of p] by blast
  show ?case
  proof (cases "uint (EnvReleaseTime p) * 2 \<le> envPhaseTimer s + 1")
    case True
    then have m0: "m = 0" using Suc.prems(9) by simp
    show ?thesis
      using s1 True Suc.prems(8) by (simp add: m0)
  next
    case False
    then have seg: "EnvSegment s1 = ENV_RELEASE" using s1(8) by simp
    have tc: "1 \<le> timeConstant s1" using s1(4) Suc.prems(4) by simp
    have o: "m_ENV1_Output s1 \<le> 1048576" using s1(6) Suc.prems(6) by simp
    have t0: "0 \<le> envPhaseTimer s1" using s1(7) Suc.prems(7) by simp
    have t1: "envPhaseTimer s1 < uint (EnvReleaseTime p) * 2" using s1(7) False by simp
    have t2: "envPhaseTimer s1 + int m \<le> uint (EnvReleaseTime p) * 2"
      using s1(7) Suc.prems(9) by simp
    obtain s' where s': "AmpldEnvelope_ticks p m s1 = Inr s'"
        "0 \<le> m_ENV1_Output s'" "m_ENV1_Output s' \<le> m_ENV1_Output s1"
        "EnvSegment s' = ENV_IDLE \<longleftrightarrow>
           envPhaseTimer s1 + int m = uint (EnvReleaseTime p) * 2"
      using Suc.IH [OF seg s1(2,3) tc s1(5) o t0 t1 t2] by blast
    show ?thesis
      using s1(1,6,7) s' by (simp add: add.assoc)
  qed
qed

lemma sustain_level_bounds:
  assumes "uint (EnvSustainLevel p) \<le> 100"
  shows "0 \<le> IntToFixedPt (uint (EnvSustainLevel p)) sdiv 100"
    "IntToFixedPt (uint (EnvSustainLevel p)) sdiv 100 \<le> 1048576"
proof -
  have f: "IntToFixedPt (uint (EnvSustainLevel p)) = uint (EnvSustainLevel p) * 1048576"
    using assms by (intro IntToFixedPt_small) auto
  have n: "0 \<le> uint (EnvSustainLevel p) * 1048576" by simp
  have d: "IntToFixedPt (uint (EnvSustainLevel p)) sdiv 100 =
      uint (EnvSustainLevel p) * 1048576 div 100"
    using n by (simp add: f sdiv_nonneg)
  show "0 \<le> IntToFixedPt (uint (EnvSustainLevel p)) sdiv 100"
    unfolding d by (simp add: pos_imp_zdiv_nonneg_iff)
  show "IntToFixedPt (uint (EnvSustainLevel p)) sdiv 100 \<le> 1048576"
    unfolding d using assms by arith
qed

lemma attack_first_tick_bounds:
  assumes a: "1 \<le> uint (EnvAttackTime p)"
    and l: "uint (EnvSustainLevel p) \<le> 100"
    and t: "m_TriggerAttack1 s"
    and z: "m_ENV1_Output s = 0"
  shows "\<exists>s'. AmpldEnvelopeGenerator p s = Inr s' \<and>
     \<not> m_TriggerAttack1 s' \<and> \<not> m_TriggerRelease1 s' \<and>
     EnvSegment s' \<noteq> ENV_IDLE \<and>
     0 \<le> m_ENV1_Output s' \<and> m_ENV1_Output s' \<le> 1048576"
proof -
  have a0: "EnvAttackTime p \<noteq> 0" using a by auto
  obtain s' where s': "AmpldEnvelopeGenerator p s = Inr s'"
     "\<not> m_TriggerAttack1 s'" "\<not> m_TriggerRelease1 s'"
     "sustainLevel s' = IntToFixedPt (uint (EnvSustainLevel p)) sdiv 100"
     "ampldMaximum s' = (if EnvHoldTime p = 0 then sustainLevel s' else FIXED_MAX_LEVEL)"
     "ampldDelta s' = s32 (ampldMaximum s' sdiv uint (EnvAttackTime p))"
     "(if uint (EnvAttackTime p) \<le> 1
      then EnvSegment s' = (if EnvHoldTime p = 0 then ENV_SUSTAIN else ENV_PEAK_HOLD) \<and>
           m_ENV1_Output s' = ampldMaximum s' \<and> envPhaseTimer s' = 0
      else EnvSegment s' = ENV_ATTACK \<and> envPhaseTimer s' = 1 \<and>
           m_ENV1_Output s' =
             (if m_ENV1_Output s < ampldMaximum s'
              then s32 (m_ENV1_Output s + ampldDelta s') else m_ENV1_Output s))"
    using attack_trigger_tick [OF t a0] by blast
  have mx: "0 \<le> ampldMaximum s'" "ampldMaximum s' \<le> 1048576"
    using s'(4,5) sustain_level_bounds [OF l] by (auto simp add: FIXED_MAX_LEVEL_value)
  have q0: "0 \<le> ampldMaximum s' div uint (EnvAttackTime p)"
    using mx(1) a by (simp add: pos_imp_zdiv_nonneg_iff)
  have q1: "ampldMaximum s' div uint (EnvAttackTime p) \<le> ampldMaximum s'"
    using mx(1) a by (metis div_by_1 zdiv_mono2 zero_less_one)
  have dl: "ampldDelta s' = ampldMaximum s' div uint (EnvAttackTime p)"
    using s'(6) mx a q0 q1 by (simp add: sdiv_nonneg s32_id)
  have "0 \<le> m_ENV1_Output s' \<and> m_ENV1_Output s' \<le> 1048576"
    using s'(7) z mx q0 q1 dl by (auto simp add: s32_id split: if_splits)
  moreover have "EnvSegment s' \<noteq> ENV_IDLE"
    using s'(7) by (auto split: if_splits)
  ultimately show ?thesis using s'(1-3) by blast
qed


lemma AmpldEnvelope_idle_within_D:
  "AmpldEnvelope_idle_within p n s \<Longrightarrow>
     \<exists>k s'. k < n \<and> AmpldEnvelope_ticks p (Suc k) s = Inr s' \<and> EnvSegment s' = ENV_IDLE"
proof (induction n arbitrary: s)
  case 0
  then show ?case by simp
next
  case (Suc n)
  then obtain s1 where s1: "AmpldEnvelopeGenerator p s = Inr s1"
      "EnvSegment s1 = ENV_IDLE \<or> AmpldEnvelope_idle_within p n s1"
    by (auto split: sum.splits)
  from s1(2) show ?case
  proof
    assume "EnvSegment s1 = ENV_IDLE"
    then have "AmpldEnvelope_ticks p (Suc 0) s = Inr s1 \<and> EnvSegment s1 = ENV_IDLE"
      using s1(1) by simp
    then show ?thesis by blast
  next
    assume "AmpldEnvelope_idle_within p n s1"
    then obtain k s' where k: "k < n" "AmpldEnvelope_ticks p (Suc k) s1 = Inr s'"
        "EnvSegment s' = ENV_IDLE"
      using Suc.IH by blast
    have "AmpldEnvelope_ticks p (Suc (Suc k)) s = Inr s'"
      using s1(1) k(2) by simp
    then show ?thesis using k(1,3) by (metis Suc_less_eq)
  qed
qed

lemma hold_zero_never_idle:
  assumes "EnvHoldTime p = 0" "EnvAttackTime p \<noteq> 0" "m_TriggerAttack1 s"
  shows "\<not> AmpldEnvelope_idle_within p n s"
proof
  assume "AmpldEnvelope_idle_within p n s"
  then obtain k s' where k: "AmpldEnvelope_ticks p (Suc k) s = Inr s'" "EnvSegment s' = ENV_IDLE"
    using AmpldEnvelope_idle_within_D by blast
  then show False
    using hold_zero_run [OF assms, of k] by (auto split: if_splits)
qed

lemma AmpldEnvelopeGenerator_NoteOn:
  "AmpldEnvelopeGenerator p s = Inr s' \<Longrightarrow> m_NoteOn s' = m_NoteOn s"
  by (auto simp add: AmpldEnvelopeGenerator_def AmpldEnvelopeGenerator_attack_def
      AmpldEnvelopeGenerator_release_def AmpldEnvelopeGenerator_segment_def Let_def c_div_def
      split: if_splits sum.splits Envelope_Gen_Phases.splits)

lemma AmpldEnvelope_ticks_NoteOn:
  "AmpldEnvelope_ticks p n s = Inr s' \<Longrightarrow> m_NoteOn s' = m_NoteOn s"
proof (induction n arbitrary: s)
  case 0
  then show ?case by simp
next
  case (Suc n)
  then obtain s1 where s1: "AmpldEnvelopeGenerator p s = Inr s1" "AmpldEnvelope_ticks p n s1 = Inr s'"
    by (auto split: sum.splits)
  show ?case
    using Suc.IH [OF s1(2)] AmpldEnvelopeGenerator_NoteOn [OF s1(1)] by simp
qed

lemma preset_0_FreqMult: "\<forall>osc<6. OscFreqMult (g_PresetPatch ! 0) ! osc < 12"
  by (auto simp add: less_6 g_PresetPatch_def)

lemma note_on_then_off_triggers:
  assumes "\<forall>osc<6. OscFreqMult p ! osc < 12" "\<not> m_NoteOn s"
  shows "\<exists>s1. SynthNoteOn p n vel s = Inr s1 \<and> m_TriggerAttack1 (SynthNoteOff n s1) \<and>
     m_TriggerRelease1 (SynthNoteOff n s1) \<and> \<not> m_NoteOn (SynthNoteOff n s1)"
proof -
  obtain s0 where s0: "SynthNoteChange p n s = Inr s0" "m_NotePlaying s0 = NoteNumInRange n"
    using SynthNoteChange_valid [OF assms(1)] by blast
  show ?thesis
    using s0 assms(2)
    by (simp add: SynthNoteOn_def SynthNoteOff_def SynthTriggerAttack_def
        SynthTriggerRelease_def Let_def)
qed

text \<open>
  The release path itself. Let the attack time be at least 1 ms, the release time at
  least 5 ms and the sustain level at most 100 percent. Starting in the idle segment with
  output 0, after an attack trigger, one call of the generator and then a release
  trigger, every further call returns; the output is between 0 and full scale (1048576)
  after the first call and after each of the next 2 * release time calls; the generator
  is in the idle segment after exactly 2 * release time calls following the release
  trigger and not before.
\<close>

lemma release_after_one_tick_returns_to_idle:
  assumes a: "1 \<le> uint (EnvAttackTime p)"
    and r: "5 \<le> uint (EnvReleaseTime p)"
    and l: "uint (EnvSustainLevel p) \<le> 100"
    and i: "EnvSegment s = ENV_IDLE"
    and z: "m_ENV1_Output s = 0"
  shows "(\<exists>s1. AmpldEnvelopeGenerator p (SynthTriggerAttack s) = Inr s1 \<and>
            0 \<le> m_ENV1_Output s1 \<and> m_ENV1_Output s1 \<le> 1048576) \<and>
         (\<forall>k. int k \<le> 2 * uint (EnvReleaseTime p) \<longrightarrow>
            (\<exists>s'. attack_tick_release_ticks p k s = Inr s' \<and>
                  0 \<le> m_ENV1_Output s' \<and> m_ENV1_Output s' \<le> 1048576 \<and>
                  (EnvSegment s' = ENV_IDLE \<longleftrightarrow> int k = 2 * uint (EnvReleaseTime p)))) \<and>
         1 + 2 * uint (EnvReleaseTime p) \<le>
           uint (EnvAttackTime p) + uint (EnvHoldTime p) + 2 * uint (EnvDecayTime p) +
           2 * uint (EnvReleaseTime p)"
proof -
  have t: "m_TriggerAttack1 (SynthTriggerAttack s)"
    and z': "m_ENV1_Output (SynthTriggerAttack s) = 0"
    using z by (simp_all add: SynthTriggerAttack_def)
  obtain s1 where s1: "AmpldEnvelopeGenerator p (SynthTriggerAttack s) = Inr s1"
      "\<not> m_TriggerAttack1 s1" "\<not> m_TriggerRelease1 s1" "EnvSegment s1 \<noteq> ENV_IDLE"
      "0 \<le> m_ENV1_Output s1" "m_ENV1_Output s1 \<le> 1048576"
    using attack_first_tick_bounds [OF a l t z'] by blast
  let ?s2 = "SynthTriggerRelease s1"
  have s2: "\<not> m_TriggerAttack1 ?s2" "m_TriggerRelease1 ?s2" "EnvSegment ?s2 \<noteq> ENV_IDLE"
      "0 \<le> m_ENV1_Output ?s2" "m_ENV1_Output ?s2 \<le> 1048576"
    using s1 by (simp_all add: SynthTriggerRelease_def)
  have run: "\<And>k. attack_tick_release_ticks p k s = AmpldEnvelope_ticks p k ?s2"
    using s1(1) by (simp add: attack_tick_release_ticks_def)
  have "\<exists>s'. AmpldEnvelope_ticks p k ?s2 = Inr s' \<and>
            0 \<le> m_ENV1_Output s' \<and> m_ENV1_Output s' \<le> 1048576 \<and>
            (EnvSegment s' = ENV_IDLE \<longleftrightarrow> int k = 2 * uint (EnvReleaseTime p))"
    if k: "int k \<le> 2 * uint (EnvReleaseTime p)" for k
  proof (cases k)
    case 0
    then show ?thesis using s2 r by simp
  next
    case (Suc m)
    obtain s3 where s3: "AmpldEnvelopeGenerator p ?s2 = Inr s3"
        "\<not> m_TriggerAttack1 s3" "\<not> m_TriggerRelease1 s3" "1 \<le> timeConstant s3"
        "0 \<le> m_ENV1_Output s3" "m_ENV1_Output s3 \<le> m_ENV1_Output ?s2"
        "envPhaseTimer s3 = 1" "EnvSegment s3 = ENV_RELEASE"
      using release_trigger_tick [OF s2(1,2) r s2(4,5)] by blast
    have o3: "m_ENV1_Output s3 \<le> 1048576" using s3(6) s2(5) by simp
    have t0: "0 \<le> envPhaseTimer s3" and t1: "envPhaseTimer s3 < uint (EnvReleaseTime p) * 2"
      using s3(7) r by simp_all
    have t2: "envPhaseTimer s3 + int m \<le> uint (EnvReleaseTime p) * 2"
      using s3(7) k Suc by simp
    obtain s' where s': "AmpldEnvelope_ticks p m s3 = Inr s'"
        "0 \<le> m_ENV1_Output s'" "m_ENV1_Output s' \<le> m_ENV1_Output s3"
        "EnvSegment s' = ENV_IDLE \<longleftrightarrow>
           envPhaseTimer s3 + int m = uint (EnvReleaseTime p) * 2"
      using release_run [OF s3(8,2,3,4,5) o3 t0 t1 t2] by blast
    have "AmpldEnvelope_ticks p k ?s2 = Inr s'"
      using s3(1) s'(1) Suc by simp
    moreover have "m_ENV1_Output s' \<le> 1048576" using s'(3) o3 by simp
    moreover have "EnvSegment s' = ENV_IDLE \<longleftrightarrow> int k = 2 * uint (EnvReleaseTime p)"
      using s'(4) s3(7) Suc by auto
    ultimately show ?thesis using s'(2) by blast
  qed
  then have all: "\<forall>k. int k \<le> 2 * uint (EnvReleaseTime p) \<longrightarrow>
            (\<exists>s'. attack_tick_release_ticks p k s = Inr s' \<and>
                  0 \<le> m_ENV1_Output s' \<and> m_ENV1_Output s' \<le> 1048576 \<and>
                  (EnvSegment s' = ENV_IDLE \<longleftrightarrow> int k = 2 * uint (EnvReleaseTime p)))"
    by (simp only: run) blast
  have bound: "1 + 2 * uint (EnvReleaseTime p) \<le>
           uint (EnvAttackTime p) + uint (EnvHoldTime p) + 2 * uint (EnvDecayTime p) +
           2 * uint (EnvReleaseTime p)"
    using a uint16_range [of "EnvHoldTime p"] uint16_range [of "EnvDecayTime p"] by arith
  show ?thesis
    using s1(1,5,6) all bound by blast
qed

lemma release_after_one_tick_returns_to_idle_example:
  "1 \<le> uint (EnvAttackTime (g_PresetPatch ! 0)) \<and>
   5 \<le> uint (EnvReleaseTime (g_PresetPatch ! 0)) \<and>
   uint (EnvSustainLevel (g_PresetPatch ! 0)) \<le> 100 \<and>
   EnvSegment synth_zero = ENV_IDLE \<and> m_ENV1_Output synth_zero = 0 \<and>
   int 400 \<le> 2 * uint (EnvReleaseTime (g_PresetPatch ! 0)) \<and>
   (\<exists>s'. attack_tick_release_ticks (g_PresetPatch ! 0) 400 synth_zero = Inr s' \<and>
         0 \<le> m_ENV1_Output s' \<and> m_ENV1_Output s' \<le> 1048576 \<and> EnvSegment s' = ENV_IDLE) \<and>
   int 399 \<le> 2 * uint (EnvReleaseTime (g_PresetPatch ! 0)) \<and>
   (\<exists>s'. attack_tick_release_ticks (g_PresetPatch ! 0) 399 synth_zero = Inr s' \<and>
         EnvSegment s' \<noteq> ENV_IDLE)"
proof -
  let ?p = "g_PresetPatch ! 0"
  have a: "1 \<le> uint (EnvAttackTime ?p)" by (simp add: preset_0_envelope)
  have r: "5 \<le> uint (EnvReleaseTime ?p)" by (simp add: preset_0_envelope)
  have l: "uint (EnvSustainLevel ?p) \<le> 100" by (simp add: preset_0_envelope)
  have i: "EnvSegment synth_zero = ENV_IDLE" by (simp add: synth_zero_def)
  have z: "m_ENV1_Output synth_zero = 0" by (simp add: synth_zero_def)
  have k1: "int 400 \<le> 2 * uint (EnvReleaseTime ?p)" by (simp add: preset_0_envelope)
  have k2: "int 399 \<le> 2 * uint (EnvReleaseTime ?p)" by (simp add: preset_0_envelope)
  have e: "int 400 = 2 * uint (EnvReleaseTime ?p)" "int 399 \<noteq> 2 * uint (EnvReleaseTime ?p)"
    by (simp_all add: preset_0_envelope)
  from release_after_one_tick_returns_to_idle [OF a r l i z]
  have all: "\<forall>k. int k \<le> 2 * uint (EnvReleaseTime ?p) \<longrightarrow>
            (\<exists>s'. attack_tick_release_ticks ?p k synth_zero = Inr s' \<and>
                  0 \<le> m_ENV1_Output s' \<and> m_ENV1_Output s' \<le> 1048576 \<and>
                  (EnvSegment s' = ENV_IDLE \<longleftrightarrow> int k = 2 * uint (EnvReleaseTime ?p)))"
    by blast
  have 1: "\<exists>s'. attack_tick_release_ticks ?p 400 synth_zero = Inr s' \<and>
         0 \<le> m_ENV1_Output s' \<and> m_ENV1_Output s' \<le> 1048576 \<and> EnvSegment s' = ENV_IDLE"
    using all k1 e(1) by blast
  have 2: "\<exists>s'. attack_tick_release_ticks ?p 399 synth_zero = Inr s' \<and>
         EnvSegment s' \<noteq> ENV_IDLE"
    using all k2 e(2) by blast
  show ?thesis
    using a r l i z k1 1 k2 2 by (intro conjI)
qed

text \<open>
  C2: the code departs from the claim. \<open>SynthNoteOff\<close> is documented to put the
  envelope shapers into the release phase, the note being terminated when the release
  time expires. When \<open>SynthNoteOn\<close> and \<open>SynthNoteOff\<close> for the same note are both
  executed before the generator is called again, the call that takes the attack trigger
  also clears the release trigger, and the release is lost. For the preset
  \<open>Sound Test\<close> (attack 5, hold 0, decay 200, release 200 ms, sustain 80 percent) and
  note 60 with velocity 100, from the idle engine: after 805 = 5 + 0 + 2 * 200 + 2 * 200
  calls the note-on flag is clear, the generator is in SUSTAIN and its output is the
  sustain level 838860; and for no number \<open>n\<close> of calls does one of them end in the
  idle segment.
\<close>

theorem note_off_before_first_tick_is_lost:
  "envelope_state (note_on_off_then_ticks (g_PresetPatch ! 0) 60 100 805 synth_zero) =
     Inr (False, ENV_SUSTAIN, 838860) \<and>
   \<not> note_on_off_idle_within (g_PresetPatch ! 0) 60 100 n synth_zero"
proof -
  let ?p = "g_PresetPatch ! 0"
  have z: "\<not> m_NoteOn synth_zero" by (simp add: synth_zero_def)
  obtain s1 where s1: "SynthNoteOn ?p 60 100 synth_zero = Inr s1"
      "m_TriggerAttack1 (SynthNoteOff 60 s1)" "\<not> m_NoteOn (SynthNoteOff 60 s1)"
    using note_on_then_off_triggers [OF preset_0_FreqMult z] by blast
  have h: "EnvHoldTime ?p = 0" and a: "EnvAttackTime ?p \<noteq> 0"
    by (simp_all add: preset_0_envelope)
  have f: "IntToFixedPt 80 sdiv 100 = 838860"
    by (simp add: IntToFixedPt_small sdiv_nonneg)
  obtain s' where s': "AmpldEnvelope_ticks ?p (Suc 804) (SynthNoteOff 60 s1) = Inr s'"
      "ampldMaximum s' = IntToFixedPt (uint (EnvSustainLevel ?p)) sdiv 100"
      "if int (Suc 804) < uint (EnvAttackTime ?p)
       then EnvSegment s' = ENV_ATTACK \<and> envPhaseTimer s' = int (Suc 804)
       else EnvSegment s' = ENV_SUSTAIN \<and> m_ENV1_Output s' = ampldMaximum s'"
    using hold_zero_run [OF h a s1(2), of 804] by blast
  have seg: "EnvSegment s' = ENV_SUSTAIN" and out: "m_ENV1_Output s' = 838860"
    using s'(2,3) f by (simp_all add: preset_0_envelope)
  have on: "\<not> m_NoteOn s'"
    using AmpldEnvelope_ticks_NoteOn [OF s'(1)] s1(3) by simp
  have n805: "(805 :: nat) = Suc 804" by simp
  have 1: "envelope_state (note_on_off_then_ticks ?p 60 100 805 synth_zero) =
      Inr (False, ENV_SUSTAIN, 838860)"
    using s1(1) s'(1) seg out on
    by (simp only: note_on_off_then_ticks_def envelope_state_def n805 sum.case)
  have "\<not> AmpldEnvelope_idle_within ?p n (SynthNoteOff 60 s1)"
    using h a s1(2) by (rule hold_zero_never_idle)
  then have 2: "\<not> note_on_off_idle_within ?p 60 100 n synth_zero"
    using s1(1) by (simp add: note_on_off_idle_within_def)
  show ?thesis using 1 2 by (rule conjI)
qed
subsection \<open>Oscillator muting above the frequency ceiling\<close>

lemma and_FFFFF: "(z :: int) AND 0xFFFFF = z mod 1048576"
proof -
  have "(0xFFFFF :: int) = mask 20" by (simp add: mask_eq_exp_minus_1)
  then have "z AND 0xFFFFF = take_bit 20 z" by (simp only: take_bit_eq_mask)
  then show ?thesis by (simp add: take_bit_eq_mod)
qed

lemma Base2Exp_total: "\<exists>y. Base2Exp x = Inr y"
proof -
  define xv where "xv = (if x < - 1048576 \<or> 1048576 < x then 0 else x)"
  define z where "z = s32 (xv + 1048576) sdiv 2"
  define ix where "ix = FractionPart z 13"
  have xr: "- 1048576 \<le> xv" "xv \<le> 1048576" by (auto simp add: xv_def)
  then have "s32 (xv + 1048576) = xv + 1048576" by (intro s32_id) auto
  then have zv: "z = (xv + 1048576) div 2" using xr by (simp add: z_def sdiv_nonneg)
  have "ix = (z mod 1048576) div 128"
    by (simp add: ix_def FractionPart_def and_FFFFF drop_bit_eq_div)
  then have ir: "0 \<le> ix div 8" "ix div 8 < 1024" by (simp_all add: pos_imp_zdiv_nonneg_iff)
  have rd: "\<And>i. 0 \<le> i \<Longrightarrow> i < 1025 \<Longrightarrow>
      table_read ''g_base2exp'' g_base2exp i = Inr (g_base2exp ! nat i)"
    by (simp add: table_read_def length_g_base2exp)
  have r0: "table_read ''g_base2exp'' g_base2exp (ix div 8) = Inr (g_base2exp ! nat (ix div 8))"
    using ir by (intro rd) auto
  have r1: "table_read ''g_base2exp'' g_base2exp (ix div 8 + 1) =
      Inr (g_base2exp ! nat (ix div 8 + 1))"
    using ir by (intro rd) auto
  show ?thesis
    using r0 r1
    unfolding Base2Exp_def IntToFixedPt_1 IntToFixedPt_minus_1 Let_def
    by (simp add: drop_bit_eq_div xv_def [symmetric] z_def [symmetric] ix_def [symmetric])
qed

lemma byte_less_4:
  fixes m :: "8 word"
  assumes "m < 4"
  shows "m = 0 \<or> m = 1 \<or> m = 2 \<or> m = 3"
proof -
  have "unat m < 4" using assms by (simp add: word_less_nat_alt)
  then consider "unat m = 0" | "unat m = 1" | "unat m = 2" | "unat m = 3" by linarith
  then show ?thesis
    by cases (simp_all add: word_unat_eq_iff)
qed

lemma g_base2exp_526: "g_base2exp ! 526 = 16697"
  by (simp add: g_base2exp_def)

lemma g_base2exp_527: "g_base2exp ! 527 = 16720"
  by (simp add: g_base2exp_def)

lemma Base2Exp_28835: "Base2Exp 28835 = Inr 1068608"
  by (simp add: Base2Exp_def IntToFixedPt_1 IntToFixedPt_minus_1 FractionPart_def
      table_read_def length_g_base2exp g_base2exp_526 g_base2exp_527 s32_def Let_def
      drop_bit_eq_div sdiv_nonneg)

lemma preset_5_oscillators:
  "OscFreqMult (g_PresetPatch ! 5) = [1, 6, 9, 8, 0, 11]"
  "OscDetune (g_PresetPatch ! 5) = [0, 33, - 35, 0, 0, 0]"
  "MixerInputStep (g_PresetPatch ! 5) = [9, 13, 13, 0, 0, 0]"
  "OscAmpldModSource (g_PresetPatch ! 5) = [0, 0, 7, 0, 0, 0]"
  by (simp_all add: g_PresetPatch_def)

lemma g_NoteFrequency_90: "g_NoteFrequency ! 90 = 2959.96"
  by (simp add: g_NoteFrequency_def)

lemma g_FreqMultConst_6: "g_FreqMultConst ! 6 = 4"
  by (simp add: g_FreqMultConst_def)

lemma voice_setup_config:
  "FineTuning_cents (g_Config (voice_setup 1)) = 0"
  "VibratoCtrlMode (g_Config (voice_setup 1)) = 0"
  "PitchBendMode (g_Config (voice_setup 1)) = 1"
  by (simp_all add: voice_setup_def PresetSelect_def DefaultConfigData_def voice_zero_def
      Let_def GetNumberOfPresets_32 VIBRATO_DISABLED_def PITCH_BEND_BY_MIDI_MSG_def)

lemma tubular_bells_detuneNorm:
  "OscFreqModulation_detuneNorm (g_Config (voice_setup 1)) (g_PresetPatch ! 5) 1 = Inr 1068608"
  by (simp add: OscFreqModulation_detuneNorm_def preset_5_oscillators voice_setup_config Let_def s16_def
      IntToFixedPt_1 s32_def sdiv_nonneg Base2Exp_28835)

lemma tubular_bells_freqDevn:
  "OscFreqModulation_freqDevn (g_Config (voice_setup 1)) (g_PresetPatch ! 5) synth_zero =
     Inr 1048576"
  by (simp add: OscFreqModulation_freqDevn_def voice_setup_config Let_def synth_zero_def Base2Exp_zero)

lemma tubular_bells_resulting_frequency: "resulting_frequency (g_NoteFrequency ! 90) (g_FreqMultConst ! 6) 1068608 1048576
     > of_int MAX_OSC_FREQ_HZ"
  by (simp add: resulting_frequency_def g_NoteFrequency_90 g_FreqMultConst_6 MAX_OSC_FREQ_HZ_def)

lemma tubular_bells_nominal_frequency: "\<not> g_NoteFrequency ! 90 * g_FreqMultConst ! 6 > of_int MAX_OSC_FREQ_HZ"
  by (simp add: g_NoteFrequency_90 g_FreqMultConst_6 MAX_OSC_FREQ_HZ_def)


lemma g_base2exp_497: "g_base2exp ! 497 = 16054"
  by (simp add: g_base2exp_def)

lemma g_base2exp_498: "g_base2exp ! 498 = 16076"
  by (simp add: g_base2exp_def)

lemma Base2Exp_m30583: "Base2Exp (- 30583) = Inr 1027456"
  by (simp add: Base2Exp_def IntToFixedPt_1 IntToFixedPt_minus_1 FractionPart_def
      table_read_def length_g_base2exp g_base2exp_497 g_base2exp_498 s32_def Let_def
      drop_bit_eq_div sdiv_nonneg)

lemma preset_5_patch: "g_PresetPatch ! 5 =
    \<lparr> PresetName = ''Tubular Bells'',
      OscFreqMult = [1, 6, 9, 8, 0, 11],
      OscAmpldModSource = [0, 0, 7, 0, 0, 0],
      OscDetune = [0, 33, - 35, 0, 0, 0],
      MixerInputStep = [9, 13, 13, 0, 0, 0],
      EnvAttackTime = 5, EnvHoldTime = 100, EnvDecayTime = 2000, EnvSustainLevel = 0, EnvReleaseTime = 2000, AmpControlMode = 2,
      ContourStartLevel = 5, ContourDelayTime = 20, ContourRampTime = 500, ContourHoldLevel = 95,
      Env2DecayTime = 500, Env2SustainLevel = 50,
      LFO_Freq_x10 = 30, LFO_RampTime = 500, LFO_FM_Depth = 10, LFO_AM_Depth = 20,
      MixerOutGain_x10 = 10, LimiterLevelPc = 0 \<rparr>"
  by (simp add: g_PresetPatch_def)

lemma floor_divide_numeral_rat:
  "\<lfloor>(numeral a :: rat) / numeral b\<rfloor> = numeral a div numeral b"
  using floor_divide_of_int_eq [of "numeral a" "numeral b", where ?'a = rat] by simp

lemma tubular_bells_note_102_sounds:
  "holds_after (osc_sounds_above_ceiling 1)
     (note_then_modulation_tick (g_Config (voice_setup 1)) (g_PresetPatch ! 5) 102 synth_zero)"
  apply (simp add: holds_after_def note_then_modulation_tick_def modulation_tick_def
      SynthNoteChange_def SynthNoteChange_osc_def NoteNumInRange_def upt_6 Let_def
      preset_5_patch table_read_def g_FreqMultConst_def length_g_NoteFrequency g_NoteFrequency_def
      WAVE_TABLE_SIZE_def SAMPLE_RATE_HZ_def MAX_OSC_FREQ_HZ_def s32_def push_bit_eq_mult
      floor_divide_numeral_rat)
  apply (simp add: OscFreqModulation_def OscFreqModulation_freqDevn_def
      OscFreqModulation_detuneNorm_def voice_setup_config upt_6 Let_def synth_zero_def
      Base2Exp_zero Base2Exp_28835 Base2Exp_m30583 IntToFixedPt_1 s16_def s32_def sdiv_nonneg
      MultiplyFixed_def drop_bit_eq_div WAVE_TABLE_SIZE_def push_bit_eq_mult)
  apply (simp add: OscAmpldModulation_def OscAmpldModulation_osc_def upt_6 Let_def
      table_read_def g_AmpldLevelLogScale_x1000_def osc_sounds_above_ceiling_def
      osc_frequency_Hz_def IntToFixedPt_1 IntToFixedPt_small s32_def sdiv_nonneg
      OSC_MODN_SOURCE_CONT_POS_def OSC_MODN_SOURCE_CONT_NEG_def OSC_MODN_SOURCE_ENV2_def
      OSC_MODN_SOURCE_MODN_def OSC_MODN_SOURCE_EXPR_POS_def OSC_MODN_SOURCE_EXPR_NEG_def
      OSC_MODN_SOURCE_LFO_def OSC_MODN_SOURCE_VELO_POS_def OSC_MODN_SOURCE_VELO_NEG_def
      WAVE_TABLE_SIZE_def SAMPLE_RATE_HZ_def MAX_OSC_FREQ_HZ_def push_bit_eq_mult
      drop_bit_eq_div)
  done


lemma SynthNoteChange_osc_value:
  assumes "OscFreqMult p ! osc < 12"
  shows "\<exists>step. SynthNoteChange_osc p (NoteNumInRange n) osc =
     Inr (nominal_frequency p n osc > of_int MAX_OSC_FREQ_HZ, step)"
proof -
  have u: "0 \<le> uint (OscFreqMult p ! osc)" "uint (OscFreqMult p ! osc) < 12"
    using assms by (simp_all add: word_less_def)
  then have "table_read ''g_FreqMultConst'' g_FreqMultConst (uint (OscFreqMult p ! osc)) =
      Inr (g_FreqMultConst ! nat (uint (OscFreqMult p ! osc)))"
    by (simp add: table_read_Inr length_g_FreqMultConst)
  then show ?thesis
    by (simp add: SynthNoteChange_osc_def note_table_read Let_def nominal_frequency_def)
qed

lemma SynthNoteChange_muted:
  assumes "\<forall>osc<6. OscFreqMult p ! osc < 12"
  shows "\<exists>s1. SynthNoteChange p n s = Inr s1 \<and>
     (\<forall>osc<6. m_OscMuted s1 ! osc \<longleftrightarrow> nominal_frequency p n osc > of_int MAX_OSC_FREQ_HZ)"
proof -
  have "\<exists>rs. for_each (SynthNoteChange_osc p (NoteNumInRange n)) [0 ..< 6] = Inr rs"
    using assms by (intro for_each_total SynthNoteChange_osc_valid) simp
  then obtain rs where rs: "for_each (SynthNoteChange_osc p (NoteNumInRange n)) [0 ..< 6] = Inr rs"
    by blast
  have len: "length rs = 6"
    and each: "\<forall>i<6. SynthNoteChange_osc p (NoteNumInRange n) ([0 ..< 6] ! i) = Inr (rs ! i)"
    using for_each_nth [OF rs] by simp_all
  have "\<forall>osc<6. fst (rs ! osc) \<longleftrightarrow> nominal_frequency p n osc > of_int MAX_OSC_FREQ_HZ"
  proof (intro allI impI)
    fix osc :: nat
    assume o: "osc < 6"
    then have "SynthNoteChange_osc p (NoteNumInRange n) osc = Inr (rs ! osc)"
      using each by simp
    moreover obtain step where "SynthNoteChange_osc p (NoteNumInRange n) osc =
        Inr (nominal_frequency p n osc > of_int MAX_OSC_FREQ_HZ, step)"
      using SynthNoteChange_osc_value assms o by blast
    ultimately have "rs ! osc = (nominal_frequency p n osc > of_int MAX_OSC_FREQ_HZ, step)"
      by simp
    then show "fst (rs ! osc) \<longleftrightarrow> nominal_frequency p n osc > of_int MAX_OSC_FREQ_HZ"
      by simp
  qed
  then show ?thesis
    using rs len by (simp add: SynthNoteChange_def Let_def)
qed

lemma OscFreqModulation_freqDevn_total:
  assumes "VibratoCtrlMode cfg < 4"
  shows "\<exists>d. OscFreqModulation_freqDevn cfg p s = Inr d"
  using byte_less_4 [OF assms] Base2Exp_total
  by (auto simp add: OscFreqModulation_freqDevn_def Let_def)

lemma OscFreqModulation_total:
  assumes "VibratoCtrlMode cfg < 4"
  shows "\<exists>s1. OscFreqModulation cfg p s = Inr s1 \<and> m_OscMuted s1 = m_OscMuted s"
proof -
  let ?s1 = "s\<lparr> m_LFO_Step :=
      s32 (push_bit 8 (uint (LFO_Freq_x10 p)) sdiv 10 * WAVE_TABLE_SIZE) sdiv 1000 \<rparr>"
  obtain d where d: "OscFreqModulation_freqDevn cfg p ?s1 = Inr d"
    using OscFreqModulation_freqDevn_total [OF assms] by blast
  have "\<exists>rs. for_each
          (\<lambda>osc. case OscFreqModulation_detuneNorm cfg p osc of
                   Inl e \<Rightarrow> Inl e
                 | Inr detuneNorm \<Rightarrow>
                    (let stepDetune = MultiplyFixed (m_OscStepInit ?s1 ! osc) detuneNorm
                     in Inr (stepDetune, MultiplyFixed stepDetune d)))
          [0 ..< 6] = Inr rs"
  proof (intro for_each_total)
    fix osc :: nat
    obtain y where "OscFreqModulation_detuneNorm cfg p osc = Inr y"
      using Base2Exp_total by (auto simp add: OscFreqModulation_detuneNorm_def Let_def)
    then show "\<exists>y. (case OscFreqModulation_detuneNorm cfg p osc of
                   Inl e \<Rightarrow> Inl e
                 | Inr detuneNorm \<Rightarrow>
                    (let stepDetune = MultiplyFixed (m_OscStepInit ?s1 ! osc) detuneNorm
                     in Inr (stepDetune, MultiplyFixed stepDetune d))) = Inr y"
      by (simp add: Let_def)
  qed
  then show ?thesis
    using d by (auto simp add: OscFreqModulation_def Let_def)
qed

lemma mixer_step_index:
  fixes w :: "16 word"
  assumes "w \<le> 16"
  shows "sint w = uint w" "0 \<le> uint w" "uint w < 17" "nat (uint w) = unat w"
proof -
  have u: "uint w \<le> 16" using assms by (simp add: word_le_def)
  have "sint w = signed_take_bit (LENGTH(16) - Suc 0) (uint w)" by (rule sint_uint)
  also have "\<dots> = uint w"
  proof (intro signed_take_bit_int_eq_self)
    have a: "(0 :: int) \<le> uint w" by simp
    have b: "- (2 ^ (LENGTH(16) - Suc 0)) \<le> (0 :: int)" by simp
    show "- (2 ^ (LENGTH(16) - Suc 0)) \<le> uint w" using b a by (rule order_trans)
    show "uint w < 2 ^ (LENGTH(16) - Suc 0)" using u by simp
  qed
  finally show "sint w = uint w" .
  show "0 \<le> uint w" by simp
  show "uint w < 17" using u by simp
  show "nat (uint w) = unat w" by simp
qed

lemma OscAmpldModulation_osc_level:
  assumes "MixerInputStep p ! osc \<le> 16"
  shows "\<exists>modn. OscAmpldModulation_osc p s osc =
     Inr (modn, if m_OscMuted s ! osc then 0
                else g_AmpldLevelLogScale_x1000 ! unat (MixerInputStep p ! osc))"
proof -
  note m = mixer_step_index [OF assms]
  have "table_read ''g_AmpldLevelLogScale_x1000'' g_AmpldLevelLogScale_x1000
      (sint (MixerInputStep p ! osc)) =
      Inr (g_AmpldLevelLogScale_x1000 ! unat (MixerInputStep p ! osc))"
    using m(2,3) by (simp add: m(1) table_read_def g_AmpldLevelLogScale_x1000_def)
  then show ?thesis
    by (simp add: OscAmpldModulation_osc_def Let_def)
qed

lemma OscAmpldModulation_levels:
  assumes "\<forall>osc<6. MixerInputStep p ! osc \<le> 16"
  shows "\<exists>s2. OscAmpldModulation p s = Inr s2 \<and> m_OscMuted s2 = m_OscMuted s \<and>
     (\<forall>osc<6. v_MixerLevel s2 ! osc =
        (if m_OscMuted s ! osc then 0
         else g_AmpldLevelLogScale_x1000 ! unat (MixerInputStep p ! osc)))"
proof -
  have "\<exists>rs. for_each (OscAmpldModulation_osc p s) [0 ..< 6] = Inr rs"
  proof (intro for_each_total)
    fix osc :: nat
    assume "osc \<in> set [0 ..< 6]"
    then have "MixerInputStep p ! osc \<le> 16" using assms by simp
    then show "\<exists>y. OscAmpldModulation_osc p s osc = Inr y"
      using OscAmpldModulation_osc_level by blast
  qed
  then obtain rs where rs: "for_each (OscAmpldModulation_osc p s) [0 ..< 6] = Inr rs"
    by blast
  have len: "length rs = 6"
    and each: "\<forall>i<6. OscAmpldModulation_osc p s ([0 ..< 6] ! i) = Inr (rs ! i)"
    using for_each_nth [OF rs] by simp_all
  have "\<forall>osc<6. snd (rs ! osc) =
        (if m_OscMuted s ! osc then 0
         else g_AmpldLevelLogScale_x1000 ! unat (MixerInputStep p ! osc))"
  proof (intro allI impI)
    fix osc :: nat
    assume o: "osc < 6"
    then have "OscAmpldModulation_osc p s osc = Inr (rs ! osc)"
      using each by simp
    moreover obtain modn where "OscAmpldModulation_osc p s osc =
        Inr (modn, if m_OscMuted s ! osc then 0
                   else g_AmpldLevelLogScale_x1000 ! unat (MixerInputStep p ! osc))"
      using OscAmpldModulation_osc_level assms o by blast
    ultimately have "rs ! osc =
        (modn, if m_OscMuted s ! osc then 0
               else g_AmpldLevelLogScale_x1000 ! unat (MixerInputStep p ! osc))"
      by simp
    then show "snd (rs ! osc) =
        (if m_OscMuted s ! osc then 0
         else g_AmpldLevelLogScale_x1000 ! unat (MixerInputStep p ! osc))"
      by simp
  qed
  then show ?thesis
    using rs len by (simp add: OscAmpldModulation_def)
qed

text \<open>
  C5, as stated, fails: the mute flag is decided from the note frequency times the
  frequency multiplier only. With the preset \<open>Tubular Bells\<close> and note 102 (F#7,
  2959.96 Hz), oscillator 1 has multiplier 4 and a detune of +33 cents: 11839.84 Hz is
  not above the ceiling of 12000 Hz, so the oscillator is not muted and after the next
  modulation tick it is in the mix with a phase step that corresponds to more than
  12000 Hz; the frequency that includes the detune factor (1068608 / 1048576) and the
  modulation factor (1.0, no modulation) is above the ceiling.
\<close>

theorem muting_ignores_detune_counterexample:
  "holds_after (osc_sounds_above_ceiling 1)
     (note_then_modulation_tick (g_Config (voice_setup 1)) (g_PresetPatch ! 5) 102 synth_zero) \<and>
   OscFreqModulation_detuneNorm (g_Config (voice_setup 1)) (g_PresetPatch ! 5) 1 = Inr 1068608 \<and>
   OscFreqModulation_freqDevn (g_Config (voice_setup 1)) (g_PresetPatch ! 5) synth_zero =
     Inr 1048576 \<and>
   nominal_frequency (g_PresetPatch ! 5) 102 1 = g_NoteFrequency ! 90 * g_FreqMultConst ! 6 \<and>
   \<not> nominal_frequency (g_PresetPatch ! 5) 102 1 > of_int MAX_OSC_FREQ_HZ \<and>
   resulting_frequency (g_NoteFrequency ! 90) (g_FreqMultConst ! 6) 1068608 1048576
     > of_int MAX_OSC_FREQ_HZ"
proof -
  have n: "nominal_frequency (g_PresetPatch ! 5) 102 1 = g_NoteFrequency ! 90 * g_FreqMultConst ! 6"
    by (simp add: nominal_frequency_def NoteNumInRange_def preset_5_oscillators)
  show ?thesis
    using tubular_bells_note_102_sounds tubular_bells_detuneNorm tubular_bells_freqDevn n tubular_bells_nominal_frequency tubular_bells_resulting_frequency by (simp only: simp_thms)
qed

text \<open>
  C5, amended. Let the frequency multiplier selectors of the patch be below 12, its mixer
  input steps at most 16 and the vibrato control mode below 4. \<open>SynthNoteChange\<close>
  returns, and it marks an oscillator muted exactly when the note frequency times the
  frequency multiplier exceeds \<open>MAX_OSC_FREQ_HZ\<close> (12000 Hz, 0.375 times the sample
  rate); the detune and modulation factors play no part. The next modulation tick
  returns, keeps the mute flags, sets the mixer level of every muted oscillator to zero
  and that of every other oscillator to the level of its mixer input step.
\<close>

theorem oscillator_muted_by_nominal_frequency:
  assumes "\<forall>osc<6. OscFreqMult p ! osc < 12"
    and "\<forall>osc<6. MixerInputStep p ! osc \<le> 16"
    and "VibratoCtrlMode cfg < 4"
  shows "\<exists>s1 s2. SynthNoteChange p n s = Inr s1 \<and> modulation_tick cfg p s1 = Inr s2 \<and>
     (\<forall>osc<6.
        (m_OscMuted s1 ! osc \<longleftrightarrow> nominal_frequency p n osc > of_int MAX_OSC_FREQ_HZ) \<and>
        m_OscMuted s2 ! osc = m_OscMuted s1 ! osc \<and>
        v_MixerLevel s2 ! osc =
          (if m_OscMuted s1 ! osc then 0
           else g_AmpldLevelLogScale_x1000 ! unat (MixerInputStep p ! osc)))"
proof -
  obtain s1 where s1: "SynthNoteChange p n s = Inr s1"
      "\<forall>osc<6. m_OscMuted s1 ! osc \<longleftrightarrow> nominal_frequency p n osc > of_int MAX_OSC_FREQ_HZ"
    using SynthNoteChange_muted [OF assms(1)] by blast
  obtain sf where sf: "OscFreqModulation cfg p s1 = Inr sf" "m_OscMuted sf = m_OscMuted s1"
    using OscFreqModulation_total [OF assms(3)] by blast
  obtain s2 where s2: "OscAmpldModulation p sf = Inr s2" "m_OscMuted s2 = m_OscMuted sf"
      "\<forall>osc<6. v_MixerLevel s2 ! osc =
        (if m_OscMuted sf ! osc then 0
         else g_AmpldLevelLogScale_x1000 ! unat (MixerInputStep p ! osc))"
    using OscAmpldModulation_levels [OF assms(2)] by blast
  have "modulation_tick cfg p s1 = Inr s2"
    using sf(1) s2(1) by (simp add: modulation_tick_def)
  then show ?thesis
    using s1 sf(2) s2(2,3) by auto
qed

theorem oscillator_muted_by_nominal_frequency_witness:
  "OscFreqMult (g_PresetPatch ! 5) = [1, 6, 9, 8, 0, 11] \<and>
   MixerInputStep (g_PresetPatch ! 5) = [9, 13, 13, 0, 0, 0] \<and>
   VibratoCtrlMode (g_Config (voice_setup 1)) < 4 \<and>
   nominal_frequency (g_PresetPatch ! 5) 120 0 = 8372.02 \<and>
   nominal_frequency (g_PresetPatch ! 5) 120 1 = 33488.08 \<and>
   (\<exists>s1 s2. SynthNoteChange (g_PresetPatch ! 5) 120 synth_zero = Inr s1 \<and>
      modulation_tick (g_Config (voice_setup 1)) (g_PresetPatch ! 5) s1 = Inr s2 \<and>
      \<not> m_OscMuted s1 ! 0 \<and> v_MixerLevel s2 ! 0 = 88 \<and>
      m_OscMuted s1 ! 1 \<and> m_OscMuted s2 ! 1 \<and> v_MixerLevel s2 ! 1 = 0)"
proof -
  let ?p = "g_PresetPatch ! 5"
  let ?c = "g_Config (voice_setup 1)"
  have a1: "\<forall>osc<6. OscFreqMult ?p ! osc < 12"
    by (auto simp add: less_6 preset_5_oscillators)
  have a2: "\<forall>osc<6. MixerInputStep ?p ! osc \<le> 16"
    by (auto simp add: less_6 preset_5_oscillators)
  have a3: "VibratoCtrlMode ?c < 4" by (simp add: voice_setup_config)
  have f0: "nominal_frequency ?p 120 0 = 8372.02"
    by (simp add: nominal_frequency_def NoteNumInRange_def preset_5_oscillators g_NoteFrequency_def
        g_FreqMultConst_def)
  have f1: "nominal_frequency ?p 120 1 = 33488.08"
    by (simp add: nominal_frequency_def NoteNumInRange_def preset_5_oscillators g_NoteFrequency_def
        g_FreqMultConst_def)
  have l0: "g_AmpldLevelLogScale_x1000 ! unat (MixerInputStep ?p ! 0) = 88"
    by (simp add: preset_5_oscillators g_AmpldLevelLogScale_x1000_def)
  obtain s1 s2 where r: "SynthNoteChange ?p 120 synth_zero = Inr s1"
      "modulation_tick ?c ?p s1 = Inr s2"
      "\<forall>osc<6.
        (m_OscMuted s1 ! osc \<longleftrightarrow> nominal_frequency ?p 120 osc > of_int MAX_OSC_FREQ_HZ) \<and>
        m_OscMuted s2 ! osc = m_OscMuted s1 ! osc \<and>
        v_MixerLevel s2 ! osc =
          (if m_OscMuted s1 ! osc then 0
           else g_AmpldLevelLogScale_x1000 ! unat (MixerInputStep ?p ! osc))"
    using oscillator_muted_by_nominal_frequency [OF a1 a2 a3, of 120 synth_zero] by blast
  have m0: "\<not> m_OscMuted s1 ! 0" using r(3) f0 by (simp add: MAX_OSC_FREQ_HZ_def)
  have m1: "m_OscMuted s1 ! 1" using r(3) f1 by (simp add: MAX_OSC_FREQ_HZ_def)
  have v0: "v_MixerLevel s2 ! 0 = 88" using r(3) m0 l0 by simp
  have v1: "v_MixerLevel s2 ! 1 = 0" "m_OscMuted s2 ! 1" using r(3) m1 by simp_all
  have "\<exists>s1 s2. SynthNoteChange ?p 120 synth_zero = Inr s1 \<and>
      modulation_tick ?c ?p s1 = Inr s2 \<and>
      \<not> m_OscMuted s1 ! 0 \<and> v_MixerLevel s2 ! 0 = 88 \<and>
      m_OscMuted s1 ! 1 \<and> m_OscMuted s2 ! 1 \<and> v_MixerLevel s2 ! 1 = 0"
    using r(1,2) m0 v0 m1 v1 by blast
  then show ?thesis
    using preset_5_oscillators(1,3) a3 f0 f1 by (intro conjI)
qed

end
